theory Spec2Isabelle
  imports Complex_Main
begin

section \<open>CEM-RL: the population loop of \<^verbatim>\<open>torchy_baselines/cem_rl/cem_rl.py\<close>\<close>

text \<open>
  The class \<^verbatim>\<open>CEMRL\<close> drives collaborators that live outside the file: the
  evolutionary strategy, the actor and target networks, the TD3 critic and actor updates,
  the replay buffer, the environment, the evaluator and NumPy's random generator.  Their
  joint state is an abstract world \<open>'w\<close>; each collaborator is a function on it, collected
  in the record \<open>collab\<close>.  Every call the loop makes is applied to the world and also
  appended, with its arguments and its result, to the list \<open>calls\<close> of the loop state, so
  that a statement about what is passed to whom is a statement about that list.

  Python's unbounded integers are \<open>int\<close>; floating-point numbers are idealised as
  \<open>real\<close>.  Collaborators are taken to return (the source has no handler around any of
  them); console output under \<^verbatim>\<open>verbose\<close> and the wall clock are left out.  The
  callback and the evaluator receive the object and may change the world, but are taken
  not to assign the loop's own counters.
\<close>

subsection \<open>Values and errors\<close>

datatype error =
  IndexError | ZeroDivisionError | ValueError | FileNotFoundError | OSError | RuntimeError

datatype pyobj = PyBool bool | PyNone | PyInt int | PyFloat real | PyStr string

type_synonym vec = "real list"
type_synonym observation = "real list"
type_synonym action = "real list"

record transition =
  t_obs :: observation
  t_next_obs :: observation
  t_action :: action
  t_reward :: real
  t_done :: pyobj

type_synonym batch = "transition list"

datatype call =
    EsAsk int "vec list"
  | Callback pyobj
  | ActorLoad vec
  | TargetLoad vec
  | NewOptimizer real
  | BufferSample int batch
  | TrainCritic batch
  | TrainActor batch
  | ParametersToVector vec
  | EvaluatePolicy int real
  | EnvReset observation
  | SpaceSample action
  | SelectAction observation action
  | RandomNormal real real nat "real list"
  | EnvStep action observation real bool
  | BufferAdd transition
  | EsTell "vec list" "real list"

subsection \<open>Configuration, collaborators and loop state\<close>

text \<open>
  The attributes of \<^verbatim>\<open>self\<close> that \<^verbatim>\<open>learn\<close> only reads.  \<open>max_episode_steps\<close> is
  \<open>None\<close> when the environment has no attribute \<^verbatim>\<open>_max_episode_steps\<close>;
  \<open>action_dim\<close> is \<^verbatim>\<open>self.action_space.shape[0]\<close>.
\<close>

record config =
  sigma_init :: real
  pop_size :: int
  damp :: real
  damp_limit :: real
  elitism :: bool
  n_grad :: int
  policy_freq :: int
  batch_size :: int
  buffer_size :: int
  learning_rate :: real
  seed :: int
  action_noise_std :: real
  start_timesteps :: int
  verbose :: int
  max_action :: real
  max_episode_steps :: "int option"
  action_dim :: nat

record 'w collab =
  es_ask :: "int \<Rightarrow> 'w \<Rightarrow> vec list \<times> 'w"
  es_tell :: "vec list \<Rightarrow> real list \<Rightarrow> 'w \<Rightarrow> 'w"
  es_mu :: "'w \<Rightarrow> vec"
  actor_load_from_vector :: "vec \<Rightarrow> 'w \<Rightarrow> 'w"
  target_load_from_vector :: "vec \<Rightarrow> 'w \<Rightarrow> 'w"
  new_optimizer :: "real \<Rightarrow> 'w \<Rightarrow> 'w"
  buffer_sample :: "int \<Rightarrow> 'w \<Rightarrow> batch \<times> 'w"
  train_critic :: "batch \<Rightarrow> 'w \<Rightarrow> 'w"
  train_actor :: "batch \<Rightarrow> 'w \<Rightarrow> 'w"
  parameters_to_vector :: "'w \<Rightarrow> vec"
  evaluate_policy :: "int \<Rightarrow> 'w \<Rightarrow> real \<times> 'w"
  env_reset :: "'w \<Rightarrow> observation \<times> 'w"
  space_sample :: "'w \<Rightarrow> action \<times> 'w"
  select_action :: "observation \<Rightarrow> 'w \<Rightarrow> action \<times> 'w"
  random_normal :: "real \<Rightarrow> real \<Rightarrow> nat \<Rightarrow> 'w \<Rightarrow> real list \<times> 'w"
  env_step :: "action \<Rightarrow> 'w \<Rightarrow> (observation \<times> real \<times> bool) \<times> 'w"
  buffer_add :: "transition \<Rightarrow> 'w \<Rightarrow> 'w"

text \<open>
  The mutable attributes of \<^verbatim>\<open>self\<close> (\<open>num_timesteps\<close>, \<open>fitnesses\<close>,
  \<open>es_params\<close>), the local variables of \<^verbatim>\<open>learn\<close>, the list of calls and the world.
  \<open>done_v\<close> is the local \<^verbatim>\<open>done\<close>.
\<close>

record 'w state =
  num_timesteps :: int
  fitnesses :: "real list"
  es_params :: "vec list"
  timesteps_since_eval :: int
  actor_steps :: int
  episode_num :: int
  evaluations :: "real list"
  obs :: observation
  episode_reward :: real
  episode_timesteps :: int
  done_v :: bool
  calls :: "call list"
  world :: 'w

definition record_call :: "call \<Rightarrow> 'w \<Rightarrow> 'w state \<Rightarrow> 'w state" where
  "record_call ev w s = s\<lparr>calls := calls s @ [ev], world := w\<rparr>"

subsection \<open>Python and NumPy primitives\<close>

definition py_range :: "int \<Rightarrow> int list" where
  "py_range n = map int [0..<nat n]"

text \<open>
  Indexing a sequence of length \<open>len\<close>: an index from \<open>-len\<close> up to \<open>len - 1\<close> is
  accepted, a negative one counting from the end; any other raises.
\<close>

definition py_index :: "nat \<Rightarrow> int \<Rightarrow> error + nat" where
  "py_index len i =
     (if - int len \<le> i \<and> i < int len
      then Inr (nat (if i < 0 then i + int len else i))
      else Inl IndexError)"

definition py_getitem :: "'a list \<Rightarrow> int \<Rightarrow> error + 'a" where
  "py_getitem xs i =
     (case py_index (length xs) i of Inl e \<Rightarrow> Inl e | Inr j \<Rightarrow> Inr (xs ! j))"

definition py_setitem :: "'a list \<Rightarrow> int \<Rightarrow> 'a \<Rightarrow> error + 'a list" where
  "py_setitem xs i v =
     (case py_index (length xs) i of Inl e \<Rightarrow> Inl e | Inr j \<Rightarrow> Inr (xs[j := v]))"

definition py_floordiv :: "int \<Rightarrow> int \<Rightarrow> error + int" where
  "py_floordiv a b = (if b = 0 then Inl ZeroDivisionError else Inr (a div b))"

definition py_mod :: "int \<Rightarrow> int \<Rightarrow> error + int" where
  "py_mod a b = (if b = 0 then Inl ZeroDivisionError else Inr (a mod b))"

definition endswith :: "string \<Rightarrow> string \<Rightarrow> bool" where
  "endswith s suf =
     (length suf \<le> length s \<and> drop (length s - length suf) s = suf)"

text \<open>Addition of two one-dimensional arrays, with NumPy's broadcasting of a length-one operand.\<close>

definition np_add :: "real list \<Rightarrow> real list \<Rightarrow> error + real list" where
  "np_add xs ys =
     (if length xs = length ys then Inr (map2 (+) xs ys)
      else if length xs = 1 then Inr (map (\<lambda>y. hd xs + y) ys)
      else if length ys = 1 then Inr (map (\<lambda>x. x + hd ys) xs)
      else Inl ValueError)"

definition np_clip :: "real \<Rightarrow> real \<Rightarrow> real list \<Rightarrow> real list" where
  "np_clip lo hi xs = map (\<lambda>x. min (max x lo) hi) xs"

definition np_scale :: "real \<Rightarrow> real list \<Rightarrow> real list" where
  "np_scale k xs = map (\<lambda>x. k * x) xs"

definition py_float :: "bool \<Rightarrow> pyobj" where
  "py_float b = PyFloat (if b then 1 else 0)"

subsection \<open>Loops\<close>

text \<open>A \<^verbatim>\<open>for\<close> loop whose body may raise: the first error ends it.\<close>

fun for_each :: "('a \<Rightarrow> 's \<Rightarrow> error + 's) \<Rightarrow> 'a list \<Rightarrow> 's \<Rightarrow> error + 's" where
  "for_each f [] s = Inr s"
| "for_each f (x # xs) s =
     (case f x s of Inl e \<Rightarrow> Inl e | Inr s' \<Rightarrow> for_each f xs s')"

text \<open>A \<^verbatim>\<open>for\<close> loop whose body may raise or may not return (\<open>None\<close>).\<close>

fun for_each_partial ::
  "('a \<Rightarrow> 's \<Rightarrow> (error + 's) option) \<Rightarrow> 'a list \<Rightarrow> 's \<Rightarrow> (error + 's) option" where
  "for_each_partial f [] s = Some (Inr s)"
| "for_each_partial f (x # xs) s =
     (case f x s of
        None \<Rightarrow> None
      | Some (Inl e) \<Rightarrow> Some (Inl e)
      | Some (Inr s') \<Rightarrow> for_each_partial f xs s')"

subsection \<open>The rollout of one candidate (lines 122 to 167)\<close>

text \<open>Lines 133 to 136: a random action during warm-up, the policy's action afterwards.\<close>

definition choose_action :: "'w collab \<Rightarrow> config \<Rightarrow> 'w state \<Rightarrow> action \<times> 'w state" where
  "choose_action c cfg s =
     (if num_timesteps s < start_timesteps cfg
      then (case space_sample c (world s) of
              (a, w) \<Rightarrow> (a, record_call (SpaceSample a) w s))
      else (case select_action c (obs s) (world s) of
              (a, w) \<Rightarrow> (a, record_call (SelectAction (obs s) a) w s)))"

text \<open>Lines 138 to 141: the noise is added to the unscaled action and the sum is clipped.\<close>

definition add_noise ::
  "'w collab \<Rightarrow> config \<Rightarrow> action \<Rightarrow> 'w state \<Rightarrow> error + (action \<times> 'w state)" where
  "add_noise c cfg a s =
     (if action_noise_std cfg > 0
      then (case random_normal c 0 (action_noise_std cfg) (action_dim cfg) (world s) of
              (noise, w) \<Rightarrow>
                (case np_add a noise of
                   Inl e \<Rightarrow> Inl e
                 | Inr a' \<Rightarrow>
                     Inr (np_clip (- 1) 1 a',
                          record_call
                            (RandomNormal 0 (action_noise_std cfg) (action_dim cfg) noise) w s)))
      else Inr (a, s))"

text \<open>Lines 146 to 149.\<close>

definition done_bool :: "config \<Rightarrow> int \<Rightarrow> bool \<Rightarrow> pyobj" where
  "done_bool cfg ep_timesteps dn =
     (case max_episode_steps cfg of
        Some m \<Rightarrow> (if ep_timesteps + 1 = m then PyInt 0 else py_float dn)
      | None \<Rightarrow> py_float dn)"

text \<open>Lines 144 to 160, after the action is chosen: step, store, count.\<close>

definition step_and_store :: "'w collab \<Rightarrow> config \<Rightarrow> action \<Rightarrow> 'w state \<Rightarrow> 'w state" where
  "step_and_store c cfg a s =
     (case env_step c (np_scale (max_action cfg) a) (world s) of
        ((new_obs, reward, dn), w1) \<Rightarrow>
          (let s1 = record_call (EnvStep (np_scale (max_action cfg) a) new_obs reward dn) w1 s;
               tr = \<lparr>t_obs = obs s1, t_next_obs = new_obs, t_action = a, t_reward = reward,
                     t_done = done_bool cfg (episode_timesteps s1) dn\<rparr>;
               s2 = record_call (BufferAdd tr) (buffer_add c tr (world s1)) s1
           in s2\<lparr>done_v := dn,
                 episode_reward := episode_reward s2 + reward,
                 obs := new_obs,
                 episode_timesteps := episode_timesteps s2 + 1,
                 num_timesteps := num_timesteps s2 + 1\<rparr>))"

text \<open>The body of \<^verbatim>\<open>while not done\<close> (lines 132 to 160).\<close>

definition rollout_step :: "'w collab \<Rightarrow> config \<Rightarrow> 'w state \<Rightarrow> error + 'w state" where
  "rollout_step c cfg s =
     (case choose_action c cfg s of
        (a, s1) \<Rightarrow>
          (case add_noise c cfg a s1 of
             Inl e \<Rightarrow> Inl e
           | Inr (a', s2) \<Rightarrow> Inr (step_and_store c cfg a' s2)))"

text \<open>The loop \<^verbatim>\<open>while not done\<close>: an environment that never signals the end gives \<open>None\<close>.\<close>

partial_function (option) episode_loop ::
  "'w collab \<Rightarrow> config \<Rightarrow> 'w state \<Rightarrow> (error + 'w state) option" where
  "episode_loop c cfg s =
     (if \<not> done_v s
      then (case rollout_step c cfg s of
              Inl e \<Rightarrow> Some (Inl e)
            | Inr s' \<Rightarrow> episode_loop c cfg s')
      else Some (Inr s))"

text \<open>Lines 122 to 167: one candidate's episode.\<close>

definition rollout_member ::
  "'w collab \<Rightarrow> config \<Rightarrow> vec \<Rightarrow> 'w state \<Rightarrow> (error + 'w state) option" where
  "rollout_member c cfg params s =
     (let s1 = record_call (ActorLoad params) (actor_load_from_vector c params (world s)) s
      in case env_reset c (world s1) of
           (o0, w) \<Rightarrow>
             (let s2 = (record_call (EnvReset o0) w s1)
                         \<lparr>obs := o0, episode_reward := 0, episode_timesteps := 0,
                          episode_num := episode_num s1 + 1, done_v := False\<rparr>
              in case episode_loop c cfg s2 of
                   None \<Rightarrow> None
                 | Some (Inl e) \<Rightarrow> Some (Inl e)
                 | Some (Inr s3) \<Rightarrow>
                     Some (Inr (s3\<lparr>actor_steps := actor_steps s3 + episode_timesteps s3,
                                    fitnesses := fitnesses s3 @ [episode_reward s3]\<rparr>))))"

subsection \<open>The gradient phase (lines 73 to 102)\<close>

text \<open>Lines 93 to 99: one iteration of the inner loop, \<open>it\<close> its index.\<close>

definition grad_iter :: "'w collab \<Rightarrow> config \<Rightarrow> int \<Rightarrow> 'w state \<Rightarrow> error + 'w state" where
  "grad_iter c cfg it s =
     (case buffer_sample c (batch_size cfg) (world s) of
        (replay_data, w) \<Rightarrow>
          (let s1 = record_call (BufferSample (batch_size cfg) replay_data) w s;
               s2 = record_call (TrainCritic replay_data)
                      (train_critic c replay_data (world s1)) s1
           in case py_mod it (policy_freq cfg) of
                Inl e \<Rightarrow> Inl e
              | Inr r \<Rightarrow>
                  Inr (if r = 0
                       then record_call (TrainActor replay_data)
                              (train_actor c replay_data (world s2)) s2
                       else s2)))"

text \<open>Lines 78 to 102: the body of \<^verbatim>\<open>for i in range(self.n_grad)\<close>.\<close>

definition train_member :: "'w collab \<Rightarrow> config \<Rightarrow> int \<Rightarrow> 'w state \<Rightarrow> error + 'w state" where
  "train_member c cfg i s =
     (case py_getitem (es_params s) i of
        Inl e \<Rightarrow> Inl e
      | Inr v \<Rightarrow>
          (let s1 = record_call (ActorLoad v) (actor_load_from_vector c v (world s)) s;
               s2 = record_call (TargetLoad v) (target_load_from_vector c v (world s1)) s1;
               s3 = record_call (NewOptimizer (learning_rate cfg))
                      (new_optimizer c (learning_rate cfg) (world s2)) s2
           in case py_floordiv (actor_steps s3) (n_grad cfg) of
                Inl e \<Rightarrow> Inl e
              | Inr q \<Rightarrow>
                  (case for_each (grad_iter c cfg) (py_range (2 * q)) s3 of
                     Inl e \<Rightarrow> Inl e
                   | Inr s4 \<Rightarrow>
                       (let v' = parameters_to_vector c (world s4)
                        in case py_setitem (es_params s4) i v' of
                             Inl e \<Rightarrow> Inl e
                           | Inr ps \<Rightarrow>
                               Inr ((record_call (ParametersToVector v') (world s4) s4)
                                      \<lparr>es_params := ps\<rparr>)))))"

definition gradient_phase :: "'w collab \<Rightarrow> config \<Rightarrow> 'w state \<Rightarrow> error + 'w state" where
  "gradient_phase c cfg s =
     (if num_timesteps s > 0
      then for_each (train_member c cfg) (py_range (n_grad cfg)) s
      else Inr s)"

subsection \<open>Evaluation, rollouts and tell (lines 104 to 172)\<close>

text \<open>
  Lines 105 to 111.  The divisor of \<^verbatim>\<open>%=\<close> is positive under the guard, so the
  remainder is HOL's \<open>mod\<close> on \<open>int\<close>, which agrees with Python's there.
\<close>

definition evaluation_phase ::
  "'w collab \<Rightarrow> config \<Rightarrow> int \<Rightarrow> int \<Rightarrow> 'w state \<Rightarrow> 'w state" where
  "evaluation_phase c cfg eval_freq n_eval_episodes s =
     (if 0 < eval_freq \<and> eval_freq \<le> timesteps_since_eval s
      then (let s1 = s\<lparr>timesteps_since_eval := timesteps_since_eval s mod eval_freq\<rparr>;
                mu = es_mu c (world s1);
                s2 = record_call (ActorLoad mu) (actor_load_from_vector c mu (world s1)) s1
            in case evaluate_policy c n_eval_episodes (world s2) of
                 (mean_reward, w) \<Rightarrow>
                   (record_call (EvaluatePolicy n_eval_episodes mean_reward) w s2)
                     \<lparr>evaluations := evaluations s2 @ [mean_reward]\<rparr>)
      else s)"

text \<open>Lines 118 to 167.\<close>

definition rollout_phase ::
  "'w collab \<Rightarrow> config \<Rightarrow> 'w state \<Rightarrow> (error + 'w state) option" where
  "rollout_phase c cfg s =
     (let s1 = s\<lparr>actor_steps := 0\<rparr>
      in for_each_partial (rollout_member c cfg) (es_params s1) s1)"

text \<open>Lines 169 to 172.\<close>

definition tell_phase :: "'w collab \<Rightarrow> 'w state \<Rightarrow> 'w state" where
  "tell_phase c s =
     (let s1 = record_call (EsTell (es_params s) (fitnesses s))
                 (es_tell c (es_params s) (fitnesses s) (world s)) s
      in s1\<lparr>timesteps_since_eval := timesteps_since_eval s1 + actor_steps s1\<rparr>)"

subsection \<open>One generation and the outer loop (lines 57 to 173)\<close>

datatype flow = Break | Continue

text \<open>Lines 65 and 66.\<close>

definition ask_phase :: "'w collab \<Rightarrow> config \<Rightarrow> 'w state \<Rightarrow> 'w state" where
  "ask_phase c cfg s =
     (let s1 = s\<lparr>fitnesses := []\<rparr>
      in case es_ask c (pop_size cfg) (world s1) of
           (population, w) \<Rightarrow>
             (record_call (EsAsk (pop_size cfg) population) w s1)\<lparr>es_params := population\<rparr>)"

text \<open>
  Lines 68 to 71.  The callback sees the whole state and returns any Python object;
  \<^verbatim>\<open>is False\<close> holds for the object \<^verbatim>\<open>False\<close> alone.
\<close>

type_synonym 'w callback = "'w state \<Rightarrow> pyobj \<times> 'w"

definition callback_hook :: "'w callback option \<Rightarrow> 'w state \<Rightarrow> flow \<times> 'w state" where
  "callback_hook callback s =
     (case callback of
        None \<Rightarrow> (Continue, s)
      | Some f \<Rightarrow>
          (case f s of
             (r, w) \<Rightarrow>
               (if r = PyBool False then Break else Continue, record_call (Callback r) w s)))"

text \<open>The body of the outer \<^verbatim>\<open>while\<close> (lines 65 to 172).\<close>

definition generation ::
  "'w collab \<Rightarrow> config \<Rightarrow> 'w callback option \<Rightarrow> int \<Rightarrow> int \<Rightarrow> 'w state
     \<Rightarrow> (error + flow \<times> 'w state) option" where
  "generation c cfg callback eval_freq n_eval_episodes s =
     (case callback_hook callback (ask_phase c cfg s) of
        (Break, s1) \<Rightarrow> Some (Inr (Break, s1))
      | (Continue, s1) \<Rightarrow>
          (case gradient_phase c cfg s1 of
             Inl e \<Rightarrow> Some (Inl e)
           | Inr s2 \<Rightarrow>
               (case rollout_phase c cfg (evaluation_phase c cfg eval_freq n_eval_episodes s2) of
                  None \<Rightarrow> None
                | Some (Inl e) \<Rightarrow> Some (Inl e)
                | Some (Inr s3) \<Rightarrow> Some (Inr (Continue, tell_phase c s3)))))"

partial_function (option) learn_loop ::
  "'w collab \<Rightarrow> config \<Rightarrow> int \<Rightarrow> 'w callback option \<Rightarrow> int \<Rightarrow> int \<Rightarrow> 'w state
     \<Rightarrow> (error + 'w state) option" where
  "learn_loop c cfg total_timesteps callback eval_freq n_eval_episodes s =
     (if num_timesteps s < total_timesteps
      then (case generation c cfg callback eval_freq n_eval_episodes s of
              None \<Rightarrow> None
            | Some (Inl e) \<Rightarrow> Some (Inl e)
            | Some (Inr (Break, s')) \<Rightarrow> Some (Inr s')
            | Some (Inr (Continue, s')) \<Rightarrow>
                learn_loop c cfg total_timesteps callback eval_freq n_eval_episodes s')
      else Some (Inr s))"

text \<open>
  \<^verbatim>\<open>learn\<close> (lines 54 to 173).  The parameters \<^verbatim>\<open>log_interval\<close>,
  \<^verbatim>\<open>tb_log_name\<close> and \<^verbatim>\<open>reset_num_timesteps\<close> are never read by the body.
\<close>

definition learn ::
  "'w collab \<Rightarrow> config \<Rightarrow> int \<Rightarrow> 'w callback option \<Rightarrow> int \<Rightarrow> int \<Rightarrow> 'w state
     \<Rightarrow> (error + 'w state) option" where
  "learn c cfg total_timesteps callback eval_freq n_eval_episodes s =
     learn_loop c cfg total_timesteps callback eval_freq n_eval_episodes
       (s\<lparr>timesteps_since_eval := 0, actor_steps := 0, episode_num := 0, evaluations := []\<rparr>)"

subsection \<open>Construction (lines 21 to 52)\<close>

text \<open>What \<^verbatim>\<open>CEMRL.__init__\<close> hands to the constructor of the base class \<^verbatim>\<open>TD3\<close>.\<close>

record td3_args =
  a_verbose :: int
  a_buffer_size :: int
  a_learning_rate :: real
  a_seed :: int
  a_action_noise_std :: real
  a_start_timesteps :: int
  a_policy_freq :: int
  a_batch_size :: int
  a_max_action :: real
  a_max_episode_steps :: "int option"
  a_action_dim :: nat

text \<open>What \<^verbatim>\<open>_setup_model\<close> hands to the constructor of \<^verbatim>\<open>CEM\<close>.\<close>

record cem_args =
  c_num_params :: nat
  c_mu_init :: vec
  c_sigma_init :: real
  c_damp :: real
  c_damp_limit :: real
  c_pop_size :: int
  c_antithetic :: bool
  c_parents :: int
  c_elitism :: bool

text \<open>
  The constructors outside the file; each may raise.  \<open>td3_init\<close> is
  \<^verbatim>\<open>TD3.__init__\<close> with \<^verbatim>\<open>_init_setup_model=False\<close>, \<open>td3_setup_model\<close> is
  \<^verbatim>\<open>TD3._setup_model\<close>, \<open>cem_new\<close> is \<^verbatim>\<open>CEM(...)\<close>.
\<close>

record 'w constructors =
  td3_init :: "td3_args \<Rightarrow> error + 'w"
  td3_setup_model :: "'w \<Rightarrow> error + 'w"
  cem_new :: "cem_args \<Rightarrow> 'w \<Rightarrow> error + 'w"

text \<open>
  Modelled from the spec: the counter \<^verbatim>\<open>num_timesteps\<close> is an attribute of the base
  class \<^verbatim>\<open>TD3\<close>, which is not in the file; the spec says the counters are reset at
  construction only, so a new object has \<open>num_timesteps = 0\<close>.  Lines 40 and 41 give
  \<^verbatim>\<open>es_params = None\<close> (here the empty list) and \<^verbatim>\<open>fitnesses = []\<close>.
\<close>

definition new_object :: "'w \<Rightarrow> 'w state" where
  "new_object w =
     \<lparr>num_timesteps = 0, fitnesses = [], es_params = [], timesteps_since_eval = 0,
      actor_steps = 0, episode_num = 0, evaluations = [], obs = [], episode_reward = 0,
      episode_timesteps = 0, done_v = False, calls = [], world = w\<rparr>"

text \<open>Lines 46 to 52.\<close>

definition setup_model :: "'w constructors \<Rightarrow> 'w collab \<Rightarrow> config \<Rightarrow> 'w \<Rightarrow> error + 'w" where
  "setup_model k c cfg w =
     (case td3_setup_model k w of
        Inl e \<Rightarrow> Inl e
      | Inr w1 \<Rightarrow>
          (let params_vector = parameters_to_vector c w1
           in cem_new k
                \<lparr>c_num_params = length params_vector, c_mu_init = params_vector,
                 c_sigma_init = sigma_init cfg, c_damp = damp cfg,
                 c_damp_limit = damp_limit cfg, c_pop_size = pop_size cfg,
                 c_antithetic = (pop_size cfg mod 2 = 0), c_parents = pop_size cfg div 2,
                 c_elitism = elitism cfg\<rparr> w1))"

text \<open>Lines 21 to 44; the last argument is \<^verbatim>\<open>_init_setup_model\<close>.\<close>

definition init ::
  "'w constructors \<Rightarrow> 'w collab \<Rightarrow> config \<Rightarrow> bool \<Rightarrow> error + 'w state" where
  "init k c cfg init_setup_model =
     (case td3_init k
             \<lparr>a_verbose = verbose cfg, a_buffer_size = buffer_size cfg,
              a_learning_rate = learning_rate cfg, a_seed = seed cfg,
              a_action_noise_std = action_noise_std cfg,
              a_start_timesteps = start_timesteps cfg, a_policy_freq = policy_freq cfg,
              a_batch_size = batch_size cfg, a_max_action = max_action cfg,
              a_max_episode_steps = max_episode_steps cfg, a_action_dim = action_dim cfg\<rparr> of
        Inl e \<Rightarrow> Inl e
      | Inr w \<Rightarrow>
          (if init_setup_model
           then (case setup_model k c cfg w of
                   Inl e \<Rightarrow> Inl e
                 | Inr w1 \<Rightarrow> Inr (new_object w1))
           else Inr (new_object w)))"

subsection \<open>Persistence (lines 175 to 186)\<close>

text \<open>
  The file system holds the stored state dictionaries \<open>'d\<close> by path and says which paths
  can be written (the name is valid, its directory exists, the process may write there).
  \<^verbatim>\<open>th.save\<close> to any other path raises (\<^verbatim>\<open>OSError\<close> stands for it and its
  subclasses) and writes nothing; \<^verbatim>\<open>th.load\<close> of a path that holds nothing raises.  \<^verbatim>\<open>load_state_dict\<close> raises when the dictionary does not fit
  the policy.
\<close>

record 'd file_system =
  files :: "string \<rightharpoonup> 'd"
  writable :: "string \<Rightarrow> bool"

record ('w, 'd) persistence =
  state_dict :: "'w \<Rightarrow> 'd"
  load_state_dict :: "'d \<Rightarrow> 'w \<Rightarrow> error + 'w"
  create_aliases :: "'w \<Rightarrow> 'w"

text \<open>Lines 176 and 177.\<close>

definition save_path :: "string \<Rightarrow> string" where
  "save_path path = (if \<not> endswith path ''.pth'' then path @ ''.pth'' else path)"

text \<open>Lines 181 and 182.\<close>

definition load_path :: "string \<Rightarrow> string" where
  "load_path path = (if \<not> endswith path ''.pth'' then path @ ''.pth'' else path)"

text \<open>Line 178.\<close>

definition th_save :: "'d \<Rightarrow> string \<Rightarrow> 'd file_system \<Rightarrow> error + 'd file_system" where
  "th_save d path fs =
     (if writable fs path then Inr (fs\<lparr>files := (files fs)(path \<mapsto> d)\<rparr>) else Inl OSError)"

definition th_load :: "string \<Rightarrow> 'd file_system \<Rightarrow> error + 'd" where
  "th_load path fs = (case files fs path of None \<Rightarrow> Inl FileNotFoundError | Some d \<Rightarrow> Inr d)"

definition save ::
  "('w, 'd) persistence \<Rightarrow> string \<Rightarrow> 'w \<Rightarrow> 'd file_system \<Rightarrow> error + 'd file_system" where
  "save p path w fs = th_save (state_dict p w) (save_path path) fs"

definition load ::
  "('w, 'd) persistence \<Rightarrow> string \<Rightarrow> 'w \<Rightarrow> 'd file_system \<Rightarrow> error + 'w" where
  "load p path w fs =
     (case th_load (load_path path) fs of
        Inl e \<Rightarrow> Inl e
      | Inr d \<Rightarrow>
          (case load_state_dict p d w of
             Inl e \<Rightarrow> Inl e
           | Inr w' \<Rightarrow> Inr (create_aliases p w')))"

section \<open>Observations on the list of calls\<close>

subsection \<open>Projections\<close>

text \<open>
  What the statements below read off a list of calls: the number of environment steps
  and of optimizer re-initialisations, the vectors loaded into the actor and the vectors
  read back from it, the raw done signals of the environment steps and the done flags
  written to the replay buffer.  \<open>new_calls s s'\<close> is what a run from \<open>s\<close> to \<open>s'\<close> added.
\<close>

fun is_env_step :: "call \<Rightarrow> bool" where
  "is_env_step (EnvStep a ob r d) = True"
| "is_env_step _ = False"

fun is_new_optimizer :: "call \<Rightarrow> bool" where
  "is_new_optimizer (NewOptimizer lr) = True"
| "is_new_optimizer _ = False"

fun actor_load_arg :: "call \<Rightarrow> vec list" where
  "actor_load_arg (ActorLoad v) = [v]"
| "actor_load_arg _ = []"

fun extracted_arg :: "call \<Rightarrow> vec list" where
  "extracted_arg (ParametersToVector v) = [v]"
| "extracted_arg _ = []"

fun stored_flag :: "call \<Rightarrow> pyobj list" where
  "stored_flag (BufferAdd tr) = [t_done tr]"
| "stored_flag _ = []"

fun raw_done :: "call \<Rightarrow> bool list" where
  "raw_done (EnvStep a ob r d) = [d]"
| "raw_done _ = []"

fun is_rollout_call :: "call \<Rightarrow> bool" where
  "is_rollout_call (SpaceSample a) = True"
| "is_rollout_call (SelectAction ob a) = True"
| "is_rollout_call (RandomNormal m sd n xs) = True"
| "is_rollout_call (EnvStep a ob r d) = True"
| "is_rollout_call (BufferAdd tr) = True"
| "is_rollout_call _ = False"

fun is_training_call :: "call \<Rightarrow> bool" where
  "is_training_call (BufferSample n b) = True"
| "is_training_call (TrainCritic b) = True"
| "is_training_call (TrainActor b) = True"
| "is_training_call _ = False"

definition env_steps :: "call list \<Rightarrow> nat" where
  "env_steps cs = length (filter is_env_step cs)"

definition optimizer_inits :: "call list \<Rightarrow> nat" where
  "optimizer_inits cs = length (filter is_new_optimizer cs)"

definition loaded_vectors :: "call list \<Rightarrow> vec list" where
  "loaded_vectors cs = concat (map actor_load_arg cs)"

definition extracted_vectors :: "call list \<Rightarrow> vec list" where
  "extracted_vectors cs = concat (map extracted_arg cs)"

definition stored_flags :: "call list \<Rightarrow> pyobj list" where
  "stored_flags cs = concat (map stored_flag cs)"

definition raw_dones :: "call list \<Rightarrow> bool list" where
  "raw_dones cs = concat (map raw_done cs)"

definition new_calls :: "'w state \<Rightarrow> 'w state \<Rightarrow> call list" where
  "new_calls s s' = drop (length (calls s)) (calls s')"

subsection \<open>The calls of the gradient phase\<close>

text \<open>
  Iteration \<open>it\<close> of the inner loop writes a block: a sample of \<open>batch_size\<close>, a critic
  update on the sampled batch and, when \<open>it mod policy_freq = 0\<close>, an actor update on the
  same batch.  A member of the population writes the two loads of its vector \<open>v\<close>, the new
  optimizer, its blocks and the read of the trained vector \<open>v'\<close>.
\<close>

definition iteration_block :: "config \<Rightarrow> int \<Rightarrow> call list \<Rightarrow> bool" where
  "iteration_block cfg it blk =
     (case blk of
        BufferSample n b # rest \<Rightarrow>
          n = batch_size cfg
          \<and> rest = TrainCritic b # (if it mod policy_freq cfg = 0 then [TrainActor b] else [])
      | _ \<Rightarrow> False)"

definition member_trace :: "config \<Rightarrow> int \<Rightarrow> vec \<Rightarrow> vec \<Rightarrow> call list \<Rightarrow> bool" where
  "member_trace cfg steps v v' cs \<longleftrightarrow>
     (\<exists>blocks.
        cs = [ActorLoad v, TargetLoad v, NewOptimizer (learning_rate cfg)]
               @ concat blocks @ [ParametersToVector v']
      \<and> length blocks = nat (2 * (steps div n_grad cfg))
      \<and> (\<forall>k < length blocks. iteration_block cfg (int k) (blocks ! k)))"

subsection \<open>The gradient phase in terms of the collaborators\<close>

text \<open>
  What the gradient phase is to do to the world and which calls it is to make, written
  with the collaborators alone.  Iteration \<open>it\<close> of the inner loop, started in the world
  \<open>w\<close>, samples a batch of \<open>batch_size\<close> from the replay buffer, updates the critic on
  it and, when \<open>it mod policy_freq = 0\<close>, updates the actor on the same batch.
\<close>

definition iteration_batch :: "'w collab \<Rightarrow> config \<Rightarrow> 'w \<Rightarrow> batch" where
  "iteration_batch c cfg w = fst (buffer_sample c (batch_size cfg) w)"

definition iteration_calls :: "'w collab \<Rightarrow> config \<Rightarrow> int \<Rightarrow> 'w \<Rightarrow> call list" where
  "iteration_calls c cfg it w =
     BufferSample (batch_size cfg) (iteration_batch c cfg w)
     # TrainCritic (iteration_batch c cfg w)
     # (if it mod policy_freq cfg = 0 then [TrainActor (iteration_batch c cfg w)] else [])"

definition iteration_world :: "'w collab \<Rightarrow> config \<Rightarrow> int \<Rightarrow> 'w \<Rightarrow> 'w" where
  "iteration_world c cfg it w =
     (if it mod policy_freq cfg = 0
      then train_actor c (iteration_batch c cfg w)
             (train_critic c (iteration_batch c cfg w) (snd (buffer_sample c (batch_size cfg) w)))
      else train_critic c (iteration_batch c cfg w) (snd (buffer_sample c (batch_size cfg) w)))"

text \<open>The world after the first \<open>k\<close> iterations, and the calls they make.\<close>

fun iterations_world :: "'w collab \<Rightarrow> config \<Rightarrow> nat \<Rightarrow> 'w \<Rightarrow> 'w" where
  "iterations_world c cfg 0 w = w"
| "iterations_world c cfg (Suc k) w =
     iteration_world c cfg (int k) (iterations_world c cfg k w)"

definition iterations_calls :: "'w collab \<Rightarrow> config \<Rightarrow> nat \<Rightarrow> 'w \<Rightarrow> call list" where
  "iterations_calls c cfg k w =
     concat (map (\<lambda>j. iteration_calls c cfg (int j) (iterations_world c cfg j w)) [0..<k])"

text \<open>
  A member with the vector \<open>v\<close>: \<open>v\<close> is loaded into the actor and into the target, the
  optimizer is made anew, \<open>2 * (steps div n_grad)\<close> iterations run, and the actor's
  vector is read.
\<close>

definition member_iterations :: "config \<Rightarrow> int \<Rightarrow> nat" where
  "member_iterations cfg steps = nat (2 * (steps div n_grad cfg))"

definition member_start :: "'w collab \<Rightarrow> config \<Rightarrow> vec \<Rightarrow> 'w \<Rightarrow> 'w" where
  "member_start c cfg v w =
     new_optimizer c (learning_rate cfg)
       (target_load_from_vector c v (actor_load_from_vector c v w))"

definition member_world :: "'w collab \<Rightarrow> config \<Rightarrow> int \<Rightarrow> vec \<Rightarrow> 'w \<Rightarrow> 'w" where
  "member_world c cfg steps v w =
     iterations_world c cfg (member_iterations cfg steps) (member_start c cfg v w)"

definition member_calls :: "'w collab \<Rightarrow> config \<Rightarrow> int \<Rightarrow> vec \<Rightarrow> 'w \<Rightarrow> call list" where
  "member_calls c cfg steps v w =
     [ActorLoad v, TargetLoad v, NewOptimizer (learning_rate cfg)]
     @ iterations_calls c cfg (member_iterations cfg steps) (member_start c cfg v w)
     @ [ParametersToVector (parameters_to_vector c (member_world c cfg steps v w))]"

text \<open>
  The first \<open>k\<close> members of the population \<open>ps\<close>, in index order: the world after them,
  their calls, and the population they leave, in which slot \<open>i < k\<close> is the vector read
  from the actor at the end of member \<open>i\<close> and the other slots are those of \<open>ps\<close>.
\<close>

fun phase_world :: "'w collab \<Rightarrow> config \<Rightarrow> int \<Rightarrow> vec list \<Rightarrow> nat \<Rightarrow> 'w \<Rightarrow> 'w" where
  "phase_world c cfg steps ps 0 w = w"
| "phase_world c cfg steps ps (Suc k) w =
     member_world c cfg steps (ps ! k) (phase_world c cfg steps ps k w)"

definition phase_calls ::
  "'w collab \<Rightarrow> config \<Rightarrow> int \<Rightarrow> vec list \<Rightarrow> nat \<Rightarrow> 'w \<Rightarrow> call list" where
  "phase_calls c cfg steps ps k w =
     concat (map (\<lambda>i. member_calls c cfg steps (ps ! i) (phase_world c cfg steps ps i w))
               [0..<k])"

definition phase_population ::
  "'w collab \<Rightarrow> config \<Rightarrow> int \<Rightarrow> vec list \<Rightarrow> nat \<Rightarrow> 'w \<Rightarrow> vec list" where
  "phase_population c cfg steps ps k w =
     map (\<lambda>i. parameters_to_vector c (phase_world c cfg steps ps (Suc i) w)) [0..<k]
     @ drop k ps"

subsection \<open>What an episode and a sequence of rollouts change\<close>

definition episode_rel :: "'w state \<Rightarrow> 'w state \<Rightarrow> bool" where
  "episode_rel s s' \<longleftrightarrow>
     (\<exists>cs. calls s' = calls s @ cs \<and> list_all is_rollout_call cs
         \<and> num_timesteps s' = num_timesteps s + int (env_steps cs)
         \<and> episode_timesteps s' = episode_timesteps s + int (env_steps cs))
     \<and> es_params s' = es_params s \<and> fitnesses s' = fitnesses s
     \<and> actor_steps s' = actor_steps s \<and> timesteps_since_eval s' = timesteps_since_eval s
     \<and> evaluations s' = evaluations s \<and> episode_num s' = episode_num s"

definition rollouts_rel :: "vec list \<Rightarrow> 'w state \<Rightarrow> 'w state \<Rightarrow> bool" where
  "rollouts_rel vs s s' \<longleftrightarrow>
     (\<exists>cs. calls s' = calls s @ cs \<and> loaded_vectors cs = vs
         \<and> optimizer_inits cs = 0 \<and> extracted_vectors cs = []
         \<and> length vs \<le> env_steps cs
         \<and> num_timesteps s' = num_timesteps s + int (env_steps cs)
         \<and> actor_steps s' = actor_steps s + int (env_steps cs))
     \<and> length (fitnesses s') = length (fitnesses s) + length vs
     \<and> es_params s' = es_params s
     \<and> timesteps_since_eval s' = timesteps_since_eval s
     \<and> evaluations s' = evaluations s"

subsection \<open>A small concrete world\<close>

text \<open>
  Collaborators on a world that is the number of steps of the running episode: every
  episode ends after \<open>episode_length\<close> steps, the strategy samples the vector \<open>[0]\<close>, the
  actor gives back \<open>[1]\<close>, the random action is \<open>[2]\<close> and the noise \<open>[1/4]\<close>.
\<close>

definition demo_collab :: "nat \<Rightarrow> nat collab" where
  "demo_collab episode_length =
     \<lparr>es_ask = (\<lambda>n w. (replicate (nat n) [0], w)),
      es_tell = (\<lambda>population fs w. w),
      es_mu = (\<lambda>w. [0]),
      actor_load_from_vector = (\<lambda>v w. w),
      target_load_from_vector = (\<lambda>v w. w),
      new_optimizer = (\<lambda>lr w. w),
      buffer_sample = (\<lambda>n w. ([], w)),
      train_critic = (\<lambda>b w. w),
      train_actor = (\<lambda>b w. w),
      parameters_to_vector = (\<lambda>w. [1]),
      evaluate_policy = (\<lambda>n w. (0, w)),
      env_reset = (\<lambda>w. ([0], 0)),
      space_sample = (\<lambda>w. ([2], w)),
      select_action = (\<lambda>ob w. ([1 / 2], w)),
      random_normal = (\<lambda>m sd n w. (replicate n (1 / 4), w)),
      env_step = (\<lambda>a w. (([0], 1, episode_length \<le> Suc w), Suc w)),
      buffer_add = (\<lambda>tr w. w)\<rparr>"

definition demo_config :: config where
  "demo_config =
     \<lparr>sigma_init = 1 / 1000, pop_size = 2, damp = 1 / 1000, damp_limit = 1 / 100000,
      elitism = False, n_grad = 1, policy_freq = 2, batch_size = 100, buffer_size = 1000000,
      learning_rate = 1 / 1000, seed = 0, action_noise_std = 1 / 10, start_timesteps = 100,
      verbose = 0, max_action = 2, max_episode_steps = Some 200, action_dim = 1\<rparr>"

text \<open>A callback that asks to stop once four environment steps have been counted.\<close>

definition demo_callback :: "nat callback" where
  "demo_callback s = (if 4 \<le> num_timesteps s then PyBool False else PyNone, world s)"

text \<open>A state at the start of a second generation: two steps counted, two candidates.\<close>

definition demo_state :: "nat state" where
  "demo_state = (new_object 0)\<lparr>num_timesteps := 2, actor_steps := 2, es_params := [[0], [0]]\<rparr>"

text \<open>Constructors of the base class and of the strategy that accept every argument.\<close>

definition demo_constructors :: "nat constructors" where
  "demo_constructors =
     \<lparr>td3_init = (\<lambda>a. Inr 0), td3_setup_model = (\<lambda>w. Inr w), cem_new = (\<lambda>a w. Inr w)\<rparr>"

text \<open>A policy whose state dictionary is its world; a dictionary above \<open>9\<close> does not fit.\<close>

definition demo_persistence :: "(nat, nat) persistence" where
  "demo_persistence =
     \<lparr>state_dict = (\<lambda>w. w),
      load_state_dict = (\<lambda>d w. if d \<le> 9 then Inr d else Inl RuntimeError),
      create_aliases = (\<lambda>w. w)\<rparr>"

text \<open>A file system in which \<^verbatim>\<open>model.pth\<close> alone can be written.\<close>

definition demo_fs :: "nat file_system" where
  "demo_fs = \<lparr>files = Map.empty, writable = (\<lambda>path. path = ''model.pth'')\<rparr>"

text \<open>
  A second world: the steps of the running episode, the actor's vector and the number
  of critic updates.  A load replaces the vector, an actor update adds \<open>1\<close> to each
  component, the sampled batch holds the vector and the count of the moment, the
  strategy's mean is \<open>[7]\<close> and the evaluator returns the sum of the actor's vector.
\<close>

type_synonym train_world = "nat \<times> vec \<times> nat"

definition train_collab :: "nat \<Rightarrow> train_world collab" where
  "train_collab episode_length =
     \<lparr>es_ask = (\<lambda>n w. (map (\<lambda>j. [10 * real j]) [0..<nat n], w)),
      es_tell = (\<lambda>population fs w. w),
      es_mu = (\<lambda>w. [7]),
      actor_load_from_vector = (\<lambda>v (k, a, u). (k, v, u)),
      target_load_from_vector = (\<lambda>v w. w),
      new_optimizer = (\<lambda>lr w. w),
      buffer_sample =
        (\<lambda>n (k, a, u). ([\<lparr>t_obs = a, t_next_obs = [], t_action = [], t_reward = real u,
                            t_done = PyInt 0\<rparr>], (k, a, u))),
      train_critic = (\<lambda>b (k, a, u). (k, a, Suc u)),
      train_actor = (\<lambda>b (k, a, u). (k, map (\<lambda>x. x + 1) a, u)),
      parameters_to_vector = (\<lambda>(k, a, u). a),
      evaluate_policy = (\<lambda>n (k, a, u). (sum_list a, (k, a, u))),
      env_reset = (\<lambda>(k, a, u). ([0], (0, a, u))),
      space_sample = (\<lambda>w. ([2], w)),
      select_action = (\<lambda>ob (k, a, u). (map (\<lambda>x. x / 20) a, (k, a, u))),
      random_normal = (\<lambda>m sd n w. (replicate n (1 / 4), w)),
      env_step = (\<lambda>act (k, a, u). (([0], 1, episode_length \<le> Suc k), (Suc k, a, u))),
      buffer_add = (\<lambda>tr w. w)\<rparr>"

text \<open>The start of a second generation in that world: two steps counted so far.\<close>

definition train_state :: "train_world state" where
  "train_state = (new_object (0, [], 0))\<lparr>num_timesteps := 2, actor_steps := 2\<rparr>"



section \<open>Invariants of the loops\<close>

lemma episode_rel_refl: "episode_rel s s"
  by (simp add: episode_rel_def env_steps_def)

lemma episode_rel_trans:
  assumes "episode_rel s t" "episode_rel t u"
  shows "episode_rel s u"
proof -
  from assms(1) obtain cs where cs: "calls t = calls s @ cs" "list_all is_rollout_call cs"
    "num_timesteps t = num_timesteps s + int (env_steps cs)"
    "episode_timesteps t = episode_timesteps s + int (env_steps cs)"
    by (auto simp: episode_rel_def)
  from assms(2) obtain ds where ds: "calls u = calls t @ ds" "list_all is_rollout_call ds"
    "num_timesteps u = num_timesteps t + int (env_steps ds)"
    "episode_timesteps u = episode_timesteps t + int (env_steps ds)"
    by (auto simp: episode_rel_def)
  have "calls u = calls s @ (cs @ ds) \<and> list_all is_rollout_call (cs @ ds)
     \<and> num_timesteps u = num_timesteps s + int (env_steps (cs @ ds))
     \<and> episode_timesteps u = episode_timesteps s + int (env_steps (cs @ ds))"
    using cs ds by (simp add: env_steps_def)
  then have "\<exists>es. calls u = calls s @ es \<and> list_all is_rollout_call es
     \<and> num_timesteps u = num_timesteps s + int (env_steps es)
     \<and> episode_timesteps u = episode_timesteps s + int (env_steps es)"
    by blast
  moreover have "es_params u = es_params s \<and> fitnesses u = fitnesses s
     \<and> actor_steps u = actor_steps s \<and> timesteps_since_eval u = timesteps_since_eval s
     \<and> evaluations u = evaluations s \<and> episode_num u = episode_num s"
    using assms by (simp add: episode_rel_def)
  ultimately show ?thesis by (simp add: episode_rel_def)
qed

lemma choose_action_calls:
  "choose_action c cfg s = (a, s1) \<Longrightarrow>
     (calls s1 = calls s @ [SpaceSample a] \<or> calls s1 = calls s @ [SelectAction (obs s) a])
     \<and> s1 = s\<lparr>calls := calls s1, world := world s1\<rparr>"
  by (auto simp: choose_action_def record_call_def split: if_splits prod.splits)

lemma add_noise_calls:
  "add_noise c cfg a s = Inr (a', s1) \<Longrightarrow>
     (if action_noise_std cfg > 0
      then \<exists>noise raw. calls s1 = calls s @ [RandomNormal 0 (action_noise_std cfg) (action_dim cfg) noise]
             \<and> np_add a noise = Inr raw \<and> a' = np_clip (- 1) 1 raw
      else calls s1 = calls s \<and> a' = a)
     \<and> s1 = s\<lparr>calls := calls s1, world := world s1\<rparr>"
  by (auto simp: add_noise_def record_call_def split: if_splits prod.splits sum.splits)

lemma step_and_store_calls:
  "\<exists>new_obs r d.
     calls (step_and_store c cfg a s) =
       calls s @ [EnvStep (np_scale (max_action cfg) a) new_obs r d,
                  BufferAdd \<lparr>t_obs = obs s, t_next_obs = new_obs, t_action = a, t_reward = r,
                             t_done = done_bool cfg (episode_timesteps s) d\<rparr>]
     \<and> step_and_store c cfg a s =
         s\<lparr>done_v := d, episode_reward := episode_reward s + r, obs := new_obs,
           episode_timesteps := episode_timesteps s + 1,
           num_timesteps := num_timesteps s + 1,
           calls := calls (step_and_store c cfg a s),
           world := world (step_and_store c cfg a s)\<rparr>"
  by (simp add: step_and_store_def record_call_def Let_def split: prod.splits)

lemma rollout_step_rel:
  assumes "rollout_step c cfg s = Inr s'"
  shows "episode_rel s s' \<and> num_timesteps s' = num_timesteps s + 1"
proof -
  from assms obtain a s1 a' s2 where
    ca: "choose_action c cfg s = (a, s1)" and an: "add_noise c cfg a s1 = Inr (a', s2)"
    and s': "s' = step_and_store c cfg a' s2"
    by (auto simp: rollout_step_def split: prod.splits sum.splits)
  note f1 = choose_action_calls [OF ca]
  note f2 = add_noise_calls [OF an]
  from step_and_store_calls [of c cfg a' s2] obtain new_obs r d where
    f3: "calls s' = calls s2 @ [EnvStep (np_scale (max_action cfg) a') new_obs r d,
                  BufferAdd \<lparr>t_obs = obs s2, t_next_obs = new_obs, t_action = a', t_reward = r,
                             t_done = done_bool cfg (episode_timesteps s2) d\<rparr>]"
    and f4: "s' = s2\<lparr>done_v := d, episode_reward := episode_reward s2 + r, obs := new_obs,
           episode_timesteps := episode_timesteps s2 + 1,
           num_timesteps := num_timesteps s2 + 1,
           calls := calls s', world := world s'\<rparr>"
    unfolding s' by blast
  from f1 obtain e1 where e1: "calls s1 = calls s @ [e1]" "is_rollout_call e1" "\<not> is_env_step e1"
    by auto
  from f2 obtain n2 where e2: "calls s2 = calls s1 @ n2" "list_all is_rollout_call n2"
     "filter is_env_step n2 = []"
    by (cases "action_noise_std cfg > 0") auto
  have s1eq: "s1 = s\<lparr>calls := calls s1, world := world s1\<rparr>" using f1 by simp
  have s2eq: "s2 = s1\<lparr>calls := calls s2, world := world s2\<rparr>" using f2 by simp
  have fr1: "num_timesteps s1 = num_timesteps s \<and> episode_timesteps s1 = episode_timesteps s
     \<and> es_params s1 = es_params s \<and> fitnesses s1 = fitnesses s
     \<and> actor_steps s1 = actor_steps s \<and> timesteps_since_eval s1 = timesteps_since_eval s
     \<and> evaluations s1 = evaluations s \<and> episode_num s1 = episode_num s"
    by (subst s1eq, simp)+
  have fr2: "num_timesteps s2 = num_timesteps s1 \<and> episode_timesteps s2 = episode_timesteps s1
     \<and> es_params s2 = es_params s1 \<and> fitnesses s2 = fitnesses s1
     \<and> actor_steps s2 = actor_steps s1 \<and> timesteps_since_eval s2 = timesteps_since_eval s1
     \<and> evaluations s2 = evaluations s1 \<and> episode_num s2 = episode_num s1"
    by (subst s2eq, simp)+
  have fr3: "num_timesteps s' = num_timesteps s2 + 1 \<and> episode_timesteps s' = episode_timesteps s2 + 1
     \<and> es_params s' = es_params s2 \<and> fitnesses s' = fitnesses s2
     \<and> actor_steps s' = actor_steps s2 \<and> timesteps_since_eval s' = timesteps_since_eval s2
     \<and> evaluations s' = evaluations s2 \<and> episode_num s' = episode_num s2"
    by (subst f4, simp)+
  let ?cs = "[e1] @ n2 @ [EnvStep (np_scale (max_action cfg) a') new_obs r d,
                  BufferAdd \<lparr>t_obs = obs s2, t_next_obs = new_obs, t_action = a', t_reward = r,
                             t_done = done_bool cfg (episode_timesteps s2) d\<rparr>]"
  have "calls s' = calls s @ ?cs" using e1 e2 f3 by simp
  moreover have "list_all is_rollout_call ?cs" using e1 e2 by simp
  moreover have "env_steps ?cs = 1" using e1 e2 by (simp add: env_steps_def)
  ultimately have "\<exists>cs. calls s' = calls s @ cs \<and> list_all is_rollout_call cs
         \<and> num_timesteps s' = num_timesteps s + int (env_steps cs)
         \<and> episode_timesteps s' = episode_timesteps s + int (env_steps cs)"
    using fr1 fr2 fr3 by (intro exI [of _ ?cs]) simp
  then show ?thesis using fr1 fr2 fr3 by (simp add: episode_rel_def)
qed

lemma episode_loop_rel_aux:
  "episode_loop c cfg s = Some r \<Longrightarrow> r = Inr s' \<Longrightarrow>
     episode_rel s s' \<and> done_v s' \<and> (\<not> done_v s \<longrightarrow> num_timesteps s < num_timesteps s')"
proof (induction arbitrary: s' rule: episode_loop.raw_induct [rotated 1, consumes 1, case_names step])
  case (step loop c cfg s r)
  note 1 = step
  show ?case
  proof (cases "done_v s")
    case True
    with 1(2,3) show ?thesis by (auto simp: episode_rel_refl)
  next
    case False
    show ?thesis
    proof (cases "rollout_step c cfg s")
      case (Inl e)
      with False 1(2,3) show ?thesis by auto
    next
      case (Inr t)
      with False 1(2) have lp: "loop c cfg t = Some r" by simp
      note st = rollout_step_rel [OF Inr]
      from 1(1) [OF lp 1(3)] have ih: "episode_rel t s'" "done_v s'" by auto
      from ih(1) have "num_timesteps t \<le> num_timesteps s'"
        by (auto simp: episode_rel_def)
      with st ih episode_rel_trans [of s t s'] show ?thesis by auto
    qed
  qed
qed

lemma episode_loop_rel:
  "episode_loop c cfg s = Some (Inr s') \<Longrightarrow>
     episode_rel s s' \<and> done_v s' \<and> (\<not> done_v s \<longrightarrow> num_timesteps s < num_timesteps s')"
  by (rule episode_loop_rel_aux [OF _ refl])

lemma for_each_append:
  "for_each f (xs @ ys) s =
     (case for_each f xs s of Inl e \<Rightarrow> Inl e | Inr t \<Rightarrow> for_each f ys t)"
  by (induction xs arbitrary: s) (auto split: sum.splits)

lemma grad_iter_Inr:
  assumes "grad_iter c cfg it s = Inr s'"
  shows "\<exists>blk. calls s' = calls s @ blk \<and> iteration_block cfg it blk
           \<and> s' = s\<lparr>calls := calls s', world := world s'\<rparr>"
  using assms
  by (auto simp: grad_iter_def record_call_def Let_def py_mod_def iteration_block_def
       split: prod.splits if_splits)

lemma grad_iter_ok:
  "policy_freq cfg \<noteq> 0 \<Longrightarrow> \<exists>s'. grad_iter c cfg it s = Inr s'"
  by (simp add: grad_iter_def Let_def py_mod_def split: prod.splits)

lemma grad_loop_Inr:
  "for_each (grad_iter c cfg) (map int [0..<n]) s = Inr s' \<Longrightarrow>
     \<exists>blocks. length blocks = n \<and> calls s' = calls s @ concat blocks
       \<and> (\<forall>k < n. iteration_block cfg (int k) (blocks ! k))
       \<and> s' = s\<lparr>calls := calls s', world := world s'\<rparr>"
proof (induction n arbitrary: s')
  case 0
  then show ?case by simp
next
  case (Suc n)
  from Suc.prems obtain t where
    t: "for_each (grad_iter c cfg) (map int [0..<n]) s = Inr t"
    and last: "grad_iter c cfg (int n) t = Inr s'"
    by (auto simp: for_each_append split: sum.splits)
  from Suc.IH [OF t] obtain blocks where
    b: "length blocks = n" "calls t = calls s @ concat blocks"
       "\<forall>k < n. iteration_block cfg (int k) (blocks ! k)"
       "t = s\<lparr>calls := calls t, world := world t\<rparr>"
    by blast
  from grad_iter_Inr [OF last] obtain blk where
    k: "calls s' = calls t @ blk" "iteration_block cfg (int n) blk"
       "s' = t\<lparr>calls := calls s', world := world s'\<rparr>"
    by blast
  have 1: "length (blocks @ [blk]) = Suc n" using b by simp
  have 2: "calls s' = calls s @ concat (blocks @ [blk])" using b k by simp
  have 3: "\<forall>j < Suc n. iteration_block cfg (int j) ((blocks @ [blk]) ! j)"
    using b k by (auto simp: nth_append less_Suc_eq)
  have 4: "s' = s\<lparr>calls := calls s', world := world s'\<rparr>"
    by (subst k(3), subst b(4)) simp
  from 1 2 3 4 show ?case by blast
qed

lemma grad_loop_ok:
  "policy_freq cfg \<noteq> 0 \<Longrightarrow> \<exists>s'. for_each (grad_iter c cfg) xs s = Inr s'"
proof (induction xs arbitrary: s)
  case Nil
  then show ?case by simp
next
  case (Cons x xs)
  from grad_iter_ok [OF Cons.prems] obtain t where "grad_iter c cfg x s = Inr t" by blast
  with Cons.IH [OF Cons.prems, of t] show ?case by simp
qed

lemma train_member_Inr:
  assumes "train_member c cfg i s = Inr s'" and "0 \<le> i"
  shows "i < int (length (es_params s)) \<and> n_grad cfg \<noteq> 0
       \<and> (\<exists>cs. calls s' = calls s @ cs
             \<and> member_trace cfg (actor_steps s) (es_params s ! nat i)
                  (parameters_to_vector c (world s')) cs)
       \<and> es_params s' = (es_params s)[nat i := parameters_to_vector c (world s')]
       \<and> s' = s\<lparr>es_params := es_params s', calls := calls s', world := world s'\<rparr>
       \<and> (actor_steps s div n_grad cfg \<le> 0 \<longrightarrow>
            world s' = new_optimizer c (learning_rate cfg)
                         (target_load_from_vector c (es_params s ! nat i)
                            (actor_load_from_vector c (es_params s ! nat i) (world s))))"
proof -
  let ?v = "es_params s ! nat i"
  let ?lr = "learning_rate cfg"
  let ?s3 = "s\<lparr>calls := calls s @ [ActorLoad ?v, TargetLoad ?v, NewOptimizer ?lr],
               world := new_optimizer c ?lr (target_load_from_vector c ?v
                          (actor_load_from_vector c ?v (world s)))\<rparr>"
  from assms have ilt: "i < int (length (es_params s))"
    by (auto simp: train_member_def py_getitem_def py_index_def Let_def split: if_splits)
  with assms have gi: "py_getitem (es_params s) i = Inr ?v"
    by (simp add: py_getitem_def py_index_def)
  from assms gi have ng: "n_grad cfg \<noteq> 0"
    by (auto simp: train_member_def py_floordiv_def Let_def record_call_def split: if_splits)
  from assms gi ng obtain s4 where
    lp: "for_each (grad_iter c cfg) (py_range (2 * (actor_steps s div n_grad cfg))) ?s3 = Inr s4"
    by (auto simp: train_member_def py_floordiv_def Let_def record_call_def split: sum.splits)
  from grad_loop_Inr [OF lp [unfolded py_range_def]] obtain blocks where
    b: "length blocks = nat (2 * (actor_steps s div n_grad cfg))"
       "calls s4 = calls ?s3 @ concat blocks"
       "\<forall>k < nat (2 * (actor_steps s div n_grad cfg)). iteration_block cfg (int k) (blocks ! k)"
       "s4 = ?s3\<lparr>calls := calls s4, world := world s4\<rparr>"
    by blast
  have es4: "es_params s4 = es_params s" by (subst b(4)) simp
  let ?v' = "parameters_to_vector c (world s4)"
  from assms gi ng lp es4 ilt have s': "s' = s4\<lparr>calls := calls s4 @ [ParametersToVector ?v'],
        es_params := (es_params s)[nat i := ?v']\<rparr>"
    by (simp add: train_member_def py_floordiv_def py_setitem_def py_index_def Let_def record_call_def)
  have w: "world s' = world s4" by (simp add: s')
  have cs: "calls s' = calls s @ ([ActorLoad ?v, TargetLoad ?v, NewOptimizer ?lr]
                @ concat blocks @ [ParametersToVector (parameters_to_vector c (world s'))])"
    using b(2) by (simp add: s')
  have mt: "member_trace cfg (actor_steps s) ?v (parameters_to_vector c (world s'))
              ([ActorLoad ?v, TargetLoad ?v, NewOptimizer ?lr]
                @ concat blocks @ [ParametersToVector (parameters_to_vector c (world s'))])"
    unfolding member_trace_def using b(1,3) by (intro exI [of _ blocks]) simp
  have es: "es_params s' = (es_params s)[nat i := parameters_to_vector c (world s')]"
    by (simp add: s')
  have fr: "s' = s\<lparr>es_params := es_params s', calls := calls s', world := world s'\<rparr>"
    by (subst s', subst b(4)) (simp add: s')
  have z: "world s' = world ?s3" if "actor_steps s div n_grad cfg \<le> 0"
  proof -
    from that lp have "s4 = ?s3" by (simp add: py_range_def)
    then show ?thesis using w by simp
  qed
  from ilt ng cs mt es fr z show ?thesis by (simp del: append.simps)
qed

lemma new_calls_append: "calls s' = calls s @ cs \<Longrightarrow> new_calls s s' = cs"
  by (simp add: new_calls_def)

lemma env_steps_append [simp]: "env_steps (xs @ ys) = env_steps xs + env_steps ys"
  by (simp add: env_steps_def)

lemma optimizer_inits_append [simp]:
  "optimizer_inits (xs @ ys) = optimizer_inits xs + optimizer_inits ys"
  by (simp add: optimizer_inits_def)

lemma loaded_vectors_append [simp]:
  "loaded_vectors (xs @ ys) = loaded_vectors xs @ loaded_vectors ys"
  by (simp add: loaded_vectors_def)

lemma extracted_vectors_append [simp]:
  "extracted_vectors (xs @ ys) = extracted_vectors xs @ extracted_vectors ys"
  by (simp add: extracted_vectors_def)

lemma projections_Nil [simp]:
  "env_steps [] = 0" "optimizer_inits [] = 0" "loaded_vectors [] = []"
  "extracted_vectors [] = []"
  by (simp_all add: env_steps_def optimizer_inits_def loaded_vectors_def extracted_vectors_def)

lemma projections_Cons [simp]:
  "env_steps (x # xs) = (if is_env_step x then 1 else 0) + env_steps xs"
  "optimizer_inits (x # xs) = (if is_new_optimizer x then 1 else 0) + optimizer_inits xs"
  "loaded_vectors (x # xs) = actor_load_arg x @ loaded_vectors xs"
  "extracted_vectors (x # xs) = extracted_arg x @ extracted_vectors xs"
  by (simp_all add: env_steps_def optimizer_inits_def loaded_vectors_def extracted_vectors_def)

lemma rollout_call_projections:
  "is_rollout_call x \<Longrightarrow>
     \<not> is_new_optimizer x \<and> actor_load_arg x = [] \<and> extracted_arg x = []"
  by (cases x) simp_all

lemma rollout_calls_projections:
  "list_all is_rollout_call cs \<Longrightarrow>
     optimizer_inits cs = 0 \<and> loaded_vectors cs = [] \<and> extracted_vectors cs = []"
  by (induction cs) (simp_all add: rollout_call_projections)

lemma training_call_projections:
  "is_training_call x \<Longrightarrow>
     \<not> is_new_optimizer x \<and> \<not> is_env_step x \<and> actor_load_arg x = [] \<and> extracted_arg x = []"
  by (cases x) simp_all

lemma training_calls_projections:
  "list_all is_training_call cs \<Longrightarrow>
     optimizer_inits cs = 0 \<and> env_steps cs = 0 \<and> loaded_vectors cs = []
     \<and> extracted_vectors cs = []"
  by (induction cs) (simp_all add: training_call_projections)

lemma rollout_member_Some:
  assumes "rollout_member c cfg v s = Some (Inr s')"
  shows "rollouts_rel [v] s s'"
proof -
  let ?s1 = "record_call (ActorLoad v) (actor_load_from_vector c v (world s)) s"
  obtain ob w where er: "env_reset c (world ?s1) = (ob, w)" by (cases "env_reset c (world ?s1)")
  let ?s2 = "(record_call (EnvReset ob) w ?s1)
               \<lparr>obs := ob, episode_reward := 0, episode_timesteps := 0,
                episode_num := episode_num ?s1 + 1, done_v := False\<rparr>"
  from assms er obtain s3 where
    lp: "episode_loop c cfg ?s2 = Some (Inr s3)"
    and s': "s' = s3\<lparr>actor_steps := actor_steps s3 + episode_timesteps s3,
                     fitnesses := fitnesses s3 @ [episode_reward s3]\<rparr>"
    by (auto simp: rollout_member_def Let_def split: option.splits sum.splits)
  from episode_loop_rel [OF lp] have rel: "episode_rel ?s2 s3"
    and lt: "num_timesteps ?s2 < num_timesteps s3" by simp_all
  from rel obtain cs where cs: "calls s3 = calls ?s2 @ cs" "list_all is_rollout_call cs"
     "num_timesteps s3 = num_timesteps ?s2 + int (env_steps cs)"
     "episode_timesteps s3 = episode_timesteps ?s2 + int (env_steps cs)"
    by (auto simp: episode_rel_def)
  from rel have fr: "es_params s3 = es_params ?s2" "fitnesses s3 = fitnesses ?s2"
     "actor_steps s3 = actor_steps ?s2" "timesteps_since_eval s3 = timesteps_since_eval ?s2"
     "evaluations s3 = evaluations ?s2"
    by (simp_all add: episode_rel_def)
  from lt cs(3) have pos: "1 \<le> env_steps cs" by simp
  note pr = rollout_calls_projections [OF cs(2)]
  let ?cs = "ActorLoad v # EnvReset ob # cs"
  have 1: "calls s' = calls s @ ?cs" using cs(1) by (simp add: s' record_call_def)
  have 2: "loaded_vectors ?cs = [v] \<and> optimizer_inits ?cs = 0 \<and> extracted_vectors ?cs = []
        \<and> length [v] \<le> env_steps ?cs" using pr pos by simp
  have 3: "num_timesteps s' = num_timesteps s + int (env_steps ?cs)"
    using cs(3) by (simp add: s' record_call_def)
  have 4: "actor_steps s' = actor_steps s + int (env_steps ?cs)"
    using cs(4) fr(3) by (simp add: s' record_call_def)
  have 5: "length (fitnesses s') = length (fitnesses s) + length [v]
     \<and> es_params s' = es_params s
     \<and> timesteps_since_eval s' = timesteps_since_eval s
     \<and> evaluations s' = evaluations s"
    using fr by (simp add: s' record_call_def)
  from 1 2 3 4 have "\<exists>cs. calls s' = calls s @ cs \<and> loaded_vectors cs = [v]
         \<and> optimizer_inits cs = 0 \<and> extracted_vectors cs = []
         \<and> length [v] \<le> env_steps cs
         \<and> num_timesteps s' = num_timesteps s + int (env_steps cs)
         \<and> actor_steps s' = actor_steps s + int (env_steps cs)"
    by (intro exI [of _ ?cs]) (simp only: simp_thms)
  with 5 show ?thesis unfolding rollouts_rel_def by (simp only: simp_thms)
qed

lemma rollouts_rel_Nil: "rollouts_rel [] s s"
  by (simp add: rollouts_rel_def)

lemma rollouts_rel_Cons:
  assumes "rollouts_rel [v] s t" "rollouts_rel vs t u"
  shows "rollouts_rel (v # vs) s u"
proof -
  from assms(1) obtain cs where cs: "calls t = calls s @ cs" "loaded_vectors cs = [v]"
     "optimizer_inits cs = 0" "extracted_vectors cs = []" "length [v] \<le> env_steps cs"
     "num_timesteps t = num_timesteps s + int (env_steps cs)"
     "actor_steps t = actor_steps s + int (env_steps cs)"
    unfolding rollouts_rel_def by blast
  from assms(2) obtain ds where ds: "calls u = calls t @ ds" "loaded_vectors ds = vs"
     "optimizer_inits ds = 0" "extracted_vectors ds = []" "length vs \<le> env_steps ds"
     "num_timesteps u = num_timesteps t + int (env_steps ds)"
     "actor_steps u = actor_steps t + int (env_steps ds)"
    unfolding rollouts_rel_def by blast
  have "calls u = calls s @ (cs @ ds) \<and> loaded_vectors (cs @ ds) = v # vs
         \<and> optimizer_inits (cs @ ds) = 0 \<and> extracted_vectors (cs @ ds) = []
         \<and> length (v # vs) \<le> env_steps (cs @ ds)
         \<and> num_timesteps u = num_timesteps s + int (env_steps (cs @ ds))
         \<and> actor_steps u = actor_steps s + int (env_steps (cs @ ds))"
    using cs ds by simp
  then have "\<exists>es. calls u = calls s @ es \<and> loaded_vectors es = v # vs
         \<and> optimizer_inits es = 0 \<and> extracted_vectors es = []
         \<and> length (v # vs) \<le> env_steps es
         \<and> num_timesteps u = num_timesteps s + int (env_steps es)
         \<and> actor_steps u = actor_steps s + int (env_steps es)"
    by (rule exI)
  moreover have "length (fitnesses u) = length (fitnesses s) + length (v # vs)
     \<and> es_params u = es_params s
     \<and> timesteps_since_eval u = timesteps_since_eval s
     \<and> evaluations u = evaluations s"
    using assms by (simp add: rollouts_rel_def)
  ultimately show ?thesis unfolding rollouts_rel_def by (simp only: simp_thms)
qed

lemma rollouts_Some:
  "for_each_partial (rollout_member c cfg) vs s = Some (Inr s') \<Longrightarrow> rollouts_rel vs s s'"
proof (induction vs arbitrary: s)
  case Nil
  then show ?case by (simp add: rollouts_rel_Nil)
next
  case (Cons v vs)
  from Cons.prems obtain t where
    t: "rollout_member c cfg v s = Some (Inr t)"
    and r: "for_each_partial (rollout_member c cfg) vs t = Some (Inr s')"
    by (auto split: option.splits sum.splits)
  from rollouts_rel_Cons [OF rollout_member_Some [OF t] Cons.IH [OF r]]
  show ?case .
qed

lemma iteration_block_iff:
  "iteration_block cfg it blk \<longleftrightarrow>
     (\<exists>b. blk = BufferSample (batch_size cfg) b # TrainCritic b
                  # (if it mod policy_freq cfg = 0 then [TrainActor b] else []))"
proof (cases blk)
  case Nil
  then show ?thesis by (simp add: iteration_block_def)
next
  case (Cons x rest)
  show ?thesis unfolding Cons by (cases x) (auto simp: iteration_block_def)
qed

lemma iteration_block_training: "iteration_block cfg it blk \<Longrightarrow> list_all is_training_call blk"
  by (auto simp: iteration_block_iff)

lemma blocks_training:
  assumes "\<forall>k < length blocks. iteration_block cfg (int k) (blocks ! k)"
  shows "list_all is_training_call (concat blocks)"
proof -
  have "list_all is_training_call b" if "b \<in> set blocks" for b
  proof -
    from that obtain k where "k < length blocks" "b = blocks ! k"
      by (auto simp: in_set_conv_nth)
    with assms show ?thesis by (auto intro: iteration_block_training)
  qed
  then show ?thesis by (auto simp: list_all_iff)
qed

lemma member_trace_projections:
  assumes "member_trace cfg a v v' cs"
  shows "optimizer_inits cs = 1 \<and> env_steps cs = 0 \<and> loaded_vectors cs = [v]
       \<and> extracted_vectors cs = [v']"
proof -
  from assms obtain blocks where
    cs: "cs = [ActorLoad v, TargetLoad v, NewOptimizer (learning_rate cfg)]
               @ concat blocks @ [ParametersToVector v']"
    and b: "\<forall>k < length blocks. iteration_block cfg (int k) (blocks ! k)"
    unfolding member_trace_def by blast
  note pr = training_calls_projections [OF blocks_training [OF b]]
  show ?thesis unfolding cs using pr by simp
qed

lemma gradient_loop_Inr:
  "for_each (train_member c cfg) (map int [0..<k]) s = Inr s' \<Longrightarrow>
     (\<exists>traces. length traces = k \<and> calls s' = calls s @ concat traces
        \<and> (\<forall>i < k. member_trace cfg (actor_steps s) (es_params s ! i) (es_params s' ! i)
                      (traces ! i)))
     \<and> k \<le> length (es_params s)
     \<and> length (es_params s') = length (es_params s)
     \<and> drop k (es_params s') = drop k (es_params s)
     \<and> (0 < k \<longrightarrow> n_grad cfg \<noteq> 0)
     \<and> s' = s\<lparr>es_params := es_params s', calls := calls s', world := world s'\<rparr>"
proof (induction k arbitrary: s')
  case 0
  then show ?case by simp
next
  case (Suc k)
  from Suc.prems obtain t where
    t: "for_each (train_member c cfg) (map int [0..<k]) s = Inr t"
    and last: "train_member c cfg (int k) t = Inr s'"
    by (auto simp: for_each_append split: sum.splits)
  from Suc.IH [OF t] obtain traces where
    tr: "length traces = k" "calls t = calls s @ concat traces"
        "\<forall>i < k. member_trace cfg (actor_steps s) (es_params s ! i) (es_params t ! i) (traces ! i)"
    and fr: "k \<le> length (es_params s)" "length (es_params t) = length (es_params s)"
        "drop k (es_params t) = drop k (es_params s)"
        "t = s\<lparr>es_params := es_params t, calls := calls t, world := world t\<rparr>"
    by blast
  from train_member_Inr [OF last] obtain cs where
    m: "k < length (es_params t)" "n_grad cfg \<noteq> 0" "calls s' = calls t @ cs"
       "member_trace cfg (actor_steps t) (es_params t ! k) (parameters_to_vector c (world s')) cs"
       "es_params s' = (es_params t)[k := parameters_to_vector c (world s')]"
       "s' = t\<lparr>es_params := es_params s', calls := calls s', world := world s'\<rparr>"
    by auto
  have ast: "actor_steps t = actor_steps s" by (subst fr(4)) simp
  have klt: "k < length (es_params s)" using m(1) fr(2) by simp
  have nk: "es_params t ! k = es_params s ! k"
  proof -
    have "es_params t ! k = drop k (es_params t) ! 0" using m(1) by simp
    also have "\<dots> = drop k (es_params s) ! 0" by (simp only: fr(3))
    also have "\<dots> = es_params s ! k" using klt by simp
    finally show ?thesis .
  qed
  have sk: "es_params s' ! k = parameters_to_vector c (world s')"
    using m(1) by (simp add: m(5))
  have si: "es_params s' ! i = es_params t ! i" if "i < k" for i
    using that by (simp add: m(5))
  have 1: "length (traces @ [cs]) = Suc k" using tr by simp
  have 2: "calls s' = calls s @ concat (traces @ [cs])" using tr m by simp
  have 3: "\<forall>i < Suc k. member_trace cfg (actor_steps s) (es_params s ! i) (es_params s' ! i)
             ((traces @ [cs]) ! i)"
  proof (intro allI impI)
    fix i assume "i < Suc k"
    then consider "i < k" | "i = k" by linarith
    then show "member_trace cfg (actor_steps s) (es_params s ! i) (es_params s' ! i)
             ((traces @ [cs]) ! i)"
    proof cases
      case 1
      with tr si show ?thesis by (simp add: nth_append)
    next
      case 2
      with tr m(4) ast nk sk show ?thesis by (simp add: nth_append)
    qed
  qed
  have 4: "drop (Suc k) (es_params s') = drop (Suc k) (es_params s)"
  proof -
    have "drop (Suc k) (es_params s') = drop (Suc k) (es_params t)"
      by (simp add: m(5))
    also have "\<dots> = drop 1 (drop k (es_params t))" by simp
    also have "\<dots> = drop 1 (drop k (es_params s))" by (simp only: fr(3))
    finally show ?thesis by simp
  qed
  have 5: "length (es_params s') = length (es_params s)" using fr(2) by (simp add: m(5))
  have 6: "s' = s\<lparr>es_params := es_params s', calls := calls s', world := world s'\<rparr>"
    by (subst m(6), subst fr(4)) simp
  from 1 2 3 have "\<exists>traces. length traces = Suc k \<and> calls s' = calls s @ concat traces
        \<and> (\<forall>i < Suc k. member_trace cfg (actor_steps s) (es_params s ! i) (es_params s' ! i)
                      (traces ! i))"
    by blast
  with klt 4 5 6 m(2) show ?case by simp
qed

lemma traces_projections:
  assumes "length traces = k" "k \<le> length ps" "k \<le> length ps'"
    and "\<forall>i < k. member_trace cfg a (ps ! i) (ps' ! i) (traces ! i)"
  shows "optimizer_inits (concat traces) = k \<and> env_steps (concat traces) = 0
       \<and> loaded_vectors (concat traces) = take k ps
       \<and> extracted_vectors (concat traces) = take k ps'"
  using assms
proof (induction traces arbitrary: k rule: rev_induct)
  case Nil
  then show ?case by simp
next
  case (snoc t traces)
  let ?j = "length traces"
  from snoc.prems have k: "k = Suc ?j" by simp
  have pre: "\<forall>i < ?j. member_trace cfg a (ps ! i) (ps' ! i) (traces ! i)"
  proof (intro allI impI)
    fix i assume i: "i < ?j"
    with snoc.prems(4) k have "member_trace cfg a (ps ! i) (ps' ! i) ((traces @ [t]) ! i)"
      by simp
    with i show "member_trace cfg a (ps ! i) (ps' ! i) (traces ! i)"
      by (simp add: nth_append)
  qed
  from snoc.prems k have bnd: "?j \<le> length ps" "?j \<le> length ps'" by simp_all
  have ih: "optimizer_inits (concat traces) = ?j \<and> env_steps (concat traces) = 0
       \<and> loaded_vectors (concat traces) = take ?j ps
       \<and> extracted_vectors (concat traces) = take ?j ps'"
    by (rule snoc.IH [OF refl bnd pre])
  from snoc.prems k have "member_trace cfg a (ps ! ?j) (ps' ! ?j) t"
    by (auto simp: nth_append)
  note pr = member_trace_projections [OF this]
  from snoc.prems k have "?j < length ps" "?j < length ps'" by simp_all
  then have "take k ps = take ?j ps @ [ps ! ?j]" "take k ps' = take ?j ps' @ [ps' ! ?j]"
    by (simp_all add: k take_Suc_conv_app_nth)
  with ih pr k show ?case by simp
qed

lemma train_member_ok:
  assumes "0 \<le> i" "i < int (length (es_params s))" "n_grad cfg \<noteq> 0" "policy_freq cfg \<noteq> 0"
  shows "\<exists>s'. train_member c cfg i s = Inr s'"
proof -
  let ?v = "es_params s ! nat i"
  let ?lr = "learning_rate cfg"
  let ?s3 = "s\<lparr>calls := calls s @ [ActorLoad ?v, TargetLoad ?v, NewOptimizer ?lr],
               world := new_optimizer c ?lr (target_load_from_vector c ?v
                          (actor_load_from_vector c ?v (world s)))\<rparr>"
  from assms have gi: "py_getitem (es_params s) i = Inr ?v"
    by (simp add: py_getitem_def py_index_def)
  from grad_loop_ok [OF assms(4)] obtain s4 where
    lp: "for_each (grad_iter c cfg) (py_range (2 * (actor_steps s div n_grad cfg))) ?s3 = Inr s4"
    by blast
  from grad_loop_Inr [OF lp [unfolded py_range_def]]
  have "s4 = ?s3\<lparr>calls := calls s4, world := world s4\<rparr>" by blast
  then have es4: "es_params s4 = es_params s" by (rule ssubst) simp
  from assms gi lp es4 show ?thesis
    by (simp add: train_member_def py_floordiv_def py_setitem_def py_index_def Let_def
          record_call_def)
qed

lemma gradient_loop_ok:
  assumes "n_grad cfg \<noteq> 0" "policy_freq cfg \<noteq> 0"
  shows "k \<le> length (es_params s) \<Longrightarrow>
         \<exists>s'. for_each (train_member c cfg) (map int [0..<k]) s = Inr s'"
proof (induction k)
  case 0
  then show ?case by simp
next
  case (Suc k)
  then obtain t where t: "for_each (train_member c cfg) (map int [0..<k]) s = Inr t"
    by auto
  from gradient_loop_Inr [OF t] have "length (es_params t) = length (es_params s)" by blast
  with Suc.prems have "int k < int (length (es_params t))" by simp
  from train_member_ok [OF _ this assms] obtain s' where
    "train_member c cfg (int k) t = Inr s'" by auto
  with t show ?case by (simp add: for_each_append)
qed

lemma gradient_loop_IndexError:
  assumes "n_grad cfg \<noteq> 0" "policy_freq cfg \<noteq> 0" "length (es_params s) < k"
  shows "for_each (train_member c cfg) (map int [0..<k]) s = Inl IndexError"
proof -
  let ?n = "length (es_params s)"
  from gradient_loop_ok [OF assms(1,2), of ?n s c] obtain t where
    t: "for_each (train_member c cfg) (map int [0..<?n]) s = Inr t" by auto
  from gradient_loop_Inr [OF t] have len: "length (es_params t) = ?n" by blast
  have tm: "train_member c cfg (int ?n) t = Inl IndexError"
    using len by (simp add: train_member_def py_getitem_def py_index_def)
  from assms(3) have "[0..<k] = [0..<?n] @ ?n # [Suc ?n..<k]"
    by (metis less_imp_le_nat upt_add_eq_append le_add_diff_inverse upt_conv_Cons zero_le)
  then show ?thesis using t tm by (simp add: for_each_append)
qed

lemma gradient_phase_Inr:
  assumes "gradient_phase c cfg s = Inr s'" and "0 < num_timesteps s"
  shows "(\<exists>traces. length traces = nat (n_grad cfg) \<and> new_calls s s' = concat traces
            \<and> (\<forall>i < nat (n_grad cfg).
                  member_trace cfg (actor_steps s) (es_params s ! i) (es_params s' ! i)
                    (traces ! i)))
       \<and> optimizer_inits (new_calls s s') = nat (n_grad cfg)
       \<and> env_steps (new_calls s s') = 0
       \<and> loaded_vectors (new_calls s s') = take (nat (n_grad cfg)) (es_params s)
       \<and> extracted_vectors (new_calls s s') = take (nat (n_grad cfg)) (es_params s')
       \<and> nat (n_grad cfg) \<le> length (es_params s)
       \<and> length (es_params s') = length (es_params s)
       \<and> drop (nat (n_grad cfg)) (es_params s') = drop (nat (n_grad cfg)) (es_params s)
       \<and> calls s' = calls s @ new_calls s s'
       \<and> s' = s\<lparr>es_params := es_params s', calls := calls s', world := world s'\<rparr>"
proof -
  let ?k = "nat (n_grad cfg)"
  from assms have lp: "for_each (train_member c cfg) (map int [0..<?k]) s = Inr s'"
    by (simp add: gradient_phase_def py_range_def)
  from gradient_loop_Inr [OF lp] obtain traces where
    tr: "length traces = ?k" "calls s' = calls s @ concat traces"
        "\<forall>i < ?k. member_trace cfg (actor_steps s) (es_params s ! i) (es_params s' ! i)
                      (traces ! i)"
    and fr: "?k \<le> length (es_params s)" "length (es_params s') = length (es_params s)"
        "drop ?k (es_params s') = drop ?k (es_params s)"
        "s' = s\<lparr>es_params := es_params s', calls := calls s', world := world s'\<rparr>"
    by blast
  have nc: "new_calls s s' = concat traces" by (rule new_calls_append) (rule tr(2))
  from fr have k': "?k \<le> length (es_params s')" by simp
  note pr = traces_projections [OF tr(1) fr(1) k' tr(3)]
  from tr(1,3) nc have "\<exists>traces. length traces = ?k \<and> new_calls s s' = concat traces
            \<and> (\<forall>i < ?k. member_trace cfg (actor_steps s) (es_params s ! i) (es_params s' ! i)
                    (traces ! i))"
    by blast
  moreover have "calls s' = calls s @ new_calls s s'" using tr(2) nc by simp
  ultimately show ?thesis using pr fr unfolding nc by (simp only: simp_thms)
qed

lemma gradient_phase_skipped:
  "\<not> 0 < num_timesteps s \<Longrightarrow> gradient_phase c cfg s = Inr s"
  by (simp add: gradient_phase_def)

lemma gradient_phase_ok:
  assumes "n_grad cfg \<le> int (length (es_params s))" "policy_freq cfg \<noteq> 0"
  shows "\<exists>s'. gradient_phase c cfg s = Inr s'"
proof (cases "0 < num_timesteps s \<and> 0 < n_grad cfg")
  case True
  with assms have "nat (n_grad cfg) \<le> length (es_params s)" "n_grad cfg \<noteq> 0" by simp_all
  from gradient_loop_ok [OF this(2) assms(2) this(1)] True show ?thesis
    by (simp add: gradient_phase_def py_range_def)
next
  case False
  then show ?thesis by (auto simp: gradient_phase_def py_range_def)
qed

lemmas demo_defs = generation_def ask_phase_def callback_hook_def gradient_phase_def
  evaluation_phase_def rollout_phase_def rollout_member_def tell_phase_def
  rollout_step_def choose_action_def add_noise_def step_and_store_def done_bool_def
  train_member_def grad_iter_def py_range_def py_getitem_def py_setitem_def py_index_def
  py_floordiv_def py_mod_def np_add_def np_clip_def np_scale_def py_float_def
  record_call_def demo_collab_def demo_config_def demo_callback_def new_object_def
  episode_loop.simps Let_def eval_nat_numeral

lemma ask_phase_eq:
  "ask_phase c cfg s =
     s\<lparr>fitnesses := [], es_params := fst (es_ask c (pop_size cfg) (world s)),
       calls := calls s @ [EsAsk (pop_size cfg) (fst (es_ask c (pop_size cfg) (world s)))],
       world := snd (es_ask c (pop_size cfg) (world s))\<rparr>"
  by (simp add: ask_phase_def record_call_def Let_def split: prod.splits)

lemma generation_Break:
  "generation c cfg (Some f) eval_freq n s = Some (Inr (Break, s')) \<longleftrightarrow>
     fst (f (ask_phase c cfg s)) = PyBool False
     \<and> s' = record_call (Callback (PyBool False)) (snd (f (ask_phase c cfg s))) (ask_phase c cfg s)"
  by (auto simp: generation_def callback_hook_def split: prod.splits sum.splits option.splits)

lemma generation_not_Break:
  "fst (f (ask_phase c cfg s)) \<noteq> PyBool False \<Longrightarrow>
   generation c cfg (Some f) eval_freq n s = Some (Inr (fl, s')) \<Longrightarrow> fl = Continue"
  by (cases fl) (simp_all add: generation_Break)

lemma callback_hook_facts:
  assumes "callback_hook cb sa = (fl, s1)"
  shows "\<exists>cs. calls s1 = calls sa @ cs \<and> env_steps cs = 0 \<and> optimizer_inits cs = 0
           \<and> extracted_vectors cs = [] \<and> loaded_vectors cs = []
           \<and> s1 = sa\<lparr>calls := calls s1, world := world s1\<rparr>"
proof (cases cb)
  case None
  with assms have "s1 = sa" by (simp add: callback_hook_def)
  then show ?thesis by simp
next
  case (Some f)
  with assms have "s1 = record_call (Callback (fst (f sa))) (snd (f sa)) sa"
    by (auto simp: callback_hook_def split: prod.splits)
  then show ?thesis by (simp add: record_call_def)
qed

lemma evaluation_phase_facts:
  "\<exists>cs. calls (evaluation_phase c cfg eval_freq n s) = calls s @ cs
       \<and> env_steps cs = 0 \<and> optimizer_inits cs = 0 \<and> extracted_vectors cs = []
       \<and> length (loaded_vectors cs) \<le> 1
       \<and> num_timesteps (evaluation_phase c cfg eval_freq n s) = num_timesteps s
       \<and> es_params (evaluation_phase c cfg eval_freq n s) = es_params s
       \<and> fitnesses (evaluation_phase c cfg eval_freq n s) = fitnesses s"
proof (cases "0 < eval_freq \<and> eval_freq \<le> timesteps_since_eval s")
  case True
  then show ?thesis
    by (auto simp: evaluation_phase_def record_call_def Let_def split: prod.splits)
next
  case False
  then have "evaluation_phase c cfg eval_freq n s = s"
    unfolding evaluation_phase_def by (simp only: if_False)
  then show ?thesis by simp
qed

lemma rollout_phase_Some:
  "rollout_phase c cfg s = Some (Inr s') \<Longrightarrow>
     rollouts_rel (es_params s) (s\<lparr>actor_steps := 0\<rparr>) s'"
  using rollouts_Some [of c cfg "es_params s" "s\<lparr>actor_steps := 0\<rparr>" s']
  by (simp add: rollout_phase_def Let_def)

lemma tell_phase_eq:
  "tell_phase c s =
     s\<lparr>calls := calls s @ [EsTell (es_params s) (fitnesses s)],
       world := es_tell c (es_params s) (fitnesses s) (world s),
       timesteps_since_eval := timesteps_since_eval s + actor_steps s\<rparr>"
  by (simp add: tell_phase_def record_call_def Let_def)

lemma generation_Continue:
  assumes "generation c cfg cb eval_freq n s = Some (Inr (Continue, s'))"
  shows "\<exists>s1 s2 s4. callback_hook cb (ask_phase c cfg s) = (Continue, s1)
           \<and> gradient_phase c cfg s1 = Inr s2
           \<and> rollout_phase c cfg (evaluation_phase c cfg eval_freq n s2) = Some (Inr s4)
           \<and> s' = tell_phase c s4"
proof -
  obtain fl s1 where cb: "callback_hook cb (ask_phase c cfg s) = (fl, s1)"
    by (cases "callback_hook cb (ask_phase c cfg s)")
  from assms cb have fl: "fl = Continue"
    by (cases fl) (simp_all add: generation_def)
  from assms cb fl show ?thesis
    by (auto simp: generation_def split: sum.splits option.splits)
qed

text \<open>
  The calls of a generation that runs to its end: the ask and the callback (\<open>A\<close>), the
  gradient phase (\<open>G\<close>), the evaluation (\<open>E\<close>), the rollouts (\<open>R\<close>) and the tell.
\<close>

lemma generation_anatomy:
  assumes "generation c cfg cb eval_freq n s = Some (Inr (Continue, s'))"
  shows "\<exists>A G E R.
           new_calls s s' = A @ G @ E @ R @ [EsTell (es_params s') (fitnesses s')]
         \<and> calls s' = calls s @ new_calls s s'
         \<and> env_steps A = 0 \<and> optimizer_inits A = 0 \<and> extracted_vectors A = []
         \<and> loaded_vectors A = []
         \<and> env_steps G = 0
         \<and> optimizer_inits G = (if 0 < num_timesteps s then nat (n_grad cfg) else 0)
         \<and> (0 < num_timesteps s \<longrightarrow>
               nat (n_grad cfg) \<le> length (es_params s')
             \<and> extracted_vectors G = take (nat (n_grad cfg)) (es_params s')
             \<and> loaded_vectors G
                 = take (nat (n_grad cfg)) (fst (es_ask c (pop_size cfg) (world s)))
             \<and> drop (nat (n_grad cfg)) (es_params s')
                 = drop (nat (n_grad cfg)) (fst (es_ask c (pop_size cfg) (world s))))
         \<and> (\<not> 0 < num_timesteps s \<longrightarrow>
               G = [] \<and> es_params s' = fst (es_ask c (pop_size cfg) (world s)))
         \<and> env_steps E = 0 \<and> optimizer_inits E = 0 \<and> extracted_vectors E = []
         \<and> length (loaded_vectors E) \<le> 1
         \<and> loaded_vectors R = es_params s' \<and> optimizer_inits R = 0
         \<and> extracted_vectors R = []
         \<and> length (es_params s') \<le> env_steps R
         \<and> num_timesteps s' = num_timesteps s + int (env_steps R)
         \<and> actor_steps s' = int (env_steps R)
         \<and> length (es_params s') = length (fst (es_ask c (pop_size cfg) (world s)))
         \<and> length (fitnesses s') = length (es_params s')"
proof -
  let ?pop = "fst (es_ask c (pop_size cfg) (world s))"
  let ?k = "nat (n_grad cfg)"
  let ?sa = "ask_phase c cfg s"
  from generation_Continue [OF assms] obtain s1 s2 s4 where
    cb: "callback_hook cb ?sa = (Continue, s1)"
    and g: "gradient_phase c cfg s1 = Inr s2"
    and r: "rollout_phase c cfg (evaluation_phase c cfg eval_freq n s2) = Some (Inr s4)"
    and s': "s' = tell_phase c s4"
    by blast
  let ?s3 = "evaluation_phase c cfg eval_freq n s2"
  \<comment> \<open>ask and callback\<close>
  have sa: "calls ?sa = calls s @ [EsAsk (pop_size cfg) ?pop]" "es_params ?sa = ?pop"
    "fitnesses ?sa = []" "num_timesteps ?sa = num_timesteps s"
    by (simp_all add: ask_phase_eq)
  from callback_hook_facts [OF cb] obtain C where
    C: "calls s1 = calls ?sa @ C" "env_steps C = 0" "optimizer_inits C = 0"
       "extracted_vectors C = []" "loaded_vectors C = []"
    and s1eq: "s1 = ?sa\<lparr>calls := calls s1, world := world s1\<rparr>"
    by blast
  have s1: "es_params s1 = ?pop" "fitnesses s1 = []" "num_timesteps s1 = num_timesteps s"
    using sa by (subst s1eq, simp)+
  let ?A = "EsAsk (pop_size cfg) ?pop # C"
  have A: "calls s1 = calls s @ ?A" "env_steps ?A = 0" "optimizer_inits ?A = 0"
       "extracted_vectors ?A = []" "loaded_vectors ?A = []"
    using sa C by simp_all
  \<comment> \<open>gradient phase\<close>
  let ?G = "new_calls s1 s2"
  have G: "calls s2 = calls s1 @ ?G \<and> env_steps ?G = 0
         \<and> optimizer_inits ?G = (if 0 < num_timesteps s then ?k else 0)
         \<and> (0 < num_timesteps s \<longrightarrow>
               ?k \<le> length (es_params s2)
             \<and> extracted_vectors ?G = take ?k (es_params s2)
             \<and> loaded_vectors ?G = take ?k ?pop
             \<and> drop ?k (es_params s2) = drop ?k ?pop)
         \<and> (\<not> 0 < num_timesteps s \<longrightarrow> ?G = [] \<and> es_params s2 = ?pop)
         \<and> length (es_params s2) = length ?pop
         \<and> fitnesses s2 = [] \<and> num_timesteps s2 = num_timesteps s"
  proof (cases "0 < num_timesteps s")
    case True
    then have pos: "0 < num_timesteps s1" using s1 by simp
    note f = gradient_phase_Inr [OF g pos]
    from f have eq: "s2 = s1\<lparr>es_params := es_params s2, calls := calls s2, world := world s2\<rparr>"
      by blast
    have "fitnesses s2 = [] \<and> num_timesteps s2 = num_timesteps s"
      using s1 by (subst eq, simp)+
    with f True s1 show ?thesis by simp
  next
    case False
    then have "\<not> 0 < num_timesteps s1" using s1 by simp
    from gradient_phase_skipped [OF this] g have "s2 = s1" by simp
    with False s1 show ?thesis by (simp add: new_calls_def)
  qed
  \<comment> \<open>evaluation\<close>
  from evaluation_phase_facts [of c cfg eval_freq n s2] obtain E where
    E: "calls ?s3 = calls s2 @ E" "env_steps E = 0" "optimizer_inits E = 0"
       "extracted_vectors E = []" "length (loaded_vectors E) \<le> 1"
       "num_timesteps ?s3 = num_timesteps s2" "es_params ?s3 = es_params s2"
       "fitnesses ?s3 = fitnesses s2"
    by blast
  \<comment> \<open>rollouts\<close>
  from rollout_phase_Some [OF r] have rr: "rollouts_rel (es_params ?s3) (?s3\<lparr>actor_steps := 0\<rparr>) s4" .
  then obtain R where
    R: "calls s4 = calls ?s3 @ R" "loaded_vectors R = es_params ?s3" "optimizer_inits R = 0"
       "extracted_vectors R = []" "length (es_params ?s3) \<le> env_steps R"
       "num_timesteps s4 = num_timesteps ?s3 + int (env_steps R)"
       "actor_steps s4 = int (env_steps R)"
    unfolding rollouts_rel_def by auto
  from rr have R': "length (fitnesses s4) = length (fitnesses ?s3) + length (es_params ?s3)"
       "es_params s4 = es_params ?s3"
    unfolding rollouts_rel_def by simp_all
  \<comment> \<open>tell\<close>
  have t: "calls s' = calls s4 @ [EsTell (es_params s4) (fitnesses s4)]"
     "es_params s' = es_params s4" "fitnesses s' = fitnesses s4"
     "num_timesteps s' = num_timesteps s4" "actor_steps s' = actor_steps s4"
    by (simp_all add: s' tell_phase_eq)
  have es: "es_params s' = es_params s2" using t R' E by simp
  have all: "calls s' = calls s @ (?A @ ?G @ E @ R @ [EsTell (es_params s') (fitnesses s')])"
    using A(1) G E(1) R(1) t by simp
  then have nc: "new_calls s s' = ?A @ ?G @ E @ R @ [EsTell (es_params s') (fitnesses s')]"
    by (rule new_calls_append)
  have 1: "new_calls s s' = ?A @ ?G @ E @ R @ [EsTell (es_params s') (fitnesses s')]
         \<and> calls s' = calls s @ new_calls s s'"
    using all nc by simp
  have 2: "env_steps ?A = 0 \<and> optimizer_inits ?A = 0 \<and> extracted_vectors ?A = []
         \<and> loaded_vectors ?A = []" using A by simp
  have 3: "env_steps ?G = 0
         \<and> optimizer_inits ?G = (if 0 < num_timesteps s then ?k else 0)
         \<and> (0 < num_timesteps s \<longrightarrow>
               ?k \<le> length (es_params s')
             \<and> extracted_vectors ?G = take ?k (es_params s')
             \<and> loaded_vectors ?G = take ?k ?pop
             \<and> drop ?k (es_params s') = drop ?k ?pop)
         \<and> (\<not> 0 < num_timesteps s \<longrightarrow> ?G = [] \<and> es_params s' = ?pop)"
    using G unfolding es by auto
  have 4: "env_steps E = 0 \<and> optimizer_inits E = 0 \<and> extracted_vectors E = []
         \<and> length (loaded_vectors E) \<le> 1" using E by simp
  have 5: "loaded_vectors R = es_params s' \<and> optimizer_inits R = 0
         \<and> extracted_vectors R = []
         \<and> length (es_params s') \<le> env_steps R
         \<and> num_timesteps s' = num_timesteps s + int (env_steps R)
         \<and> actor_steps s' = int (env_steps R)
         \<and> length (es_params s') = length ?pop
         \<and> length (fitnesses s') = length (es_params s')"
    using R R' E G t by simp
  show ?thesis
    apply (rule exI [of _ ?A], rule exI [of _ ?G], rule exI [of _ E], rule exI [of _ R])
    apply (insert 1 2 3 4 5)
    apply (elim conjE)
    apply (intro conjI)
    apply assumption+
    done
qed

lemma generation_Continue_counts:
  assumes "generation c cfg cb eval_freq n s = Some (Inr (Continue, s'))"
  shows "calls s' = calls s @ new_calls s s'
       \<and> num_timesteps s' = num_timesteps s + int (env_steps (new_calls s s'))
       \<and> optimizer_inits (new_calls s s') = (if 0 < num_timesteps s then nat (n_grad cfg) else 0)
       \<and> extracted_vectors (new_calls s s')
           = (if 0 < num_timesteps s then take (nat (n_grad cfg)) (es_params s') else [])
       \<and> (\<not> 0 < num_timesteps s \<longrightarrow>
             es_params s' = fst (es_ask c (pop_size cfg) (world s)))
       \<and> int (length (es_params s')) \<le> num_timesteps s' - num_timesteps s"
proof -
  from generation_anatomy [OF assms] obtain A G E R where
    f: "new_calls s s' = A @ G @ E @ R @ [EsTell (es_params s') (fitnesses s')]"
       "calls s' = calls s @ new_calls s s'"
       "env_steps A = 0" "optimizer_inits A = 0" "extracted_vectors A = []"
       "env_steps G = 0"
       "optimizer_inits G = (if 0 < num_timesteps s then nat (n_grad cfg) else 0)"
       "0 < num_timesteps s \<longrightarrow>
          extracted_vectors G = take (nat (n_grad cfg)) (es_params s')"
       "\<not> 0 < num_timesteps s \<longrightarrow>
          G = [] \<and> es_params s' = fst (es_ask c (pop_size cfg) (world s))"
       "env_steps E = 0" "optimizer_inits E = 0" "extracted_vectors E = []"
       "optimizer_inits R = 0" "extracted_vectors R = []"
       "length (es_params s') \<le> env_steps R"
       "num_timesteps s' = num_timesteps s + int (env_steps R)"
    by blast
  show ?thesis unfolding f(1) using f(2-) by (auto simp: f(1))
qed

lemma generation_Break_counts:
  assumes "generation c cfg cb eval_freq n s = Some (Inr (Break, s'))"
  shows "calls s' = calls s @ new_calls s s'
       \<and> num_timesteps s' = num_timesteps s
       \<and> env_steps (new_calls s s') = 0
       \<and> optimizer_inits (new_calls s s') = 0
       \<and> extracted_vectors (new_calls s s') = []
       \<and> (\<exists>population. new_calls s s'
             = [EsAsk (pop_size cfg) population, Callback (PyBool False)])"
proof (cases cb)
  case None
  with assms show ?thesis
    by (auto simp: generation_def callback_hook_def split: sum.splits option.splits)
next
  case (Some f)
  with assms have "s' = record_call (Callback (PyBool False)) (snd (f (ask_phase c cfg s)))
                          (ask_phase c cfg s)"
    by (simp add: generation_Break)
  then show ?thesis by (simp add: ask_phase_eq record_call_def new_calls_def)
qed

lemma new_calls_trans:
  "calls t = calls s @ new_calls s t \<Longrightarrow> calls u = calls t @ new_calls t u \<Longrightarrow>
     new_calls s u = new_calls s t @ new_calls t u \<and> calls u = calls s @ new_calls s u"
  by (metis append.assoc new_calls_append)


lemma stored_flags_append [simp]: "stored_flags (xs @ ys) = stored_flags xs @ stored_flags ys"
  by (simp add: stored_flags_def)

lemma raw_dones_append [simp]: "raw_dones (xs @ ys) = raw_dones xs @ raw_dones ys"
  by (simp add: raw_dones_def)







subsection \<open>The gradient phase, exactly\<close>

lemma grad_iter_exact:
  "policy_freq cfg \<noteq> 0 \<Longrightarrow>
     grad_iter c cfg it s =
       Inr (s\<lparr>calls := calls s @ iteration_calls c cfg it (world s),
              world := iteration_world c cfg it (world s)\<rparr>)"
  by (simp add: grad_iter_def py_mod_def record_call_def iteration_calls_def
        iteration_world_def iteration_batch_def Let_def split: prod.splits)

lemma grad_iter_ZeroDivisionError:
  "policy_freq cfg = 0 \<Longrightarrow> grad_iter c cfg it s = Inl ZeroDivisionError"
  by (simp add: grad_iter_def py_mod_def Let_def split: prod.splits)

lemma grad_loop_exact:
  "policy_freq cfg \<noteq> 0 \<Longrightarrow>
     for_each (grad_iter c cfg) (map int [0..<n]) s =
       Inr (s\<lparr>calls := calls s @ iterations_calls c cfg n (world s),
              world := iterations_world c cfg n (world s)\<rparr>)"
proof (induction n)
  case 0
  then show ?case by (simp add: iterations_calls_def)
next
  case (Suc n)
  then show ?case
    by (simp add: for_each_append grad_iter_exact iterations_calls_def)
qed

lemma grad_loop_ZeroDivisionError:
  "policy_freq cfg = 0 \<Longrightarrow> 0 < n \<Longrightarrow>
     for_each (grad_iter c cfg) (map int [0..<n]) s = Inl ZeroDivisionError"
  by (cases n) (simp_all add: upt_rec [of 0] grad_iter_ZeroDivisionError del: upt_Suc)

lemma train_member_exact:
  assumes "0 \<le> i" "i < int (length (es_params s))" "n_grad cfg \<noteq> 0"
    and "policy_freq cfg \<noteq> 0 \<or> member_iterations cfg (actor_steps s) = 0"
  shows "train_member c cfg i s =
           Inr (s\<lparr>es_params :=
                    (es_params s)[nat i :=
                       parameters_to_vector c
                         (member_world c cfg (actor_steps s) (es_params s ! nat i) (world s))],
                  calls := calls s
                    @ member_calls c cfg (actor_steps s) (es_params s ! nat i) (world s),
                  world := member_world c cfg (actor_steps s) (es_params s ! nat i) (world s)\<rparr>)"
proof -
  let ?v = "es_params s ! nat i"
  let ?s3 = "s\<lparr>calls := calls s @ [ActorLoad ?v, TargetLoad ?v, NewOptimizer (learning_rate cfg)],
               world := member_start c cfg ?v (world s)\<rparr>"
  let ?n = "member_iterations cfg (actor_steps s)"
  have loop: "for_each (grad_iter c cfg) (map int [0..<?n]) ?s3 =
       Inr (?s3\<lparr>calls := calls ?s3 @ iterations_calls c cfg ?n (world ?s3),
              world := iterations_world c cfg ?n (world ?s3)\<rparr>)"
  proof (cases "policy_freq cfg \<noteq> 0")
    case True
    then show ?thesis by (rule grad_loop_exact)
  next
    case False
    with assms(4) have "?n = 0" by simp
    then show ?thesis by (simp add: iterations_calls_def)
  qed
  show ?thesis
    using assms(1,2,3) loop
    by (simp add: train_member_def py_getitem_def py_setitem_def py_index_def py_floordiv_def
          py_range_def record_call_def Let_def member_calls_def member_world_def
          member_start_def member_iterations_def)
qed

lemma train_member_ZeroDivisionError:
  assumes "0 \<le> i" "i < int (length (es_params s))" "n_grad cfg \<noteq> 0"
    and "policy_freq cfg = 0" "0 < member_iterations cfg (actor_steps s)"
  shows "train_member c cfg i s = Inl ZeroDivisionError"
proof -
  let ?v = "es_params s ! nat i"
  let ?s3 = "s\<lparr>calls := calls s @ [ActorLoad ?v, TargetLoad ?v, NewOptimizer (learning_rate cfg)],
               world := member_start c cfg ?v (world s)\<rparr>"
  have loop: "for_each (grad_iter c cfg)
                (map int [0..<member_iterations cfg (actor_steps s)]) ?s3 = Inl ZeroDivisionError"
    using assms(4,5) by (rule grad_loop_ZeroDivisionError)
  show ?thesis
    using assms(1,2,3) loop
    by (simp add: train_member_def py_getitem_def py_index_def py_floordiv_def
          py_range_def record_call_def Let_def member_iterations_def member_start_def)
qed

lemma train_member_IndexError:
  assumes "int (length (es_params s)) \<le> i"
  shows "train_member c cfg i s = Inl IndexError"
  using assms by (simp add: train_member_def py_getitem_def py_index_def)

lemma phase_population_Suc:
  "k < length ps \<Longrightarrow>
     (phase_population c cfg steps ps k w)[k := parameters_to_vector c
                                            (phase_world c cfg steps ps (Suc k) w)]
       = phase_population c cfg steps ps (Suc k) w"
  by (simp add: phase_population_def list_update_append Cons_nth_drop_Suc [symmetric]
        del: phase_world.simps)

lemma phase_population_length [simp]:
  "k \<le> length ps \<Longrightarrow> length (phase_population c cfg steps ps k w) = length ps"
  by (simp add: phase_population_def)

lemma phase_population_nth:
  "k \<le> length ps \<Longrightarrow> i < length ps \<Longrightarrow>
     phase_population c cfg steps ps k w ! i =
       (if i < k then parameters_to_vector c (phase_world c cfg steps ps (Suc i) w)
        else ps ! i)"
  by (simp add: phase_population_def nth_append del: phase_world.simps)

lemma phase_calls_Suc:
  "phase_calls c cfg steps ps (Suc k) w =
     phase_calls c cfg steps ps k w
     @ member_calls c cfg steps (ps ! k) (phase_world c cfg steps ps k w)"
  by (simp add: phase_calls_def)

lemma gradient_loop_exact:
  "k \<le> length (es_params s) \<Longrightarrow>
   k = 0 \<or> (n_grad cfg \<noteq> 0
            \<and> (policy_freq cfg \<noteq> 0 \<or> member_iterations cfg (actor_steps s) = 0)) \<Longrightarrow>
   for_each (train_member c cfg) (map int [0..<k]) s =
     Inr (s\<lparr>es_params := phase_population c cfg (actor_steps s) (es_params s) k (world s),
            calls := calls s
              @ phase_calls c cfg (actor_steps s) (es_params s) k (world s),
            world := phase_world c cfg (actor_steps s) (es_params s) k (world s)\<rparr>)"
proof (induction k)
  case 0
  then show ?case by (simp add: phase_population_def phase_calls_def)
next
  case (Suc k)
  let ?ps = "es_params s"
  let ?t = "s\<lparr>es_params := phase_population c cfg (actor_steps s) ?ps k (world s),
                  calls := calls s @ phase_calls c cfg (actor_steps s) ?ps k (world s),
                  world := phase_world c cfg (actor_steps s) ?ps k (world s)\<rparr>"
  from Suc.prems have k: "k < length ?ps" and ng: "n_grad cfg \<noteq> 0"
    and pf: "policy_freq cfg \<noteq> 0 \<or> member_iterations cfg (actor_steps s) = 0"
    by simp_all
  from Suc.IH k ng pf have ih: "for_each (train_member c cfg) (map int [0..<k]) s = Inr ?t"
    by simp
  have slot: "es_params ?t ! k = ?ps ! k" using k by (simp add: phase_population_nth)
  have tm: "train_member c cfg (int k) ?t =
           Inr (?t\<lparr>es_params :=
                    (es_params ?t)[nat (int k) :=
                       parameters_to_vector c
                         (member_world c cfg (actor_steps ?t) (es_params ?t ! nat (int k)) (world ?t))],
                  calls := calls ?t
                    @ member_calls c cfg (actor_steps ?t) (es_params ?t ! nat (int k)) (world ?t),
                  world := member_world c cfg (actor_steps ?t) (es_params ?t ! nat (int k)) (world ?t)\<rparr>)"
    using k ng pf by (intro train_member_exact) simp_all
  show ?case
    using k slot
    by (simp add: for_each_append ih tm phase_population_Suc [symmetric] phase_calls_Suc
          del: phase_population_length)
qed

lemma gradient_phase_exact:
  assumes "0 < num_timesteps s" "n_grad cfg \<le> int (length (es_params s))"
    and "n_grad cfg \<le> 0 \<or> policy_freq cfg \<noteq> 0 \<or> member_iterations cfg (actor_steps s) = 0"
  shows "gradient_phase c cfg s =
           Inr (s\<lparr>es_params :=
                    phase_population c cfg (actor_steps s) (es_params s) (nat (n_grad cfg)) (world s),
                  calls := calls s
                    @ phase_calls c cfg (actor_steps s) (es_params s) (nat (n_grad cfg)) (world s),
                  world :=
                    phase_world c cfg (actor_steps s) (es_params s) (nat (n_grad cfg)) (world s)\<rparr>)"
proof -
  from assms(2) have le: "nat (n_grad cfg) \<le> length (es_params s)" by simp
  from assms(3) have "nat (n_grad cfg) = 0 \<or> (n_grad cfg \<noteq> 0
            \<and> (policy_freq cfg \<noteq> 0 \<or> member_iterations cfg (actor_steps s) = 0))"
    by auto
  from gradient_loop_exact [OF le this, of c] assms(1)
  show ?thesis by (simp add: gradient_phase_def py_range_def)
qed

lemma gradient_loop_first_ZeroDivisionError:
  assumes "0 < k" "0 < length (es_params s)" "n_grad cfg \<noteq> 0"
    and "policy_freq cfg = 0" "0 < member_iterations cfg (actor_steps s)"
  shows "for_each (train_member c cfg) (map int [0..<k]) s = Inl ZeroDivisionError"
proof -
  have tm: "train_member c cfg 0 s = Inl ZeroDivisionError"
    using assms(2-5) by (intro train_member_ZeroDivisionError) simp_all
  from assms(1) have "[0..<k] = 0 # [Suc 0..<k]" by (simp add: upt_conv_Cons)
  then show ?thesis by (simp add: tm)
qed

lemma gradient_phase_Inr_exact:
  assumes "gradient_phase c cfg s = Inr s'" and "0 < num_timesteps s"
  shows "nat (n_grad cfg) \<le> length (es_params s)
       \<and> s' = s\<lparr>es_params :=
                    phase_population c cfg (actor_steps s) (es_params s) (nat (n_grad cfg)) (world s),
                  calls := calls s
                    @ phase_calls c cfg (actor_steps s) (es_params s) (nat (n_grad cfg)) (world s),
                  world :=
                    phase_world c cfg (actor_steps s) (es_params s) (nat (n_grad cfg)) (world s)\<rparr>"
proof -
  from gradient_phase_Inr [OF assms] have le: "nat (n_grad cfg) \<le> length (es_params s)"
    by blast
  have ok: "n_grad cfg \<le> 0 \<or> policy_freq cfg \<noteq> 0 \<or> member_iterations cfg (actor_steps s) = 0"
  proof (rule ccontr)
    assume "\<not> ?thesis"
    then have h: "0 < nat (n_grad cfg)" "n_grad cfg \<noteq> 0" "policy_freq cfg = 0"
      "0 < member_iterations cfg (actor_steps s)"
      by simp_all
    with le have "0 < length (es_params s)" by (cases "es_params s") simp_all
    from gradient_loop_first_ZeroDivisionError [OF h(1) this h(2,3,4), of c] assms
    show False by (simp add: gradient_phase_def py_range_def)
  qed
  have "n_grad cfg \<le> int (length (es_params s))"
  proof (cases "n_grad cfg \<le> 0")
    case True
    then show ?thesis using of_nat_0_le_iff [of "length (es_params s)"] by linarith
  next
    case False
    with le show ?thesis by simp
  qed
  from gradient_phase_exact [OF assms(2) this ok, of c] assms(1) le
  show ?thesis by simp
qed

lemma gradient_phase_frame:
  assumes "gradient_phase c cfg s = Inr s'"
  shows "\<exists>G. calls s' = calls s @ G \<and> env_steps G = 0
           \<and> s' = s\<lparr>es_params := es_params s', calls := calls s', world := world s'\<rparr>"
proof (cases "0 < num_timesteps s")
  case True
  from gradient_phase_Inr [OF assms True]
  have "calls s' = calls s @ new_calls s s'" "env_steps (new_calls s s') = 0"
    "s' = s\<lparr>es_params := es_params s', calls := calls s', world := world s'\<rparr>"
    by blast+
  then show ?thesis by blast
next
  case False
  from gradient_phase_skipped [OF this] assms have "s' = s" by simp
  then show ?thesis by simp
qed

lemma evaluation_phase_eq:
  "evaluation_phase c cfg eval_freq n s =
     (if 0 < eval_freq \<and> eval_freq \<le> timesteps_since_eval s
      then s\<lparr>timesteps_since_eval := timesteps_since_eval s mod eval_freq,
             evaluations := evaluations s
               @ [fst (evaluate_policy c n
                         (actor_load_from_vector c (es_mu c (world s)) (world s)))],
             calls := calls s
               @ [ActorLoad (es_mu c (world s)),
                  EvaluatePolicy n
                    (fst (evaluate_policy c n
                            (actor_load_from_vector c (es_mu c (world s)) (world s))))],
             world := snd (evaluate_policy c n
                             (actor_load_from_vector c (es_mu c (world s)) (world s)))\<rparr>
      else s)"
  by (simp add: evaluation_phase_def record_call_def Let_def split: prod.splits)

lemma generation_phases:
  assumes "generation c cfg cb eval_freq n s = Some (Inr (Continue, s'))"
  shows "\<exists>s1 s2 s4 A G E R.
           callback_hook cb (ask_phase c cfg s) = (Continue, s1)
         \<and> gradient_phase c cfg s1 = Inr s2
         \<and> rollout_phase c cfg (evaluation_phase c cfg eval_freq n s2) = Some (Inr s4)
         \<and> s' = tell_phase c s4
         \<and> es_params s1 = fst (es_ask c (pop_size cfg) (world s))
         \<and> num_timesteps s1 = num_timesteps s \<and> actor_steps s1 = actor_steps s
         \<and> timesteps_since_eval s2 = timesteps_since_eval s
         \<and> evaluations s2 = evaluations s
         \<and> calls s1 = calls s @ A \<and> calls s2 = calls s1 @ G
         \<and> env_steps A = 0 \<and> extracted_vectors A = [] \<and> loaded_vectors A = []
         \<and> env_steps G = 0 \<and> env_steps E = 0 \<and> extracted_vectors E = []
         \<and> loaded_vectors R = es_params s' \<and> extracted_vectors R = []
         \<and> es_params s' = es_params s2
         \<and> actor_steps s' = int (env_steps R)
         \<and> evaluations s' = evaluations (evaluation_phase c cfg eval_freq n s2)
         \<and> timesteps_since_eval s'
             = timesteps_since_eval (evaluation_phase c cfg eval_freq n s2) + actor_steps s'
         \<and> new_calls s s' = A @ G @ E @ R @ [EsTell (es_params s') (fitnesses s')]"
proof -
  let ?pop = "fst (es_ask c (pop_size cfg) (world s))"
  let ?sa = "ask_phase c cfg s"
  from generation_Continue [OF assms] obtain s1 s2 s4 where
    cb: "callback_hook cb ?sa = (Continue, s1)"
    and g: "gradient_phase c cfg s1 = Inr s2"
    and r: "rollout_phase c cfg (evaluation_phase c cfg eval_freq n s2) = Some (Inr s4)"
    and s': "s' = tell_phase c s4"
    by blast
  let ?s3 = "evaluation_phase c cfg eval_freq n s2"
  have sa: "calls ?sa = calls s @ [EsAsk (pop_size cfg) ?pop]" "es_params ?sa = ?pop"
    "num_timesteps ?sa = num_timesteps s" "actor_steps ?sa = actor_steps s"
    "timesteps_since_eval ?sa = timesteps_since_eval s" "evaluations ?sa = evaluations s"
    by (simp_all add: ask_phase_eq)
  from callback_hook_facts [OF cb] obtain C where
    C: "calls s1 = calls ?sa @ C" "env_steps C = 0"
       "extracted_vectors C = []" "loaded_vectors C = []"
    and s1eq: "s1 = ?sa\<lparr>calls := calls s1, world := world s1\<rparr>"
    by blast
  have s1: "es_params s1 = ?pop" "num_timesteps s1 = num_timesteps s"
    "actor_steps s1 = actor_steps s" "timesteps_since_eval s1 = timesteps_since_eval s"
    "evaluations s1 = evaluations s"
    using sa by (subst s1eq, simp)+
  let ?A = "EsAsk (pop_size cfg) ?pop # C"
  have A: "calls s1 = calls s @ ?A" "env_steps ?A = 0"
       "extracted_vectors ?A = []" "loaded_vectors ?A = []"
    using sa C by simp_all
  from gradient_phase_frame [OF g] obtain G where
    G: "calls s2 = calls s1 @ G" "env_steps G = 0"
    and s2eq: "s2 = s1\<lparr>es_params := es_params s2, calls := calls s2, world := world s2\<rparr>"
    by blast
  have s2: "timesteps_since_eval s2 = timesteps_since_eval s" "evaluations s2 = evaluations s"
    using s1 by (subst s2eq, simp)+
  from evaluation_phase_facts [of c cfg eval_freq n s2] obtain E where
    E: "calls ?s3 = calls s2 @ E" "env_steps E = 0" "extracted_vectors E = []"
       "es_params ?s3 = es_params s2"
    by blast
  from rollout_phase_Some [OF r] have rr: "rollouts_rel (es_params ?s3) (?s3\<lparr>actor_steps := 0\<rparr>) s4" .
  then obtain R where
    R: "calls s4 = calls ?s3 @ R" "loaded_vectors R = es_params ?s3"
       "extracted_vectors R = []" "actor_steps s4 = int (env_steps R)"
    unfolding rollouts_rel_def by auto
  from rr have R': "es_params s4 = es_params ?s3"
       "timesteps_since_eval s4 = timesteps_since_eval ?s3" "evaluations s4 = evaluations ?s3"
    unfolding rollouts_rel_def by simp_all
  have t: "calls s' = calls s4 @ [EsTell (es_params s4) (fitnesses s4)]"
     "es_params s' = es_params s4" "fitnesses s' = fitnesses s4"
     "actor_steps s' = actor_steps s4" "evaluations s' = evaluations s4"
     "timesteps_since_eval s' = timesteps_since_eval s4 + actor_steps s4"
    by (simp_all add: s' tell_phase_eq)
  have es: "es_params s' = es_params s2" using t R' E by simp
  have all: "calls s' = calls s @ (?A @ G @ E @ R @ [EsTell (es_params s') (fitnesses s')])"
    using A(1) G(1) E(1) R(1) t by simp
  then have nc: "new_calls s s' = ?A @ G @ E @ R @ [EsTell (es_params s') (fitnesses s')]"
    by (rule new_calls_append)
  have 1: "callback_hook cb (ask_phase c cfg s) = (Continue, s1)
         \<and> gradient_phase c cfg s1 = Inr s2
         \<and> rollout_phase c cfg (evaluation_phase c cfg eval_freq n s2) = Some (Inr s4)
         \<and> s' = tell_phase c s4"
    using cb g r s' by simp
  have 2: "es_params s1 = fst (es_ask c (pop_size cfg) (world s))
         \<and> num_timesteps s1 = num_timesteps s \<and> actor_steps s1 = actor_steps s
         \<and> timesteps_since_eval s2 = timesteps_since_eval s
         \<and> evaluations s2 = evaluations s"
    using s1 s2 by simp
  have 3: "calls s1 = calls s @ ?A \<and> calls s2 = calls s1 @ G
         \<and> env_steps ?A = 0 \<and> extracted_vectors ?A = [] \<and> loaded_vectors ?A = []
         \<and> env_steps G = 0 \<and> env_steps E = 0 \<and> extracted_vectors E = []"
    using A G E by simp
  have 4: "loaded_vectors R = es_params s' \<and> extracted_vectors R = []
         \<and> es_params s' = es_params s2
         \<and> actor_steps s' = int (env_steps R)
         \<and> evaluations s' = evaluations (evaluation_phase c cfg eval_freq n s2)
         \<and> timesteps_since_eval s'
             = timesteps_since_eval (evaluation_phase c cfg eval_freq n s2) + actor_steps s'"
    using R R' E t es by simp
  show ?thesis
    apply (rule exI [of _ s1], rule exI [of _ s2], rule exI [of _ s4])
    apply (rule exI [of _ ?A], rule exI [of _ G], rule exI [of _ E], rule exI [of _ R])
    apply (insert 1 2 3 4 nc)
    apply (elim conjE)
    apply (intro conjI)
    apply assumption+
    done
qed

lemmas train_defs = demo_defs train_collab_def train_state_def

section \<open>The claims\<close>

subsection \<open>C1\<close>



subsection \<open>C2\<close>

text \<open>
  C2.  When the gradient phase runs (\<open>num_timesteps > 0\<close>) with \<open>n_grad\<close> not above the
  population's length and \<open>policy_freq\<close> not zero, it returns a state \<open>sg\<close>; it changes
  the population, the calls and the world only, so \<open>actor_steps\<close> is the same before
  and after.  Its calls are those of the members \<open>i < n_grad\<close> in index order.  Member
  \<open>i\<close>, with the vector \<open>v\<close> of slot \<open>i\<close>, starts in the world \<open>w\<close> that the members
  before it leave: \<open>v\<close> is loaded into the actor and into the target and the optimizer is
  made anew, which gives the world \<open>w0\<close>; then exactly \<open>N = 2 * (actor_steps div n_grad)\<close>
  iterations run, \<open>wk k\<close> being the world before iteration \<open>k\<close>.  Iteration \<open>k\<close> samples
  the batch \<open>b k\<close> of \<open>batch_size\<close> from the replay buffer in \<open>wk k\<close>, updates the critic
  on \<open>b k\<close> and, exactly when \<open>k mod policy_freq = 0\<close>, updates the actor on the same
  \<open>b k\<close>.  The vector read from the actor in the world \<open>wk N\<close> after the last iteration is
  the new slot \<open>i\<close>.  With \<open>actor_steps = 0\<close> the member's calls are load, load,
  optimizer, read, and the slot is what the actor gives back in \<open>w0\<close>.
  When the state \<open>sa\<close> in which the phase starts is that of a generation after ask and
  callback, and the generation before it ran to its end, \<open>actor_steps\<close> is the number of
  environment steps of that earlier generation, and the generation goes on from \<open>sg\<close>.
\<close>

theorem gradient_iterations:
  assumes "0 < num_timesteps sa" and "n_grad cfg \<le> int (length (es_params sa))"
    and "policy_freq cfg \<noteq> 0" and "0 \<le> actor_steps sa"
  shows "\<exists>sg.
      gradient_phase c cfg sa = Inr sg
    \<and> actor_steps sg = actor_steps sa
    \<and> sg = sa\<lparr>es_params := es_params sg, calls := calls sg, world := world sg\<rparr>
    \<and> world sg = phase_world c cfg (actor_steps sa) (es_params sa) (nat (n_grad cfg)) (world sa)
    \<and> new_calls sa sg =
        concat (map (\<lambda>i. member_calls c cfg (actor_steps sa) (es_params sa ! i)
                          (phase_world c cfg (actor_steps sa) (es_params sa) i (world sa)))
                  [0..<nat (n_grad cfg)])
    \<and> (\<forall>i < nat (n_grad cfg).
         (let v = es_params sa ! i;
              w = phase_world c cfg (actor_steps sa) (es_params sa) i (world sa);
              w0 = new_optimizer c (learning_rate cfg)
                     (target_load_from_vector c v (actor_load_from_vector c v w));
              N = nat (2 * (actor_steps sa div n_grad cfg));
              wk = (\<lambda>k. iterations_world c cfg k w0);
              b = (\<lambda>k. fst (buffer_sample c (batch_size cfg) (wk k)))
          in int N = 2 * (actor_steps sa div n_grad cfg)
           \<and> member_calls c cfg (actor_steps sa) v w =
               [ActorLoad v, TargetLoad v, NewOptimizer (learning_rate cfg)]
               @ concat (map (\<lambda>k. BufferSample (batch_size cfg) (b k) # TrainCritic (b k)
                                  # (if int k mod policy_freq cfg = 0 then [TrainActor (b k)]
                                     else []))
                           [0..<N])
               @ [ParametersToVector (es_params sg ! i)]
           \<and> wk 0 = w0
           \<and> (\<forall>k < N. wk (Suc k) =
                 (if int k mod policy_freq cfg = 0
                  then train_actor c (b k)
                         (train_critic c (b k) (snd (buffer_sample c (batch_size cfg) (wk k))))
                  else train_critic c (b k) (snd (buffer_sample c (batch_size cfg) (wk k)))))
           \<and> es_params sg ! i = parameters_to_vector c (wk N)
           \<and> phase_world c cfg (actor_steps sa) (es_params sa) (Suc i) (world sa) = wk N
           \<and> (actor_steps sa = 0 \<longrightarrow>
                member_calls c cfg (actor_steps sa) v w =
                  [ActorLoad v, TargetLoad v, NewOptimizer (learning_rate cfg),
                   ParametersToVector (parameters_to_vector c w0)]
              \<and> es_params sg ! i = parameters_to_vector c w0
              \<and> phase_world c cfg (actor_steps sa) (es_params sa) (Suc i) (world sa) = w0)))
    \<and> (generation c cfg cb0 eval_freq0 n0 s0 = Some (Inr (Continue, s))
       \<and> callback_hook cb (ask_phase c cfg s) = (Continue, sa) \<longrightarrow>
         actor_steps sa = int (env_steps (new_calls s0 s))
       \<and> generation c cfg cb eval_freq n s =
           (case rollout_phase c cfg (evaluation_phase c cfg eval_freq n sg) of
              None \<Rightarrow> None
            | Some (Inl e) \<Rightarrow> Some (Inl e)
            | Some (Inr s3) \<Rightarrow> Some (Inr (Continue, tell_phase c s3))))"
proof -
  let ?ps = "es_params sa"
  let ?a = "actor_steps sa"
  let ?k = "nat (n_grad cfg)"
  let ?sg = "sa\<lparr>es_params := phase_population c cfg ?a ?ps ?k (world sa),
                calls := calls sa @ phase_calls c cfg ?a ?ps ?k (world sa),
                world := phase_world c cfg ?a ?ps ?k (world sa)\<rparr>"
  from assms(3) have pf: "n_grad cfg \<le> 0 \<or> policy_freq cfg \<noteq> 0
      \<or> member_iterations cfg (actor_steps sa) = 0" by simp
  note g = gradient_phase_exact [OF assms(1,2) pf, of c]
  from assms(2) have le: "?k \<le> length ?ps" by simp
  have 1: "actor_steps ?sg = actor_steps sa" by simp
  have 2: "?sg = sa\<lparr>es_params := es_params ?sg, calls := calls ?sg, world := world ?sg\<rparr>"
    by simp
  have 3: "world ?sg = phase_world c cfg ?a ?ps ?k (world sa)" by simp
  have "calls ?sg = calls sa @ phase_calls c cfg ?a ?ps ?k (world sa)" by simp
  then have "new_calls sa ?sg = phase_calls c cfg ?a ?ps ?k (world sa)"
    by (rule new_calls_append)
  then have 4: "new_calls sa ?sg =
        concat (map (\<lambda>i. member_calls c cfg ?a (?ps ! i) (phase_world c cfg ?a ?ps i (world sa)))
                  [0..<?k])"
    by (simp add: phase_calls_def)
  have 5: "let v = ?ps ! i;
              w = phase_world c cfg ?a ?ps i (world sa);
              w0 = new_optimizer c (learning_rate cfg)
                     (target_load_from_vector c v (actor_load_from_vector c v w));
              N = nat (2 * (?a div n_grad cfg));
              wk = (\<lambda>k. iterations_world c cfg k w0);
              b = (\<lambda>k. fst (buffer_sample c (batch_size cfg) (wk k)))
          in int N = 2 * (?a div n_grad cfg)
           \<and> member_calls c cfg ?a v w =
               [ActorLoad v, TargetLoad v, NewOptimizer (learning_rate cfg)]
               @ concat (map (\<lambda>k. BufferSample (batch_size cfg) (b k) # TrainCritic (b k)
                                  # (if int k mod policy_freq cfg = 0 then [TrainActor (b k)]
                                     else []))
                           [0..<N])
               @ [ParametersToVector (es_params ?sg ! i)]
           \<and> wk 0 = w0
           \<and> (\<forall>k < N. wk (Suc k) =
                 (if int k mod policy_freq cfg = 0
                  then train_actor c (b k)
                         (train_critic c (b k) (snd (buffer_sample c (batch_size cfg) (wk k))))
                  else train_critic c (b k) (snd (buffer_sample c (batch_size cfg) (wk k)))))
           \<and> es_params ?sg ! i = parameters_to_vector c (wk N)
           \<and> phase_world c cfg ?a ?ps (Suc i) (world sa) = wk N
           \<and> (?a = 0 \<longrightarrow>
                member_calls c cfg ?a v w =
                  [ActorLoad v, TargetLoad v, NewOptimizer (learning_rate cfg),
                   ParametersToVector (parameters_to_vector c w0)]
              \<and> es_params ?sg ! i = parameters_to_vector c w0
              \<and> phase_world c cfg ?a ?ps (Suc i) (world sa) = w0)"
    if i: "i < ?k" for i
  proof -
    from i have ng: "0 < n_grad cfg" by simp
    with assms(4) have nn: "0 \<le> ?a div n_grad cfg"
      by (simp add: pos_imp_zdiv_nonneg_iff)
    from i le have il: "i < length ?ps" by simp
    have slot: "es_params ?sg ! i = parameters_to_vector c (phase_world c cfg ?a ?ps (Suc i) (world sa))"
      using i le il by (simp add: phase_population_nth del: phase_world.simps)
    show ?thesis
      unfolding Let_def slot
      using nn
      by (simp add: member_calls_def member_world_def member_start_def member_iterations_def
            iterations_calls_def iteration_calls_def iteration_batch_def iteration_world_def
          cong: if_cong)
  qed
  have 6: "actor_steps sa = int (env_steps (new_calls s0 s))
       \<and> generation c cfg cb eval_freq n s =
           (case rollout_phase c cfg (evaluation_phase c cfg eval_freq n ?sg) of
              None \<Rightarrow> None
            | Some (Inl e) \<Rightarrow> Some (Inl e)
            | Some (Inr s3) \<Rightarrow> Some (Inr (Continue, tell_phase c s3)))"
    if gen: "generation c cfg cb0 eval_freq0 n0 s0 = Some (Inr (Continue, s))"
      and cb: "callback_hook cb (ask_phase c cfg s) = (Continue, sa)"
  proof -
    from generation_phases [OF gen] obtain A G E R where
      f: "env_steps A = 0" "env_steps G = 0" "env_steps E = 0"
         "actor_steps s = int (env_steps R)"
         "new_calls s0 s = A @ G @ E @ R @ [EsTell (es_params s) (fitnesses s)]"
      by blast
    have st: "actor_steps s = int (env_steps (new_calls s0 s))"
      unfolding f(5) using f(1-4) by simp
    from callback_hook_facts [OF cb]
    have "sa = (ask_phase c cfg s)\<lparr>calls := calls sa, world := world sa\<rparr>" by blast
    then have "actor_steps sa = actor_steps (ask_phase c cfg s)" by (rule ssubst) simp
    then have "actor_steps sa = actor_steps s" by (simp add: ask_phase_eq)
    with st have a: "actor_steps sa = int (env_steps (new_calls s0 s))" by simp
    have b: "generation c cfg cb eval_freq n s =
           (case rollout_phase c cfg (evaluation_phase c cfg eval_freq n ?sg) of
              None \<Rightarrow> None
            | Some (Inl e) \<Rightarrow> Some (Inl e)
            | Some (Inr s3) \<Rightarrow> Some (Inr (Continue, tell_phase c s3)))"
      unfolding generation_def cb prod.case flow.case g sum.case ..
    from a b show ?thesis ..
  qed
  show ?thesis
    apply (rule exI [of _ ?sg])
    apply (intro conjI allI impI)
    apply (rule g)
    apply (rule 1)
    apply (rule 2)
    apply (rule 3)
    apply (rule 4)
    apply (erule 5)
    apply (erule conjE, erule (1) 6 [THEN conjunct1])
    apply (erule conjE, erule (1) 6 [THEN conjunct2])
    done
qed

theorem gradient_iterations_witness:
  "(\<exists>s sa sg.
      generation (train_collab 1) demo_config None (- 1) 5 (new_object (0, [], 0))
        = Some (Inr (Continue, s))
    \<and> callback_hook None (ask_phase (train_collab 1) demo_config s) = (Continue, sa)
    \<and> gradient_phase (train_collab 1) demo_config sa = Inr sg
    \<and> int (env_steps (new_calls (new_object (0, [], 0)) s)) = 2
    \<and> actor_steps sa = 2
    \<and> es_params sa = [[0], [10]]
    \<and> es_params sg = [[2], [10]]
    \<and> world sa = (1, [10], 0)
    \<and> world sg = (1, [2], 4)
    \<and> new_calls sa sg =
        [ActorLoad [0], TargetLoad [0], NewOptimizer (1 / 1000),
         BufferSample 100 [\<lparr>t_obs = [0], t_next_obs = [], t_action = [], t_reward = 0,
                             t_done = PyInt 0\<rparr>],
         TrainCritic [\<lparr>t_obs = [0], t_next_obs = [], t_action = [], t_reward = 0,
                        t_done = PyInt 0\<rparr>],
         TrainActor [\<lparr>t_obs = [0], t_next_obs = [], t_action = [], t_reward = 0,
                       t_done = PyInt 0\<rparr>],
         BufferSample 100 [\<lparr>t_obs = [1], t_next_obs = [], t_action = [], t_reward = 1,
                             t_done = PyInt 0\<rparr>],
         TrainCritic [\<lparr>t_obs = [1], t_next_obs = [], t_action = [], t_reward = 1,
                        t_done = PyInt 0\<rparr>],
         BufferSample 100 [\<lparr>t_obs = [1], t_next_obs = [], t_action = [], t_reward = 2,
                             t_done = PyInt 0\<rparr>],
         TrainCritic [\<lparr>t_obs = [1], t_next_obs = [], t_action = [], t_reward = 2,
                        t_done = PyInt 0\<rparr>],
         TrainActor [\<lparr>t_obs = [1], t_next_obs = [], t_action = [], t_reward = 2,
                       t_done = PyInt 0\<rparr>],
         BufferSample 100 [\<lparr>t_obs = [2], t_next_obs = [], t_action = [], t_reward = 3,
                             t_done = PyInt 0\<rparr>],
         TrainCritic [\<lparr>t_obs = [2], t_next_obs = [], t_action = [], t_reward = 3,
                        t_done = PyInt 0\<rparr>],
         ParametersToVector [2]])
   \<and> (\<exists>sg. gradient_phase (train_collab 1) demo_config
              (train_state\<lparr>actor_steps := 0, es_params := [[5], [6]]\<rparr>) = Inr sg
          \<and> es_params sg = [[5], [6]]
          \<and> world sg = (0, [5], 0)
          \<and> calls sg = [ActorLoad [5], TargetLoad [5], NewOptimizer (1 / 1000),
                        ParametersToVector [5]])"
proof -
  let ?c = "train_collab 1"
  let ?s0 = "new_object (0, [], 0) :: train_world state"
  obtain s where gen: "generation ?c demo_config None (- 1) 5 ?s0 = Some (Inr (Continue, s))"
    by (simp add: train_defs)
  from gen have sf: "num_timesteps s = 2" "actor_steps s = 2" "world s = (1, [10], 0)"
    by (auto simp: train_defs)
  let ?sa = "ask_phase ?c demo_config s"
  have cb: "callback_hook None ?sa = (Continue, ?sa)" by (simp add: callback_hook_def)
  have saf: "num_timesteps ?sa = 2" "actor_steps ?sa = 2" "world ?sa = (1, [10], 0)"
    "es_params ?sa = [[0], [10]]"
    using sf by (simp_all add: ask_phase_eq train_collab_def demo_config_def eval_nat_numeral)
  have h: "0 < num_timesteps ?sa" "n_grad demo_config \<le> int (length (es_params ?sa))"
    "policy_freq demo_config \<noteq> 0" "0 \<le> actor_steps ?sa"
    using saf by (simp_all add: demo_config_def)
  note t = gradient_iterations [OF h, where c = ?c and cb0 = None and ?eval_freq0.0 = "- 1"
      and ?n0.0 = 5 and ?s0.0 = ?s0 and s = s and cb = None and eval_freq = "- 1" and n = 5]
  from t gen cb obtain sg where g: "gradient_phase ?c demo_config ?sa = Inr sg"
    and carried: "actor_steps ?sa = int (env_steps (new_calls ?s0 s))"
    by blast
  let ?b = "\<lambda>v u. [\<lparr>t_obs = [v], t_next_obs = [], t_action = [], t_reward = u,
                       t_done = PyInt 0\<rparr>]"
  have "gradient_phase ?c demo_config ?sa =
          Inr (?sa\<lparr>es_params := [[2], [10]],
                   calls := calls ?sa @
                     [ActorLoad [0], TargetLoad [0], NewOptimizer (1 / 1000),
                      BufferSample 100 (?b 0 0), TrainCritic (?b 0 0), TrainActor (?b 0 0),
                      BufferSample 100 (?b 1 1), TrainCritic (?b 1 1),
                      BufferSample 100 (?b 1 2), TrainCritic (?b 1 2), TrainActor (?b 1 2),
                      BufferSample 100 (?b 2 3), TrainCritic (?b 2 3),
                      ParametersToVector [2]],
                   world := (1, [2], 4)\<rparr>)"
    using saf
    by (simp add: gradient_phase_def train_member_def grad_iter_def py_range_def py_getitem_def
          py_setitem_def py_index_def py_floordiv_def py_mod_def record_call_def
          train_collab_def demo_config_def Let_def eval_nat_numeral)
  with g have sg: "sg = ?sa\<lparr>es_params := [[2], [10]],
                   calls := calls ?sa @
                     [ActorLoad [0], TargetLoad [0], NewOptimizer (1 / 1000),
                      BufferSample 100 (?b 0 0), TrainCritic (?b 0 0), TrainActor (?b 0 0),
                      BufferSample 100 (?b 1 1), TrainCritic (?b 1 1),
                      BufferSample 100 (?b 1 2), TrainCritic (?b 1 2), TrainActor (?b 1 2),
                      BufferSample 100 (?b 2 3), TrainCritic (?b 2 3),
                      ParametersToVector [2]],
                   world := (1, [2], 4)\<rparr>"
    by simp
  have first: "\<exists>s sa sg.
      generation ?c demo_config None (- 1) 5 ?s0 = Some (Inr (Continue, s))
    \<and> callback_hook None (ask_phase ?c demo_config s) = (Continue, sa)
    \<and> gradient_phase ?c demo_config sa = Inr sg
    \<and> int (env_steps (new_calls ?s0 s)) = 2
    \<and> actor_steps sa = 2
    \<and> es_params sa = [[0], [10]]
    \<and> es_params sg = [[2], [10]]
    \<and> world sa = (1, [10], 0)
    \<and> world sg = (1, [2], 4)
    \<and> new_calls sa sg =
        [ActorLoad [0], TargetLoad [0], NewOptimizer (1 / 1000),
         BufferSample 100 (?b 0 0), TrainCritic (?b 0 0), TrainActor (?b 0 0),
         BufferSample 100 (?b 1 1), TrainCritic (?b 1 1),
         BufferSample 100 (?b 1 2), TrainCritic (?b 1 2), TrainActor (?b 1 2),
         BufferSample 100 (?b 2 3), TrainCritic (?b 2 3),
         ParametersToVector [2]]"
    apply (rule exI [of _ s], rule exI [of _ ?sa], rule exI [of _ sg])
    apply (intro conjI)
    apply (rule gen)
    apply (rule cb)
    apply (rule g)
    apply (subst carried [symmetric], rule saf)
    apply (rule saf)
    apply (rule saf)
    apply (simp add: sg)
    apply (rule saf)
    apply (simp add: sg)
    apply (rule new_calls_append, simp add: sg)
    done
  let ?z = "train_state\<lparr>actor_steps := 0, es_params := [[5], [6]]\<rparr>"
  have h2: "0 < num_timesteps ?z" "n_grad demo_config \<le> int (length (es_params ?z))"
    "policy_freq demo_config \<noteq> 0" "0 \<le> actor_steps ?z"
    by (simp_all add: demo_config_def train_state_def)
  note t2 = gradient_iterations [OF h2, where c = ?c and cb0 = None and ?eval_freq0.0 = "- 1"
      and ?n0.0 = 5 and ?s0.0 = ?s0 and s = s and cb = None and eval_freq = "- 1" and n = 5]
  from t2 obtain sg2 where g2: "gradient_phase ?c demo_config ?z = Inr sg2" by blast
  from g2 have "es_params sg2 = [[5], [6]] \<and> world sg2 = (0, [5], 0)
      \<and> calls sg2 = [ActorLoad [5], TargetLoad [5], NewOptimizer (1 / 1000),
                        ParametersToVector [5]]"
    by (auto simp: train_defs new_object_def)
  with g2 have second: "\<exists>sg. gradient_phase ?c demo_config ?z = Inr sg
          \<and> es_params sg = [[5], [6]]
          \<and> world sg = (0, [5], 0)
          \<and> calls sg = [ActorLoad [5], TargetLoad [5], NewOptimizer (1 / 1000),
                        ParametersToVector [5]]"
    by blast
  from first second show ?thesis by (rule conjI)
qed

subsection \<open>C3\<close>

text \<open>
  C3.  As stated the claim fails: a generation that the callback stops makes no call of
  the gradient phase although \<open>num_timesteps > 0\<close> at its start (the third generation of
  the run below), and with an empty population \<open>num_timesteps\<close> stays \<open>0\<close>, so the second
  generation skips the phase too.
\<close>

theorem gradient_phase_guard_counterexample:
  "(\<exists>s1 s2 s3.
       generation (demo_collab 1) demo_config (Some demo_callback) (- 1) 5 (new_object 0)
         = Some (Inr (Continue, s1))
     \<and> generation (demo_collab 1) demo_config (Some demo_callback) (- 1) 5 s1
         = Some (Inr (Continue, s2))
     \<and> generation (demo_collab 1) demo_config (Some demo_callback) (- 1) 5 s2
         = Some (Inr (Break, s3))
     \<and> num_timesteps s2 = 4 \<and> n_grad demo_config = 1
     \<and> optimizer_inits (new_calls s2 s3) = 0 \<and> extracted_vectors (new_calls s2 s3) = [])
   \<and> (\<exists>s1 s2.
       generation (demo_collab 1) (demo_config\<lparr>pop_size := 0\<rparr>) None (- 1) 5 (new_object 0)
         = Some (Inr (Continue, s1))
     \<and> generation (demo_collab 1) (demo_config\<lparr>pop_size := 0\<rparr>) None (- 1) 5 s1
         = Some (Inr (Continue, s2))
     \<and> num_timesteps s1 = 0
     \<and> optimizer_inits (new_calls s1 s2) = 0 \<and> extracted_vectors (new_calls s1 s2) = [])"
  by (simp add: demo_defs new_calls_def)

text \<open>
  C3, amended.  In every generation that the callback does not stop and that runs to
  its end, the gradient phase is executed exactly when \<open>num_timesteps > 0\<close> at the start:
  the optimizer is re-initialised \<open>n_grad\<close> times and the \<open>n_grad\<close> vectors read back from
  the actor are the first slots of the population if \<open>num_timesteps > 0\<close>, and there is no
  such call and the population is the sampled one if not.  So the phase is skipped in the
  first generation of a \<^verbatim>\<open>learn\<close> that starts at \<open>num_timesteps = 0\<close>; and after such a
  generation with a population that is not empty, \<open>num_timesteps > 0\<close>, so every later
  generation of that kind executes it.
\<close>

theorem gradient_phase_guard:
  assumes "generation c cfg cb eval_freq n s = Some (Inr (Continue, s'))"
  shows "optimizer_inits (new_calls s s') = (if 0 < num_timesteps s then nat (n_grad cfg) else 0)
       \<and> extracted_vectors (new_calls s s')
           = (if 0 < num_timesteps s then take (nat (n_grad cfg)) (es_params s') else [])
       \<and> (num_timesteps s = 0 \<longrightarrow> es_params s' = fst (es_ask c (pop_size cfg) (world s)))
       \<and> (0 \<le> num_timesteps s \<and> es_params s' \<noteq> [] \<longrightarrow> 0 < num_timesteps s')"
proof -
  note f = generation_Continue_counts [OF assms]
  have "0 < num_timesteps s'" if "0 \<le> num_timesteps s" "es_params s' \<noteq> []"
  proof -
    from that(2) have "0 < int (length (es_params s'))" by simp
    with f that(1) show ?thesis by linarith
  qed
  with f show ?thesis by simp
qed

theorem gradient_phase_guard_witness:
  "\<exists>s1 s2.
       generation (demo_collab 1) demo_config None (- 1) 5 (new_object 0)
         = Some (Inr (Continue, s1))
     \<and> optimizer_inits (new_calls (new_object 0) s1) = 0
     \<and> num_timesteps s1 = 2
     \<and> generation (demo_collab 1) demo_config None (- 1) 5 s1 = Some (Inr (Continue, s2))
     \<and> optimizer_inits (new_calls s1 s2) = 1
     \<and> extracted_vectors (new_calls s1 s2) = [[1]]"
proof -
  obtain s1 where g1: "generation (demo_collab 1) demo_config None (- 1) 5 (new_object 0)
         = Some (Inr (Continue, s1))"
    by (simp add: demo_defs)
  from g1 have n1: "num_timesteps s1 = 2" by (auto simp: demo_defs)
  from g1 obtain s2 where g2: "generation (demo_collab 1) demo_config None (- 1) 5 s1
         = Some (Inr (Continue, s2))"
    by (auto simp: demo_defs)
  from g1 g2 have e2: "es_params s2 = [[1], [0]]" by (auto simp: demo_defs)
  from gradient_phase_guard [OF g1] gradient_phase_guard [OF g2] n1 e2 g1 g2
  show ?thesis by (intro exI [of _ s1] exI [of _ s2]) (simp add: new_object_def demo_config_def)
qed

subsection \<open>C4\<close>

text \<open>
  C4.  With a callback \<open>f\<close>, a generation leaves the loop exactly when \<open>f\<close> returns the
  object \<open>False\<close>; \<open>None\<close> and every other value let it go on to the next iteration of
  the loop.  The state on leaving is the one right after the ask phase and the callback:
  the only calls of the generation are the ask and the callback, the fitness list is
  empty, the population is the one just sampled, and \<^verbatim>\<open>learn\<close>'s loop returns that state.
\<close>

theorem callback_stops_only_on_False:
  "(let sa = ask_phase c cfg s; r = fst (f sa);
        sb = record_call (Callback r) (snd (f sa)) sa
    in (\<forall>s'. generation c cfg (Some f) eval_freq n s = Some (Inr (Break, s'))
               \<longleftrightarrow> r = PyBool False \<and> s' = sb)
     \<and> (r = PyBool False \<longrightarrow>
           new_calls s sb = [EsAsk (pop_size cfg) (es_params sb), Callback (PyBool False)]
         \<and> es_params sb = fst (es_ask c (pop_size cfg) (world s))
         \<and> fitnesses sb = [] \<and> num_timesteps sb = num_timesteps s
         \<and> (num_timesteps s < total_timesteps \<longrightarrow>
               learn_loop c cfg total_timesteps (Some f) eval_freq n s = Some (Inr sb)))
     \<and> (r \<noteq> PyBool False \<longrightarrow>
           (\<forall>fl s'. generation c cfg (Some f) eval_freq n s = Some (Inr (fl, s')) \<longrightarrow>
              fl = Continue
              \<and> (num_timesteps s < total_timesteps \<longrightarrow>
                   learn_loop c cfg total_timesteps (Some f) eval_freq n s
                   = learn_loop c cfg total_timesteps (Some f) eval_freq n s'))))"
proof -
  let ?sa = "ask_phase c cfg s"
  let ?sb = "record_call (Callback (PyBool False)) (snd (f ?sa)) ?sa"
  have stop: "new_calls s ?sb = [EsAsk (pop_size cfg) (es_params ?sb), Callback (PyBool False)]
         \<and> es_params ?sb = fst (es_ask c (pop_size cfg) (world s))
         \<and> fitnesses ?sb = [] \<and> num_timesteps ?sb = num_timesteps s"
    by (simp add: ask_phase_eq record_call_def new_calls_def)
  have halt: "learn_loop c cfg total_timesteps (Some f) eval_freq n s = Some (Inr ?sb)"
    if "fst (f ?sa) = PyBool False" "num_timesteps s < total_timesteps"
  proof -
    from that(1) have "generation c cfg (Some f) eval_freq n s = Some (Inr (Break, ?sb))"
      by (simp add: generation_Break)
    with that(2) show ?thesis
      by (subst learn_loop.simps) simp
  qed
  have go: "fl = Continue
            \<and> (num_timesteps s < total_timesteps \<longrightarrow>
                   learn_loop c cfg total_timesteps (Some f) eval_freq n s
                   = learn_loop c cfg total_timesteps (Some f) eval_freq n s')"
    if "fst (f ?sa) \<noteq> PyBool False"
       "generation c cfg (Some f) eval_freq n s = Some (Inr (fl, s'))" for fl s'
  proof -
    from generation_not_Break [OF that] have fl: "fl = Continue" .
    with that(2) show ?thesis
      by (subst learn_loop.simps) simp
  qed
  show ?thesis
    unfolding Let_def
  proof (intro conjI allI impI)
    fix s'
    show "generation c cfg (Some f) eval_freq n s = Some (Inr (Break, s'))
          \<longleftrightarrow> fst (f ?sa) = PyBool False
              \<and> s' = record_call (Callback (fst (f ?sa))) (snd (f ?sa)) ?sa"
      by (auto simp: generation_Break)
  qed (use stop halt go in \<open>simp_all\<close>)
qed

theorem callback_stops_only_on_False_witness:
  "(\<exists>s'. generation (demo_collab 1) demo_config (Some demo_callback) (- 1) 5
            ((new_object 0)\<lparr>num_timesteps := 4\<rparr>) = Some (Inr (Break, s'))
        \<and> new_calls ((new_object 0)\<lparr>num_timesteps := 4\<rparr>) s'
            = [EsAsk 2 [[0], [0]], Callback (PyBool False)]
        \<and> learn_loop (demo_collab 1) demo_config 10 (Some demo_callback) (- 1) 5
            ((new_object 0)\<lparr>num_timesteps := 4\<rparr>) = Some (Inr s'))
   \<and> (\<exists>s'. generation (demo_collab 1) demo_config (Some demo_callback) (- 1) 5 (new_object 0)
            = Some (Inr (Continue, s'))
        \<and> learn_loop (demo_collab 1) demo_config 10 (Some demo_callback) (- 1) 5 (new_object 0)
          = learn_loop (demo_collab 1) demo_config 10 (Some demo_callback) (- 1) 5 s')"
proof -
  let ?s4 = "(new_object 0)\<lparr>num_timesteps := 4\<rparr> :: nat state"
  note t4 = callback_stops_only_on_False [where c = "demo_collab 1" and cfg = demo_config
      and f = demo_callback and eval_freq = "- 1" and n = 5 and total_timesteps = 10 and s = ?s4]
  note t0 = callback_stops_only_on_False [where c = "demo_collab 1" and cfg = demo_config
      and f = demo_callback and eval_freq = "- 1" and n = 5 and total_timesteps = 10
      and s = "new_object 0"]
  have r4: "fst (demo_callback (ask_phase (demo_collab 1) demo_config ?s4)) = PyBool False"
    by (simp add: demo_defs)
  have r0: "fst (demo_callback (ask_phase (demo_collab 1) demo_config (new_object 0)))
              \<noteq> PyBool False"
    by (simp add: demo_defs)
  have lt: "num_timesteps ?s4 < 10" "num_timesteps (new_object 0 :: nat state) < 10"
    by (simp_all add: new_object_def)
  have e4: "es_ask (demo_collab 1) (pop_size demo_config) (world ?s4) = ([[0], [0]], 0)"
    by (simp add: demo_defs)
  from t4 r4 lt(1) e4 have 1: "\<exists>s'. generation (demo_collab 1) demo_config (Some demo_callback) (- 1) 5
            ?s4 = Some (Inr (Break, s'))
        \<and> new_calls ?s4 s' = [EsAsk 2 [[0], [0]], Callback (PyBool False)]
        \<and> learn_loop (demo_collab 1) demo_config 10 (Some demo_callback) (- 1) 5 ?s4
            = Some (Inr s')"
    by (simp add: Let_def demo_config_def)
  obtain s' where g: "generation (demo_collab 1) demo_config (Some demo_callback) (- 1) 5
       (new_object 0) = Some (Inr (Continue, s'))"
    by (simp add: demo_defs)
  from t0 r0 lt(2) g have 2: "learn_loop (demo_collab 1) demo_config 10 (Some demo_callback) (- 1) 5 (new_object 0)
          = learn_loop (demo_collab 1) demo_config 10 (Some demo_callback) (- 1) 5 s'"
    by (simp add: Let_def)
  from 1 2 g show ?thesis by blast
qed

subsection \<open>C5\<close>

text \<open>
  C5.  As stated the claim fails: the callback is called before the rollouts of its
  generation, so when it returns \<open>False\<close> in generation 3 the loop is left before any
  environment step of generation 3.  In the run below \<^verbatim>\<open>learn\<close> halts with
  \<open>num_timesteps = 4\<close>, the steps of generations 1 and 2; the rollout phase of generation 3,
  had it run, would have brought the count to \<open>6\<close>.
\<close>

theorem early_stop_count_counterexample:
  "\<exists>s1 s2 s3 s4.
       generation (demo_collab 1) demo_config (Some demo_callback) (- 1) 5 (new_object 0)
         = Some (Inr (Continue, s1))
     \<and> generation (demo_collab 1) demo_config (Some demo_callback) (- 1) 5 s1
         = Some (Inr (Continue, s2))
     \<and> generation (demo_collab 1) demo_config (Some demo_callback) (- 1) 5 s2
         = Some (Inr (Break, s3))
     \<and> learn (demo_collab 1) demo_config 1000 (Some demo_callback) (- 1) 5 (new_object 0)
         = Some (Inr s3)
     \<and> num_timesteps s2 = 4 \<and> num_timesteps s3 = 4 \<and> env_steps (calls s3) = 4
     \<and> rollout_phase (demo_collab 1) demo_config s3 = Some (Inr s4)
     \<and> num_timesteps s4 = 6
     \<and> num_timesteps s3 \<noteq> num_timesteps s4"
proof -
  obtain s1 where g1: "generation (demo_collab 1) demo_config (Some demo_callback) (- 1) 5
         (new_object 0) = Some (Inr (Continue, s1))"
    by (simp add: demo_defs)
  from g1 obtain s2 where g2: "generation (demo_collab 1) demo_config (Some demo_callback) (- 1) 5
         s1 = Some (Inr (Continue, s2))"
    by (auto simp: demo_defs)
  from g1 g2 obtain s3 where g3: "generation (demo_collab 1) demo_config (Some demo_callback) (- 1) 5
         s2 = Some (Inr (Break, s3))"
    by (auto simp: demo_defs)
  from g1 have n1: "num_timesteps s1 = 2" by (auto simp: demo_defs)
  from g1 g2 have n2: "num_timesteps s2 = 4" by (auto simp: demo_defs)
  from g1 g2 g3 have n3: "num_timesteps s3 = 4 \<and> env_steps (calls s3) = 4"
    by (auto simp: demo_defs)
  from g1 g2 g3 obtain s4 where r4: "rollout_phase (demo_collab 1) demo_config s3 = Some (Inr s4)"
    "num_timesteps s4 = 6"
    by (auto simp: demo_defs)
  have l3: "learn_loop (demo_collab 1) demo_config 1000 (Some demo_callback) (- 1) 5 s2
              = Some (Inr s3)"
    using n2 g3 by (subst learn_loop.simps) simp
  have l2: "learn_loop (demo_collab 1) demo_config 1000 (Some demo_callback) (- 1) 5 s1
              = Some (Inr s3)"
    using n1 g2 l3 by (subst learn_loop.simps) simp
  have l1: "learn_loop (demo_collab 1) demo_config 1000 (Some demo_callback) (- 1) 5
              (new_object 0) = Some (Inr s3)"
    using g1 l2 by (subst learn_loop.simps) (simp add: new_object_def)
  have l: "learn (demo_collab 1) demo_config 1000 (Some demo_callback) (- 1) 5 (new_object 0)
              = Some (Inr s3)"
    using l1 by (simp add: learn_def new_object_def)
  from g1 g2 g3 l n2 n3 r4 show ?thesis
    by (intro exI [of _ s1] exI [of _ s2] exI [of _ s3] exI [of _ s4]) simp
qed

text \<open>
  C5, amended.  If the callback returns \<open>False\<close> in generation 3, \<^verbatim>\<open>learn\<close> halts with
  \<open>num_timesteps\<close> equal to its value at the end of generation 2, that is the start value
  plus the environment steps of generations 1 and 2: generation 3 makes the ask and the
  callback call and no environment step.
\<close>

theorem early_stop_count:
  assumes "s0 = s\<lparr>timesteps_since_eval := 0, actor_steps := 0, episode_num := 0,
                  evaluations := []\<rparr>"
    and "num_timesteps s0 < total_timesteps"
    and "generation c cfg cb eval_freq n s0 = Some (Inr (Continue, s1))"
    and "num_timesteps s1 < total_timesteps"
    and "generation c cfg cb eval_freq n s1 = Some (Inr (Continue, s2))"
    and "num_timesteps s2 < total_timesteps"
    and "generation c cfg cb eval_freq n s2 = Some (Inr (Break, s3))"
  shows "learn c cfg total_timesteps cb eval_freq n s = Some (Inr s3)
       \<and> num_timesteps s3 = num_timesteps s2
       \<and> num_timesteps s3
           = num_timesteps s + int (env_steps (new_calls s0 s1) + env_steps (new_calls s1 s2))
       \<and> num_timesteps s3 = num_timesteps s + int (env_steps (new_calls s s3))
       \<and> env_steps (new_calls s2 s3) = 0
       \<and> (\<exists>population. new_calls s2 s3
             = [EsAsk (pop_size cfg) population, Callback (PyBool False)])"
proof -
  note c1 = generation_Continue_counts [OF assms(3)]
  note c2 = generation_Continue_counts [OF assms(5)]
  note c3 = generation_Break_counts [OF assms(7)]
  have l3: "learn_loop c cfg total_timesteps cb eval_freq n s2 = Some (Inr s3)"
    using assms(6,7) by (subst learn_loop.simps) simp
  have l2: "learn_loop c cfg total_timesteps cb eval_freq n s1 = Some (Inr s3)"
    using assms(4,5) l3 by (subst learn_loop.simps) simp
  have l1: "learn_loop c cfg total_timesteps cb eval_freq n s0 = Some (Inr s3)"
    using assms(2,3) l2 by (subst learn_loop.simps) simp
  have l: "learn c cfg total_timesteps cb eval_freq n s = Some (Inr s3)"
    using l1 by (simp add: learn_def assms(1))
  note k1 = c1 [THEN conjunct1] and k2 = c2 [THEN conjunct1] and k3 = c3 [THEN conjunct1]
  note t2 = new_calls_trans [OF k1 k2]
  note t3 = new_calls_trans [OF t2 [THEN conjunct2] k3]
  have e2: "env_steps (new_calls s0 s2) = env_steps (new_calls s0 s1) + env_steps (new_calls s1 s2)"
    by (subst t2 [THEN conjunct1]) simp
  have e3: "env_steps (new_calls s0 s3) = env_steps (new_calls s0 s2) + env_steps (new_calls s2 s3)"
    by (subst t3 [THEN conjunct1]) simp
  have n1: "num_timesteps s1 = num_timesteps s0 + int (env_steps (new_calls s0 s1))"
    by (rule c1 [THEN conjunct2, THEN conjunct1])
  have n2: "num_timesteps s2 = num_timesteps s1 + int (env_steps (new_calls s1 s2))"
    by (rule c2 [THEN conjunct2, THEN conjunct1])
  have n3: "num_timesteps s3 = num_timesteps s2"
    by (rule c3 [THEN conjunct2, THEN conjunct1])
  have z3: "env_steps (new_calls s2 s3) = 0"
    by (rule c3 [THEN conjunct2, THEN conjunct2, THEN conjunct1])
  have p3: "\<exists>population. new_calls s2 s3
             = [EsAsk (pop_size cfg) population, Callback (PyBool False)]"
    by (rule c3 [THEN conjunct2, THEN conjunct2, THEN conjunct2, THEN conjunct2, THEN conjunct2])
  have s0: "num_timesteps s0 = num_timesteps s" "new_calls s s3 = new_calls s0 s3"
    by (simp_all add: assms(1) new_calls_def)
  have a: "num_timesteps s3
           = num_timesteps s + int (env_steps (new_calls s0 s1) + env_steps (new_calls s1 s2))"
    using n1 n2 n3 s0(1) by simp
  have b: "num_timesteps s3 = num_timesteps s + int (env_steps (new_calls s s3))"
    using a e2 e3 z3 by (simp add: s0(2))
  from l n3 a b z3 p3 show ?thesis by (intro conjI)
qed

theorem early_stop_count_witness:
  "\<exists>s3. learn (demo_collab 1) demo_config 1000 (Some demo_callback) (- 1) 5 (new_object 0)
           = Some (Inr s3)
       \<and> num_timesteps s3 = 4 \<and> env_steps (new_calls (new_object 0) s3) = 4"
proof -
  let ?s0 = "(new_object 0)\<lparr>timesteps_since_eval := 0, actor_steps := 0, episode_num := 0,
                  evaluations := []\<rparr> :: nat state"
  obtain s1 where g1: "generation (demo_collab 1) demo_config (Some demo_callback) (- 1) 5 ?s0
         = Some (Inr (Continue, s1))"
    by (simp add: demo_defs)
  from g1 obtain s2 where g2: "generation (demo_collab 1) demo_config (Some demo_callback) (- 1) 5 s1
         = Some (Inr (Continue, s2))"
    by (auto simp: demo_defs)
  from g1 g2 obtain s3 where g3: "generation (demo_collab 1) demo_config (Some demo_callback) (- 1) 5 s2
         = Some (Inr (Break, s3))"
    by (auto simp: demo_defs)
  have n0: "num_timesteps ?s0 < 1000" by (simp add: new_object_def)
  from g1 have n1: "num_timesteps s1 < 1000" by (auto simp: demo_defs)
  from g1 g2 have n2: "num_timesteps s2 < 1000" "num_timesteps s2 = 4" by (auto simp: demo_defs)
  from early_stop_count [OF refl n0 g1 n1 g2 n2(1) g3] n2(2)
  show ?thesis by (intro exI [of _ s3]) (simp add: new_object_def)
qed

subsection \<open>C6\<close>

text \<open>
  C6.  As stated the claim fails: nothing in \<^verbatim>\<open>__init__\<close> or \<^verbatim>\<open>_setup_model\<close> compares
  \<open>n_grad\<close> with \<open>pop_size\<close>.  With \<open>pop_size = 2\<close> and \<open>n_grad = 3\<close> the construction
  succeeds, the first generation runs, and the second one raises \<^verbatim>\<open>IndexError\<close> in the
  gradient phase.
\<close>

theorem n_grad_validation_counterexample:
  "pop_size (demo_config\<lparr>n_grad := 3\<rparr>) < n_grad (demo_config\<lparr>n_grad := 3\<rparr>)
   \<and> init demo_constructors (demo_collab 1) (demo_config\<lparr>n_grad := 3\<rparr>) True
       = Inr (new_object 0)
   \<and> (\<exists>s1. generation (demo_collab 1) (demo_config\<lparr>n_grad := 3\<rparr>) None (- 1) 5 (new_object 0)
              = Some (Inr (Continue, s1))
          \<and> gradient_phase (demo_collab 1) (demo_config\<lparr>n_grad := 3\<rparr>)
               (ask_phase (demo_collab 1) (demo_config\<lparr>n_grad := 3\<rparr>) s1) = Inl IndexError)
   \<and> learn (demo_collab 1) (demo_config\<lparr>n_grad := 3\<rparr>) 1000 None (- 1) 5 (new_object 0)
       = Some (Inl IndexError)"
  by (simp add: demo_defs learn_def learn_loop.simps init_def setup_model_def
        demo_constructors_def)

text \<open>
  C6, amended.  Construction does not look at \<open>n_grad\<close>: with any constructors of the base
  class and of the strategy, its outcome is the same for every value of \<open>n_grad\<close>.  A
  configuration with \<open>n_grad > pop_size\<close> is found in the loop, in a generation that
  starts with \<open>num_timesteps > 0\<close> and is not stopped by the callback, the ask having
  returned \<open>pop_size\<close> vectors.  The gradient phase trains the members \<open>0\<close> to
  \<open>pop_size - 1\<close> and raises \<^verbatim>\<open>IndexError\<close> when it indexes the population at slot
  \<open>pop_size\<close> (line 78), and so does the generation.  The one exception is
  \<open>policy_freq = 0\<close> with a population that is not empty and at least one iteration due
  (\<open>actor_steps div n_grad > 0\<close>): then the first iteration of member \<open>0\<close> raises
  \<^verbatim>\<open>ZeroDivisionError\<close> (line 98) before slot \<open>pop_size\<close> is reached.
\<close>

theorem n_grad_found_in_loop:
  assumes "0 < num_timesteps s"
    and "int (length (fst (es_ask c (pop_size cfg) (world s)))) = pop_size cfg"
    and "pop_size cfg < n_grad cfg"
    and "callback_hook cb (ask_phase c cfg s) = (Continue, sa)"
  shows "init k c (cfg\<lparr>n_grad := g\<rparr>) init_setup_model = init k c cfg init_setup_model
       \<and> (if policy_freq cfg = 0 \<and> 0 < actor_steps s div n_grad cfg \<and> 0 < pop_size cfg
          then train_member c cfg 0 sa = Inl ZeroDivisionError
             \<and> gradient_phase c cfg sa = Inl ZeroDivisionError
             \<and> generation c cfg cb eval_freq n s = Some (Inl ZeroDivisionError)
          else (\<exists>t. for_each (train_member c cfg) (py_range (pop_size cfg)) sa = Inr t
                   \<and> int (length (es_params t)) = pop_size cfg
                   \<and> py_getitem (es_params t) (pop_size cfg) = Inl IndexError
                   \<and> train_member c cfg (pop_size cfg) t = Inl IndexError)
             \<and> gradient_phase c cfg sa = Inl IndexError
             \<and> generation c cfg cb eval_freq n s = Some (Inl IndexError))"
proof -
  let ?P = "fst (es_ask c (pop_size cfg) (world s))"
  let ?p = "nat (pop_size cfg)"
  from callback_hook_facts [OF assms(4)]
  have "sa = (ask_phase c cfg s)\<lparr>calls := calls sa, world := world sa\<rparr>" by blast
  then have "es_params sa = es_params (ask_phase c cfg s)
      \<and> num_timesteps sa = num_timesteps (ask_phase c cfg s)
      \<and> actor_steps sa = actor_steps (ask_phase c cfg s)"
    by (rule ssubst) simp
  then have sa: "es_params sa = ?P" "num_timesteps sa = num_timesteps s"
    "actor_steps sa = actor_steps s"
    by (simp_all add: ask_phase_eq)
  from assms(2) have p0: "0 \<le> pop_size cfg" by linarith
  with assms(2,3) sa have len: "length (es_params sa) = ?p" and ng: "n_grad cfg \<noteq> 0"
    and lt: "?p < nat (n_grad cfg)"
    by simp_all
  from assms(1) sa have pos: "0 < num_timesteps sa" by simp
  have gp: "gradient_phase c cfg sa
              = for_each (train_member c cfg) (map int [0..<nat (n_grad cfg)]) sa"
    using pos by (simp add: gradient_phase_def py_range_def)
  have gen: "generation c cfg cb eval_freq n s = Some (Inl e)"
    if "gradient_phase c cfg sa = Inl e" for e
    using that assms(4) by (simp add: generation_def)
  have "setup_model k c (cfg\<lparr>n_grad := g\<rparr>) = setup_model k c cfg"
    by (rule ext) (simp add: setup_model_def split: sum.splits)
  then have i: "init k c (cfg\<lparr>n_grad := g\<rparr>) init_setup_model = init k c cfg init_setup_model"
    by (simp add: init_def cong: sum.case_cong if_cong)
  have iters: "0 < member_iterations cfg (actor_steps sa) \<longleftrightarrow> 0 < actor_steps s div n_grad cfg"
    by (simp add: member_iterations_def sa)
  show ?thesis
  proof (cases "policy_freq cfg = 0 \<and> 0 < actor_steps s div n_grad cfg \<and> 0 < pop_size cfg")
    case True
    then have pf: "policy_freq cfg = 0" and it: "0 < member_iterations cfg (actor_steps sa)"
      and ne: "0 < length (es_params sa)"
      using iters len by simp_all
    have tm: "train_member c cfg 0 sa = Inl ZeroDivisionError"
      using ne ng pf it by (intro train_member_ZeroDivisionError) simp_all
    from lt have "0 < nat (n_grad cfg)" by simp
    from gradient_loop_first_ZeroDivisionError [OF this ne ng pf it, of c]
    have g: "gradient_phase c cfg sa = Inl ZeroDivisionError" unfolding gp .
    from i tm g gen [OF g] True show ?thesis by simp
  next
    case False
    then have ok: "?p = 0 \<or> (n_grad cfg \<noteq> 0
            \<and> (policy_freq cfg \<noteq> 0 \<or> member_iterations cfg (actor_steps sa) = 0))"
      using iters ng p0 by auto
    let ?t = "sa\<lparr>es_params := phase_population c cfg (actor_steps sa) (es_params sa) ?p (world sa),
            calls := calls sa
              @ phase_calls c cfg (actor_steps sa) (es_params sa) ?p (world sa),
            world := phase_world c cfg (actor_steps sa) (es_params sa) ?p (world sa)\<rparr>"
    have le: "?p \<le> length (es_params sa)" using len by simp
    note loop = gradient_loop_exact [OF le ok, of c]
    have tl: "length (es_params ?t) = ?p" using len by simp
    then have tl': "int (length (es_params ?t)) = pop_size cfg" using p0 by simp
    have gi: "py_getitem (es_params ?t) (pop_size cfg) = Inl IndexError"
      using tl' p0 by (simp add: py_getitem_def py_index_def del: phase_population_length)
    have tm: "train_member c cfg (pop_size cfg) ?t = Inl IndexError"
      by (rule train_member_IndexError) (simp only: tl')
    from lt have "[0..<nat (n_grad cfg)] = [0..<?p] @ ?p # [Suc ?p..<nat (n_grad cfg)]"
      by (metis less_imp_le_nat upt_conv_Cons le_add_diff_inverse upt_add_eq_append zero_le)
    then have "for_each (train_member c cfg) (map int [0..<nat (n_grad cfg)]) sa
        = (case for_each (train_member c cfg) (map int [0..<?p]) sa of
             Inl e \<Rightarrow> Inl e
           | Inr t \<Rightarrow> for_each (train_member c cfg)
                        (int ?p # map int [Suc ?p..<nat (n_grad cfg)]) t)"
      by (simp only: map_append list.map for_each_append)
    also have "\<dots> = Inl IndexError"
      unfolding loop using tm p0 by simp
    finally have g: "gradient_phase c cfg sa = Inl IndexError" unfolding gp .
    have ex: "\<exists>t. for_each (train_member c cfg) (py_range (pop_size cfg)) sa = Inr t
                   \<and> int (length (es_params t)) = pop_size cfg
                   \<and> py_getitem (es_params t) (pop_size cfg) = Inl IndexError
                   \<and> train_member c cfg (pop_size cfg) t = Inl IndexError"
      apply (rule exI [of _ ?t])
      apply (intro conjI)
      apply (simp only: py_range_def loop)
      apply (rule tl')
      apply (rule gi)
      apply (rule tm)
      done
    from i ex g gen [OF g] False show ?thesis by simp
  qed
qed

theorem n_grad_found_in_loop_witness:
  "init demo_constructors (demo_collab 1) (demo_config\<lparr>n_grad := 1\<rparr>) True
     = init demo_constructors (demo_collab 1) (demo_config\<lparr>n_grad := 3\<rparr>) True
   \<and> (\<exists>t. for_each (train_member (demo_collab 1) (demo_config\<lparr>n_grad := 3\<rparr>)) [0, 1]
             (ask_phase (demo_collab 1) (demo_config\<lparr>n_grad := 3\<rparr>) demo_state) = Inr t
          \<and> es_params t = [[1], [1]]
          \<and> train_member (demo_collab 1) (demo_config\<lparr>n_grad := 3\<rparr>) 2 t = Inl IndexError)
   \<and> generation (demo_collab 1) (demo_config\<lparr>n_grad := 3\<rparr>) None (- 1) 5 demo_state
       = Some (Inl IndexError)
   \<and> generation (demo_collab 1) (demo_config\<lparr>n_grad := 3, policy_freq := 0\<rparr>) None (- 1) 5
       (demo_state\<lparr>actor_steps := 6\<rparr>)
       = Some (Inl ZeroDivisionError)
   \<and> generation (demo_collab 1) (demo_config\<lparr>n_grad := 3, policy_freq := 0\<rparr>) None (- 1) 5
       demo_state
       = Some (Inl IndexError)"
proof -
  let ?c = "demo_collab 1"
  let ?cfg = "demo_config\<lparr>n_grad := 3\<rparr>"
  let ?cfz = "demo_config\<lparr>n_grad := 3, policy_freq := 0\<rparr>"
  let ?z = "demo_state\<lparr>actor_steps := 6\<rparr>"
  have h: "0 < num_timesteps demo_state"
    "int (length (fst (es_ask ?c (pop_size ?cfg) (world demo_state)))) = pop_size ?cfg"
    "pop_size ?cfg < n_grad ?cfg"
    "callback_hook None (ask_phase ?c ?cfg demo_state) = (Continue, ask_phase ?c ?cfg demo_state)"
    by (simp_all add: callback_hook_def demo_collab_def demo_config_def demo_state_def)
  have h0: "0 < num_timesteps ?z"
    "int (length (fst (es_ask ?c (pop_size ?cfz) (world ?z)))) = pop_size ?cfz"
    "pop_size ?cfz < n_grad ?cfz"
    "callback_hook None (ask_phase ?c ?cfz ?z) = (Continue, ask_phase ?c ?cfz ?z)"
    by (simp_all add: callback_hook_def demo_collab_def demo_config_def demo_state_def)
  have h1: "0 < num_timesteps demo_state"
    "int (length (fst (es_ask ?c (pop_size ?cfz) (world demo_state)))) = pop_size ?cfz"
    "pop_size ?cfz < n_grad ?cfz"
    "callback_hook None (ask_phase ?c ?cfz demo_state)
       = (Continue, ask_phase ?c ?cfz demo_state)"
    by (simp_all add: callback_hook_def demo_collab_def demo_config_def demo_state_def)
  note t = n_grad_found_in_loop [OF h, where k = demo_constructors and g = 1
      and init_setup_model = True and eval_freq = "- 1" and n = 5]
  note t0 = n_grad_found_in_loop [OF h0, where k = demo_constructors and g = 1
      and init_setup_model = True and eval_freq = "- 1" and n = 5]
  note t1 = n_grad_found_in_loop [OF h1, where k = demo_constructors and g = 1
      and init_setup_model = True and eval_freq = "- 1" and n = 5]
  from t have a: "init demo_constructors ?c (demo_config\<lparr>n_grad := 1\<rparr>) True
     = init demo_constructors ?c ?cfg True"
    by simp
  from t obtain t' where
    b: "for_each (train_member ?c ?cfg) (py_range (pop_size ?cfg)) (ask_phase ?c ?cfg demo_state)
          = Inr t'"
       "train_member ?c ?cfg (pop_size ?cfg) t' = Inl IndexError"
    and b3: "generation ?c ?cfg None (- 1) 5 demo_state = Some (Inl IndexError)"
    by (auto simp: demo_config_def)
  have pr: "pop_size ?cfg = 2" "py_range 2 = [0, 1]"
    by (simp_all add: py_range_def demo_config_def eval_nat_numeral)
  from b(1) have es: "es_params t' = [[1], [1]]"
    by (auto simp: demo_defs demo_state_def)
  from t0 have c: "generation ?c ?cfz None (- 1) 5 ?z = Some (Inl ZeroDivisionError)"
    by (simp add: demo_config_def demo_state_def new_object_def)
  from t1 have d: "generation ?c ?cfz None (- 1) 5 demo_state = Some (Inl IndexError)"
    by (simp add: demo_config_def demo_state_def new_object_def)
  from b es have "\<exists>t. for_each (train_member ?c ?cfg) [0, 1] (ask_phase ?c ?cfg demo_state) = Inr t
          \<and> es_params t = [[1], [1]]
          \<and> train_member ?c ?cfg 2 t = Inl IndexError"
    unfolding pr by blast
  with a b3 c d show ?thesis by simp
qed

subsection \<open>C7\<close>

text \<open>
  C7.  The evaluator is called by the evaluation phase exactly when
  \<open>0 < eval_freq \<le> timesteps_since_eval\<close>.  When it is, the counter becomes its old value
  modulo \<open>eval_freq\<close>, which lies in \<open>[0, eval_freq)\<close>; the strategy's mean vector \<open>mu\<close> is
  loaded into the actor, the evaluator runs in the world that this load leaves, the
  reward \<open>r\<close> it returns is appended to \<open>evaluations\<close>, and the world afterwards is the
  one the evaluator leaves; nothing else changes.  Otherwise the phase changes nothing.
  In a generation \<open>g\<close> that runs to its end, the phase runs on the state \<open>sg\<close> that the
  gradient phase leaves, whose counter is the one the generation started with, and
  the rollouts and the tell that follow add the generation's \<open>actor_steps\<close> to the
  counter and leave \<open>evaluations\<close> alone.
\<close>

theorem evaluation_trigger:
  "(let mu = es_mu c (world s);
        loaded = actor_load_from_vector c mu (world s);
        r = fst (evaluate_policy c n loaded);
        s' = evaluation_phase c cfg eval_freq n s
    in ((\<exists>x. EvaluatePolicy n x \<in> set (new_calls s s')) \<longleftrightarrow>
          (0 < eval_freq \<and> eval_freq \<le> timesteps_since_eval s))
     \<and> (if 0 < eval_freq \<and> eval_freq \<le> timesteps_since_eval s
        then timesteps_since_eval s' = timesteps_since_eval s mod eval_freq
           \<and> 0 \<le> timesteps_since_eval s' \<and> timesteps_since_eval s' < eval_freq
           \<and> new_calls s s' = [ActorLoad mu, EvaluatePolicy n r]
           \<and> evaluations s' = evaluations s @ [r]
           \<and> world s' = snd (evaluate_policy c n loaded)
           \<and> s' = s\<lparr>timesteps_since_eval := timesteps_since_eval s mod eval_freq,
                     evaluations := evaluations s @ [r],
                     calls := calls s @ [ActorLoad mu, EvaluatePolicy n r],
                     world := snd (evaluate_policy c n loaded)\<rparr>
        else s' = s))
   \<and> (generation c cfg cb eval_freq n g = Some (Inr (Continue, g')) \<longrightarrow>
        (\<exists>sg. gradient_phase c cfg (snd (callback_hook cb (ask_phase c cfg g))) = Inr sg
            \<and> timesteps_since_eval sg = timesteps_since_eval g
            \<and> evaluations sg = evaluations g
            \<and> (\<exists>x. rollout_phase c cfg (evaluation_phase c cfg eval_freq n sg) = Some (Inr x)
                   \<and> g' = tell_phase c x)
            \<and> evaluations g' =
                evaluations g
                @ (if 0 < eval_freq \<and> eval_freq \<le> timesteps_since_eval g
                   then [fst (evaluate_policy c n
                                (actor_load_from_vector c (es_mu c (world sg)) (world sg)))]
                   else [])
            \<and> timesteps_since_eval g' =
                (if 0 < eval_freq \<and> eval_freq \<le> timesteps_since_eval g
                 then timesteps_since_eval g mod eval_freq
                 else timesteps_since_eval g) + actor_steps g'))"
proof (intro conjI impI)
  show "let mu = es_mu c (world s);
        loaded = actor_load_from_vector c mu (world s);
        r = fst (evaluate_policy c n loaded);
        s' = evaluation_phase c cfg eval_freq n s
    in ((\<exists>x. EvaluatePolicy n x \<in> set (new_calls s s')) \<longleftrightarrow>
          (0 < eval_freq \<and> eval_freq \<le> timesteps_since_eval s))
     \<and> (if 0 < eval_freq \<and> eval_freq \<le> timesteps_since_eval s
        then timesteps_since_eval s' = timesteps_since_eval s mod eval_freq
           \<and> 0 \<le> timesteps_since_eval s' \<and> timesteps_since_eval s' < eval_freq
           \<and> new_calls s s' = [ActorLoad mu, EvaluatePolicy n r]
           \<and> evaluations s' = evaluations s @ [r]
           \<and> world s' = snd (evaluate_policy c n loaded)
           \<and> s' = s\<lparr>timesteps_since_eval := timesteps_since_eval s mod eval_freq,
                     evaluations := evaluations s @ [r],
                     calls := calls s @ [ActorLoad mu, EvaluatePolicy n r],
                     world := snd (evaluate_policy c n loaded)\<rparr>
        else s' = s)"
    by (simp add: evaluation_phase_eq new_calls_def Let_def)
next
  assume gen: "generation c cfg cb eval_freq n g = Some (Inr (Continue, g'))"
  from generation_phases [OF gen] obtain s1 sg x where
    f: "callback_hook cb (ask_phase c cfg g) = (Continue, s1)"
       "gradient_phase c cfg s1 = Inr sg"
       "rollout_phase c cfg (evaluation_phase c cfg eval_freq n sg) = Some (Inr x)"
       "g' = tell_phase c x"
       "timesteps_since_eval sg = timesteps_since_eval g"
       "evaluations sg = evaluations g"
       "evaluations g' = evaluations (evaluation_phase c cfg eval_freq n sg)"
       "timesteps_since_eval g'
             = timesteps_since_eval (evaluation_phase c cfg eval_freq n sg) + actor_steps g'"
    by blast
  have e: "evaluations (evaluation_phase c cfg eval_freq n sg) =
             evaluations g
             @ (if 0 < eval_freq \<and> eval_freq \<le> timesteps_since_eval g
                then [fst (evaluate_policy c n
                             (actor_load_from_vector c (es_mu c (world sg)) (world sg)))]
                else [])"
    "timesteps_since_eval (evaluation_phase c cfg eval_freq n sg) =
       (if 0 < eval_freq \<and> eval_freq \<le> timesteps_since_eval g
        then timesteps_since_eval g mod eval_freq else timesteps_since_eval g)"
    using f(5,6) by (simp_all add: evaluation_phase_eq)
  have g1: "gradient_phase c cfg (snd (callback_hook cb (ask_phase c cfg g))) = Inr sg"
    using f(1,2) by simp
  have g2: "\<exists>x. rollout_phase c cfg (evaluation_phase c cfg eval_freq n sg) = Some (Inr x)
                   \<and> g' = tell_phase c x"
    using f(3,4) by blast
  have g3: "evaluations g' =
                evaluations g
                @ (if 0 < eval_freq \<and> eval_freq \<le> timesteps_since_eval g
                   then [fst (evaluate_policy c n
                                (actor_load_from_vector c (es_mu c (world sg)) (world sg)))]
                   else [])"
    using f(7) e(1) by simp
  have g4: "timesteps_since_eval g' =
                (if 0 < eval_freq \<and> eval_freq \<le> timesteps_since_eval g
                 then timesteps_since_eval g mod eval_freq
                 else timesteps_since_eval g) + actor_steps g'"
    using f(8) e(2) by simp
  show "\<exists>sg. gradient_phase c cfg (snd (callback_hook cb (ask_phase c cfg g))) = Inr sg
            \<and> timesteps_since_eval sg = timesteps_since_eval g
            \<and> evaluations sg = evaluations g
            \<and> (\<exists>x. rollout_phase c cfg (evaluation_phase c cfg eval_freq n sg) = Some (Inr x)
                   \<and> g' = tell_phase c x)
            \<and> evaluations g' =
                evaluations g
                @ (if 0 < eval_freq \<and> eval_freq \<le> timesteps_since_eval g
                   then [fst (evaluate_policy c n
                                (actor_load_from_vector c (es_mu c (world sg)) (world sg)))]
                   else [])
            \<and> timesteps_since_eval g' =
                (if 0 < eval_freq \<and> eval_freq \<le> timesteps_since_eval g
                 then timesteps_since_eval g mod eval_freq
                 else timesteps_since_eval g) + actor_steps g'"
    apply (rule exI [of _ sg])
    apply (insert g1 f(5,6) g2 g3 g4)
    apply (intro conjI)
    apply assumption+
    done
qed

theorem evaluation_trigger_witness:
  "evaluation_phase (train_collab 1) demo_config 5 3
       ((new_object (0, [3], 0))\<lparr>timesteps_since_eval := 7\<rparr>)
     = (new_object (0, [7], 0))
         \<lparr>timesteps_since_eval := 2, evaluations := [7],
          calls := [ActorLoad [7], EvaluatePolicy 3 7]\<rparr>
   \<and> evaluation_phase (train_collab 1) demo_config 5 3
       ((new_object (0, [3], 0))\<lparr>timesteps_since_eval := 4\<rparr>)
      = (new_object (0, [3], 0))\<lparr>timesteps_since_eval := 4\<rparr>
   \<and> (\<exists>g'. generation (train_collab 1) demo_config None 5 3
              (train_state\<lparr>timesteps_since_eval := 7\<rparr>) = Some (Inr (Continue, g'))
          \<and> evaluations g' = [7] \<and> timesteps_since_eval g' = 4 \<and> actor_steps g' = 2)"
proof -
  let ?g = "train_state\<lparr>timesteps_since_eval := 7\<rparr>"
  obtain g' where
    gen: "generation (train_collab 1) demo_config None 5 3 ?g = Some (Inr (Continue, g'))"
    by (simp add: train_defs)
  from gen have a: "actor_steps g' = 2" by (auto simp: train_defs)
  note t1 = evaluation_trigger [where c = "train_collab 1" and cfg = demo_config
      and eval_freq = 5 and n = 3 and s = "(new_object (0, [3], 0))\<lparr>timesteps_since_eval := 7\<rparr>"
      and cb = None and g = ?g and g' = g']
  note t2 = evaluation_trigger [where c = "train_collab 1" and cfg = demo_config
      and eval_freq = 5 and n = 3 and s = "(new_object (0, [3], 0))\<lparr>timesteps_since_eval := 4\<rparr>"
      and cb = None and g = ?g and g' = g']
  from t1 have p1: "evaluation_phase (train_collab 1) demo_config 5 3
       ((new_object (0, [3], 0))\<lparr>timesteps_since_eval := 7\<rparr>)
     = (new_object (0, [7], 0))
         \<lparr>timesteps_since_eval := 2, evaluations := [7],
          calls := [ActorLoad [7], EvaluatePolicy 3 7]\<rparr>"
    by (simp add: Let_def new_object_def train_collab_def)
  from t2 have p2: "evaluation_phase (train_collab 1) demo_config 5 3
       ((new_object (0, [3], 0))\<lparr>timesteps_since_eval := 4\<rparr>)
      = (new_object (0, [3], 0))\<lparr>timesteps_since_eval := 4\<rparr>"
    by (simp add: Let_def new_object_def)
  from t1 gen obtain sg where
    sg: "gradient_phase (train_collab 1) demo_config
           (snd (callback_hook None (ask_phase (train_collab 1) demo_config ?g))) = Inr sg"
    and ev: "evaluations g' =
                evaluations ?g
                @ (if 0 < (5::int) \<and> 5 \<le> timesteps_since_eval ?g
                   then [fst (evaluate_policy (train_collab 1) 3
                                (actor_load_from_vector (train_collab 1)
                                   (es_mu (train_collab 1) (world sg)) (world sg)))]
                   else [])"
    and ts: "timesteps_since_eval g' =
                (if 0 < (5::int) \<and> 5 \<le> timesteps_since_eval ?g
                 then timesteps_since_eval ?g mod 5
                 else timesteps_since_eval ?g) + actor_steps g'"
    by blast
  from ev have "evaluations g' = [7]"
    by (cases "world sg") (simp add: train_collab_def train_state_def new_object_def split: prod.splits)
  moreover from ts a have "timesteps_since_eval g' = 4"
    by (simp add: train_state_def)
  ultimately show ?thesis using p1 p2 gen a by blast
qed

subsection \<open>C8\<close>

text \<open>
  C8.  With \<open>action_noise_std > 0\<close>, a step of the rollout chooses the action \<open>a\<close> (random
  during warm-up, the policy's afterwards), draws a noise vector with mean \<open>0\<close> and
  standard deviation \<open>action_noise_std\<close>, and adds the two componentwise (a vector of
  length one is added to every component of the other; two vectors of other unequal
  lengths raise \<^verbatim>\<open>ValueError\<close>).  Every component of the sum is clipped to \<open>[-1, 1]\<close>;
  the environment is stepped with \<open>max_action\<close> times the clipped vector, and the clipped
  vector, not the rescaled one, is what the replay buffer stores.
\<close>

theorem noisy_action_clipped:
  assumes "0 < action_noise_std cfg"
  shows "(let warm = num_timesteps s < start_timesteps cfg;
              chosen = (if warm then space_sample c (world s)
                        else select_action c (obs s) (world s));
              a = fst chosen;
              drawn = random_normal c 0 (action_noise_std cfg) (action_dim cfg) (snd chosen);
              noise = fst drawn;
              raw = (if length a = length noise then map (\<lambda>j. a ! j + noise ! j) [0..<length a]
                     else if length a = 1 then map (\<lambda>y. a ! 0 + y) noise
                     else map (\<lambda>x. x + noise ! 0) a);
              clipped = map (\<lambda>x. min (max x (- 1)) 1) raw;
              stepped = env_step c (map (\<lambda>x. max_action cfg * x) clipped) (snd drawn);
              ob = fst (fst stepped);
              r = fst (snd (fst stepped));
              d = snd (snd (fst stepped));
              tr = \<lparr>t_obs = obs s, t_next_obs = ob, t_action = clipped, t_reward = r,
                    t_done = done_bool cfg (episode_timesteps s) d\<rparr>
          in list_all (\<lambda>x. - 1 \<le> x \<and> x \<le> 1) clipped
           \<and> rollout_step c cfg s =
               (if length a = length noise \<or> length a = 1 \<or> length noise = 1
                then Inr (s\<lparr>num_timesteps := num_timesteps s + 1,
                            obs := ob,
                            episode_reward := episode_reward s + r,
                            episode_timesteps := episode_timesteps s + 1,
                            done_v := d,
                            calls := calls s
                              @ [if warm then SpaceSample a else SelectAction (obs s) a,
                                 RandomNormal 0 (action_noise_std cfg) (action_dim cfg) noise,
                                 EnvStep (map (\<lambda>x. max_action cfg * x) clipped) ob r d,
                                 BufferAdd tr],
                            world := buffer_add c tr (snd stepped)\<rparr>)
                else Inl ValueError))"
proof -
  let ?warm = "num_timesteps s < start_timesteps cfg"
  let ?chosen = "if ?warm then space_sample c (world s) else select_action c (obs s) (world s)"
  let ?ev = "if ?warm then SpaceSample (fst ?chosen) else SelectAction (obs s) (fst ?chosen)"
  have ca: "choose_action c cfg s =
              (fst ?chosen, s\<lparr>calls := calls s @ [?ev], world := snd ?chosen\<rparr>)"
    by (simp add: choose_action_def record_call_def split: prod.splits)
  have an: "add_noise c cfg a t =
              (case np_add a (fst (random_normal c 0 (action_noise_std cfg) (action_dim cfg) (world t))) of
                 Inl e \<Rightarrow> Inl e
               | Inr raw \<Rightarrow>
                   Inr (map (\<lambda>x. min (max x (- 1)) 1) raw,
                        t\<lparr>calls := calls t
                             @ [RandomNormal 0 (action_noise_std cfg) (action_dim cfg)
                                  (fst (random_normal c 0 (action_noise_std cfg) (action_dim cfg)
                                          (world t)))],
                          world := snd (random_normal c 0 (action_noise_std cfg) (action_dim cfg)
                                          (world t))\<rparr>))" for a t
    using assms
    by (simp add: add_noise_def record_call_def np_clip_def split: prod.splits sum.splits)
  have st: "step_and_store c cfg a t =
              t\<lparr>num_timesteps := num_timesteps t + 1,
                obs := fst (fst (env_step c (map (\<lambda>x. max_action cfg * x) a) (world t))),
                episode_reward := episode_reward t
                  + fst (snd (fst (env_step c (map (\<lambda>x. max_action cfg * x) a) (world t)))),
                episode_timesteps := episode_timesteps t + 1,
                done_v := snd (snd (fst (env_step c (map (\<lambda>x. max_action cfg * x) a) (world t)))),
                calls := calls t
                  @ [EnvStep (map (\<lambda>x. max_action cfg * x) a)
                       (fst (fst (env_step c (map (\<lambda>x. max_action cfg * x) a) (world t))))
                       (fst (snd (fst (env_step c (map (\<lambda>x. max_action cfg * x) a) (world t)))))
                       (snd (snd (fst (env_step c (map (\<lambda>x. max_action cfg * x) a) (world t))))),
                     BufferAdd
                       \<lparr>t_obs = obs t,
                        t_next_obs = fst (fst (env_step c (map (\<lambda>x. max_action cfg * x) a) (world t))),
                        t_action = a,
                        t_reward = fst (snd (fst (env_step c (map (\<lambda>x. max_action cfg * x) a) (world t)))),
                        t_done = done_bool cfg (episode_timesteps t)
                          (snd (snd (fst (env_step c (map (\<lambda>x. max_action cfg * x) a) (world t)))))\<rparr>],
                world := buffer_add c
                       \<lparr>t_obs = obs t,
                        t_next_obs = fst (fst (env_step c (map (\<lambda>x. max_action cfg * x) a) (world t))),
                        t_action = a,
                        t_reward = fst (snd (fst (env_step c (map (\<lambda>x. max_action cfg * x) a) (world t)))),
                        t_done = done_bool cfg (episode_timesteps t)
                          (snd (snd (fst (env_step c (map (\<lambda>x. max_action cfg * x) a) (world t)))))\<rparr>
                       (snd (env_step c (map (\<lambda>x. max_action cfg * x) a) (world t)))\<rparr>" for a t
    by (simp add: step_and_store_def record_call_def np_scale_def Let_def split: prod.splits)
  have add: "np_add xs ys =
               (if length xs = length ys \<or> length xs = 1 \<or> length ys = 1
                then Inr (if length xs = length ys then map (\<lambda>j. xs ! j + ys ! j) [0..<length xs]
                          else if length xs = 1 then map (\<lambda>y. xs ! 0 + y) ys
                          else map (\<lambda>x. x + ys ! 0) xs)
                else Inl ValueError)" for xs ys
  proof -
    have sum: "map2 (+) xs ys = map (\<lambda>j. xs ! j + ys ! j) [0..<length xs]"
      if "length xs = length ys"
      using that by (intro nth_equalityI) simp_all
    have one: "hd zs = zs ! 0" if "length zs = 1" for zs :: "real list"
      using that by (cases zs) simp_all
    show ?thesis
      by (auto simp: np_add_def sum one)
  qed
  have clip: "list_all (\<lambda>x. - 1 \<le> x \<and> x \<le> 1) (map (\<lambda>x. min (max x (- 1)) 1) raw)"
    for raw :: "real list"
    by (simp add: list_all_iff)
  show ?thesis
    unfolding Let_def rollout_step_def ca prod.case an st add
    by (simp add: clip)
qed

theorem noisy_action_clipped_witness:
  "rollout_step (demo_collab 300) demo_config ((new_object 0)\<lparr>num_timesteps := 100\<rparr>)
     = Inr ((new_object 1)
              \<lparr>num_timesteps := 101, obs := [0], episode_reward := 1, episode_timesteps := 1,
               calls := [SelectAction [] [1 / 2], RandomNormal 0 (1 / 10) 1 [1 / 4],
                         EnvStep [3 / 2] [0] 1 False,
                         BufferAdd \<lparr>t_obs = [], t_next_obs = [0], t_action = [3 / 4],
                                    t_reward = 1, t_done = PyFloat 0\<rparr>]\<rparr>)
   \<and> rollout_step (demo_collab 300) demo_config (new_object 0)
     = Inr ((new_object 1)
              \<lparr>num_timesteps := 1, obs := [0], episode_reward := 1, episode_timesteps := 1,
               calls := [SpaceSample [2], RandomNormal 0 (1 / 10) 1 [1 / 4],
                         EnvStep [2] [0] 1 False,
                         BufferAdd \<lparr>t_obs = [], t_next_obs = [0], t_action = [1],
                                    t_reward = 1, t_done = PyFloat 0\<rparr>]\<rparr>)
   \<and> rollout_step (demo_collab 300) (demo_config\<lparr>action_dim := 2\<rparr>) (new_object 0)
     = Inr ((new_object 1)
              \<lparr>num_timesteps := 1, obs := [0], episode_reward := 1, episode_timesteps := 1,
               calls := [SpaceSample [2], RandomNormal 0 (1 / 10) 2 [1 / 4, 1 / 4],
                         EnvStep [2, 2] [0] 1 False,
                         BufferAdd \<lparr>t_obs = [], t_next_obs = [0], t_action = [1, 1],
                                    t_reward = 1, t_done = PyFloat 0\<rparr>]\<rparr>)"
proof -
  have pos: "0 < action_noise_std demo_config" "0 < action_noise_std (demo_config\<lparr>action_dim := 2\<rparr>)"
    by (simp_all add: demo_config_def)
  note t1 = noisy_action_clipped [OF pos(1), where c = "demo_collab 300"
      and s = "(new_object 0)\<lparr>num_timesteps := 100\<rparr>"]
  note t2 = noisy_action_clipped [OF pos(1), where c = "demo_collab 300" and s = "new_object 0"]
  note t3 = noisy_action_clipped [OF pos(2), where c = "demo_collab 300" and s = "new_object 0"]
  from t1 have p1: "rollout_step (demo_collab 300) demo_config ((new_object 0)\<lparr>num_timesteps := 100\<rparr>)
     = Inr ((new_object 1)
              \<lparr>num_timesteps := 101, obs := [0], episode_reward := 1, episode_timesteps := 1,
               calls := [SelectAction [] [1 / 2], RandomNormal 0 (1 / 10) 1 [1 / 4],
                         EnvStep [3 / 2] [0] 1 False,
                         BufferAdd \<lparr>t_obs = [], t_next_obs = [0], t_action = [3 / 4],
                                    t_reward = 1, t_done = PyFloat 0\<rparr>]\<rparr>)"
    by (simp add: Let_def demo_collab_def demo_config_def new_object_def done_bool_def py_float_def)
  from t2 have p2: "rollout_step (demo_collab 300) demo_config (new_object 0)
     = Inr ((new_object 1)
              \<lparr>num_timesteps := 1, obs := [0], episode_reward := 1, episode_timesteps := 1,
               calls := [SpaceSample [2], RandomNormal 0 (1 / 10) 1 [1 / 4],
                         EnvStep [2] [0] 1 False,
                         BufferAdd \<lparr>t_obs = [], t_next_obs = [0], t_action = [1],
                                    t_reward = 1, t_done = PyFloat 0\<rparr>]\<rparr>)"
    by (simp add: Let_def demo_collab_def demo_config_def new_object_def done_bool_def py_float_def)
  from t3 have p3: "rollout_step (demo_collab 300) (demo_config\<lparr>action_dim := 2\<rparr>) (new_object 0)
     = Inr ((new_object 1)
              \<lparr>num_timesteps := 1, obs := [0], episode_reward := 1, episode_timesteps := 1,
               calls := [SpaceSample [2], RandomNormal 0 (1 / 10) 2 [1 / 4, 1 / 4],
                         EnvStep [2, 2] [0] 1 False,
                         BufferAdd \<lparr>t_obs = [], t_next_obs = [0], t_action = [1, 1],
                                    t_reward = 1, t_done = PyFloat 0\<rparr>]\<rparr>)"
    by (simp add: Let_def demo_collab_def demo_config_def new_object_def done_bool_def py_float_def
          eval_nat_numeral)
  from p1 p2 p3 show ?thesis by (intro conjI)
qed

subsection \<open>C9\<close>

text \<open>
  C9.  In a generation that starts with \<open>num_timesteps > 0\<close> and runs to its end, the
  calls are those of ask and callback (\<open>A\<close>), of the gradient phase (\<open>G\<close>), of the
  evaluation (\<open>E\<close>), of the rollouts (\<open>R\<close>) and the tell.  \<open>G\<close> is the training of the
  members \<open>i < n_grad\<close> in index order, started in the world \<open>wa\<close> that ask and callback
  leave.  At the end of the generation slot \<open>i < n_grad\<close> of the population is the vector
  read from the actor after the vector sampled for slot \<open>i\<close> was loaded into actor and
  target, the optimizer made anew and the \<open>2 * (actor_steps div n_grad)\<close> iterations of
  member \<open>i\<close> run, in the world that the members before \<open>i\<close> leave; every slot from
  \<open>n_grad\<close> on is the vector the ask sampled.  No vector is read from the actor outside
  \<open>G\<close> and no environment step comes before \<open>R\<close>; the vectors the rollouts load into the
  actor are exactly that population, in order, and it is the population handed to tell.
\<close>

theorem population_mutated_in_place:
  assumes "generation c cfg cb eval_freq n s = Some (Inr (Continue, s'))"
    and "0 < num_timesteps s"
  shows "\<exists>sa A G E R.
           callback_hook cb (ask_phase c cfg s) = (Continue, sa)
         \<and> new_calls s s' = A @ G @ E @ R @ [EsTell (es_params s') (fitnesses s')]
         \<and> G = phase_calls c cfg (actor_steps s) (fst (es_ask c (pop_size cfg) (world s)))
                 (nat (n_grad cfg)) (world sa)
         \<and> length (es_params s') = length (fst (es_ask c (pop_size cfg) (world s)))
         \<and> nat (n_grad cfg) \<le> length (es_params s')
         \<and> (\<forall>i < nat (n_grad cfg).
               es_params s' ! i =
                 parameters_to_vector c
                   (iterations_world c cfg (nat (2 * (actor_steps s div n_grad cfg)))
                      (new_optimizer c (learning_rate cfg)
                         (target_load_from_vector c
                            (fst (es_ask c (pop_size cfg) (world s)) ! i)
                            (actor_load_from_vector c
                               (fst (es_ask c (pop_size cfg) (world s)) ! i)
                               (phase_world c cfg (actor_steps s)
                                  (fst (es_ask c (pop_size cfg) (world s))) i (world sa)))))))
         \<and> (\<forall>i. nat (n_grad cfg) \<le> i \<and> i < length (es_params s') \<longrightarrow>
               es_params s' ! i = fst (es_ask c (pop_size cfg) (world s)) ! i)
         \<and> loaded_vectors G = take (nat (n_grad cfg)) (fst (es_ask c (pop_size cfg) (world s)))
         \<and> take (nat (n_grad cfg)) (es_params s') = extracted_vectors G
         \<and> drop (nat (n_grad cfg)) (es_params s')
             = drop (nat (n_grad cfg)) (fst (es_ask c (pop_size cfg) (world s)))
         \<and> extracted_vectors (A @ E @ R) = []
         \<and> env_steps (A @ G @ E) = 0
         \<and> loaded_vectors R = es_params s'"
proof -
  let ?P = "fst (es_ask c (pop_size cfg) (world s))"
  let ?k = "nat (n_grad cfg)"
  from generation_phases [OF assms(1)] obtain sa s2 A G E R where
    cb: "callback_hook cb (ask_phase c cfg s) = (Continue, sa)"
    and g: "gradient_phase c cfg sa = Inr s2"
    and sa: "es_params sa = ?P" "num_timesteps sa = num_timesteps s"
            "actor_steps sa = actor_steps s"
    and G: "calls s2 = calls sa @ G"
    and pr: "env_steps A = 0" "extracted_vectors A = []" "env_steps G = 0" "env_steps E = 0"
            "extracted_vectors E = []" "loaded_vectors R = es_params s'"
            "extracted_vectors R = []"
    and es: "es_params s' = es_params s2"
    and nc: "new_calls s s' = A @ G @ E @ R @ [EsTell (es_params s') (fitnesses s')]"
    by blast
  from assms(2) sa(2) have pos: "0 < num_timesteps sa" by simp
  let ?pop = "phase_population c cfg (actor_steps s) ?P ?k (world sa)"
  let ?calls = "phase_calls c cfg (actor_steps s) ?P ?k (world sa)"
  from gradient_phase_Inr_exact [OF g pos]
  have le: "?k \<le> length ?P"
    and s2: "s2 = sa\<lparr>es_params := ?pop, calls := calls sa @ ?calls,
                     world := phase_world c cfg (actor_steps s) ?P ?k (world sa)\<rparr>"
    unfolding sa by simp_all
  have "calls s2 = calls sa @ ?calls" by (subst s2) simp
  with G have Geq: "G = ?calls" by simp
  have pop: "es_params s' = ?pop" unfolding es by (subst s2) simp
  have ncg: "new_calls sa s2 = G" using G by (rule new_calls_append)
  from gradient_phase_Inr [OF g pos]
  have lv: "loaded_vectors G = take ?k ?P" and ev: "extracted_vectors G = take ?k (es_params s')"
    unfolding ncg sa es by simp_all
  have len: "length (es_params s') = length ?P" unfolding pop using le by simp
  have slot: "es_params s' ! i =
                 parameters_to_vector c
                   (iterations_world c cfg (nat (2 * (actor_steps s div n_grad cfg)))
                      (new_optimizer c (learning_rate cfg)
                         (target_load_from_vector c (?P ! i)
                            (actor_load_from_vector c (?P ! i)
                               (phase_world c cfg (actor_steps s) ?P i (world sa))))))"
    if "i < ?k" for i
  proof -
    from that le have "i < length ?P" by simp
    with that le show ?thesis
      unfolding pop
      by (simp add: phase_population_nth member_world_def member_start_def
            member_iterations_def)
  qed
  have rest: "es_params s' ! i = ?P ! i" if "?k \<le> i \<and> i < length (es_params s')" for i
    using that le unfolding len pop by (simp add: phase_population_nth del: phase_world.simps)
  have dr: "drop ?k (es_params s') = drop ?k ?P"
    unfolding pop by (simp add: phase_population_def)
  have x: "extracted_vectors (A @ E @ R) = []" "env_steps (A @ G @ E) = 0"
    using pr by simp_all
  show ?thesis
    apply (rule exI [of _ sa], rule exI [of _ A], rule exI [of _ G], rule exI [of _ E],
           rule exI [of _ R])
    apply (intro conjI allI impI)
    apply (rule cb)
    apply (rule nc)
    apply (rule Geq)
    apply (rule len)
    apply (simp add: len le)
    apply (erule slot)
    apply (erule rest)
    apply (rule lv)
    apply (rule ev [symmetric])
    apply (rule dr)
    apply (rule x)
    apply (rule x)
    apply (rule pr)
    done
qed

theorem population_mutated_in_place_witness:
  "\<exists>s'. generation (train_collab 1) demo_config None (- 1) 5 train_state
           = Some (Inr (Continue, s'))
       \<and> fst (es_ask (train_collab 1) (pop_size demo_config) (world train_state))
           = [[0], [10]]
       \<and> es_params s' = [[2], [10]]
       \<and> extracted_vectors (new_calls train_state s') = [[2]]
       \<and> loaded_vectors (new_calls train_state s') = [[0], [2], [10]]
       \<and> last (calls s') = EsTell [[2], [10]] [1, 1]"
proof -
  obtain s' where g: "generation (train_collab 1) demo_config None (- 1) 5 train_state
           = Some (Inr (Continue, s'))"
    by (simp add: train_defs)
  have pos: "0 < num_timesteps train_state" by (simp add: train_state_def)
  note t = population_mutated_in_place [OF g pos]
  from g have e: "es_params s' = [[2], [10]] \<and> last (calls s') = EsTell [[2], [10]] [1, 1]
     \<and> extracted_vectors (calls s') = [[2]] \<and> loaded_vectors (calls s') = [[0], [2], [10]]"
    by (auto simp: train_defs)
  have "new_calls train_state s' = calls s'"
    by (simp add: new_calls_def train_state_def new_object_def)
  with t g e show ?thesis
    by (intro exI [of _ s']) (simp add: train_collab_def demo_config_def eval_nat_numeral)
qed

subsection \<open>C10\<close>

text \<open>
  C10.  \<^verbatim>\<open>save\<close> and \<^verbatim>\<open>load\<close> turn a path into the same file name: the path itself
  when it ends with \<^verbatim>\<open>.pth\<close>, the path followed by \<^verbatim>\<open>.pth\<close> when it does not.  So
  \<^verbatim>\<open>load\<close> with the path given to \<^verbatim>\<open>save\<close> reads the file that \<^verbatim>\<open>save\<close> wrote: when
  the file of that name can be written, \<^verbatim>\<open>save\<close> stores the state dictionary there and
  changes no other file, and \<^verbatim>\<open>load\<close> with the same path hands that dictionary to
  \<^verbatim>\<open>load_state_dict\<close>; when it cannot, \<^verbatim>\<open>save\<close> raises and writes nothing, and \<^verbatim>\<open>load\<close>
  finds under that name what was there before, or raises when nothing was.
\<close>

theorem save_load_same_file:
  "save_path path = load_path path
   \<and> save_path path = (if endswith path ''.pth'' then path else path @ ''.pth'')
   \<and> load_path path = (if endswith path ''.pth'' then path else path @ ''.pth'')
   \<and> endswith (save_path path) ''.pth''
   \<and> (case save p path w fs of
        Inr fs' \<Rightarrow>
          writable fs (save_path path)
        \<and> fs' = fs\<lparr>files := (files fs)(load_path path \<mapsto> state_dict p w)\<rparr>
        \<and> files fs' (load_path path) = Some (state_dict p w)
        \<and> load p path w' fs' =
            (case load_state_dict p (state_dict p w) w' of
               Inl e \<Rightarrow> Inl e
             | Inr w'' \<Rightarrow> Inr (create_aliases p w''))
      | Inl e \<Rightarrow>
          e = OSError \<and> \<not> writable fs (save_path path)
        \<and> load p path w' fs =
            (case files fs (load_path path) of
               None \<Rightarrow> Inl FileNotFoundError
             | Some d \<Rightarrow>
                 (case load_state_dict p d w' of
                    Inl e \<Rightarrow> Inl e
                  | Inr w'' \<Rightarrow> Inr (create_aliases p w''))))"
  by (simp add: save_path_def load_path_def load_def save_def th_save_def th_load_def
        endswith_def split: option.splits)

theorem save_load_same_file_witness:
  "save_path ''model'' = ''model.pth'' \<and> load_path ''model'' = ''model.pth''
   \<and> save_path ''model.pth'' = ''model.pth'' \<and> load_path ''model.pth'' = ''model.pth''
   \<and> save_path [] = ''.pth''
   \<and> (\<exists>fs'. save demo_persistence ''model'' 7 demo_fs = Inr fs'
           \<and> files fs' ''model.pth'' = Some 7
           \<and> load demo_persistence ''model'' 0 fs' = Inr 7
           \<and> load demo_persistence ''model.pth'' 0 fs' = Inr 7)
   \<and> save demo_persistence [] 7 demo_fs = Inl OSError
   \<and> load demo_persistence [] 0 demo_fs = Inl FileNotFoundError
   \<and> save demo_persistence ''.pth'' 7 demo_fs = Inl OSError"
  using save_load_same_file [where path = "''model''" and p = demo_persistence and w' = 0
      and w = 7 and fs = demo_fs]
    save_load_same_file [where path = "''model.pth''" and p = demo_persistence and w' = 0
      and w = 7 and fs = demo_fs]
    save_load_same_file [where path = "[]" and p = demo_persistence and w' = 0
      and w = 7 and fs = demo_fs]
    save_load_same_file [where path = "''.pth''" and p = demo_persistence and w' = 0
      and w = 7 and fs = demo_fs]
  by (simp add: endswith_def demo_persistence_def demo_fs_def save_def th_save_def load_def
        th_load_def save_path_def load_path_def)

end
